theory Spec2Isabelle
  imports Complex_Main
begin

section \<open>The simplex decision procedure of theory/arith/simplex.cpp\<close>

text \<open>
  This theory embeds \<^verbatim>\<open>SimplexDecisionProcedure\<close> (src/theory/arith/simplex.cpp).
  The member functions of that file are translated statement by statement into state
  passing over the record \<open>SimplexDecisionProcedure\<close>. The collaborators whose code is
  not part of the sources (rationals with an infinitesimal, the term handles, the partial
  model, the reduced rows, the tableau and the two priority queues) are modelled from the
  specification; each such definition says so in its comment.

  The build modelled is the production one: \<^verbatim>\<open>Assert\<close>, \<^verbatim>\<open>Debug\<close> output, timers and the
  \<^verbatim>\<open>paranoid:check_tableau\<close> hooks do nothing there. What an \<^verbatim>\<open>Assert\<close> demands shows up as
  a hypothesis of the theorems that need it.
\<close>

subsection \<open>Variables, rationals, delta-rationals\<close>

type_synonym ArithVar = nat

text \<open>Modelled from the spec: the sentinel that denotes "no variable" (the declaration of
  \<^verbatim>\<open>ARITHVAR_SENTINEL\<close> is missing); \<^verbatim>\<open>ArithVar\<close> is an unsigned 32-bit id and the sentinel its
  largest value.\<close>

definition ARITHVAR_SENTINEL :: ArithVar where
  "ARITHVAR_SENTINEL = 4294967295"

text \<open>\<^verbatim>\<open>std::numeric_limits<uint32_t>::max()\<close>, the start value of \<^verbatim>\<open>numRows\<close> in
  \<^verbatim>\<open>selectSlack\<close>.\<close>

definition UINT32_MAX :: nat where
  "UINT32_MAX = 4294967295"

type_synonym Rational = rat

text \<open>Modelled from the spec: \<^verbatim>\<open>DeltaRational\<close> is the pair \<open>(q, k)\<close> read as
  \<open>q + k\<delta>\<close>, with componentwise addition and subtraction, multiplication by a
  rational, componentwise equality and the lexicographic order on \<open>(q, k)\<close>.\<close>

datatype DeltaRational =
  DeltaRational (getNoninfinitesimalPart: Rational) (getInfinitesimalPart: Rational)

instantiation DeltaRational :: ab_group_add
begin

definition zero_DeltaRational :: DeltaRational where
  "zero_DeltaRational = DeltaRational 0 0"

definition plus_DeltaRational :: "DeltaRational \<Rightarrow> DeltaRational \<Rightarrow> DeltaRational" where
  "plus_DeltaRational a b =
     DeltaRational (getNoninfinitesimalPart a + getNoninfinitesimalPart b)
                   (getInfinitesimalPart a + getInfinitesimalPart b)"

definition minus_DeltaRational :: "DeltaRational \<Rightarrow> DeltaRational \<Rightarrow> DeltaRational" where
  "minus_DeltaRational a b =
     DeltaRational (getNoninfinitesimalPart a - getNoninfinitesimalPart b)
                   (getInfinitesimalPart a - getInfinitesimalPart b)"

definition uminus_DeltaRational :: "DeltaRational \<Rightarrow> DeltaRational" where
  "uminus_DeltaRational a =
     DeltaRational (- getNoninfinitesimalPart a) (- getInfinitesimalPart a)"

instance
  by standard
    (simp_all add: zero_DeltaRational_def plus_DeltaRational_def minus_DeltaRational_def
       uminus_DeltaRational_def)

end

instantiation DeltaRational :: linorder
begin

definition less_eq_DeltaRational :: "DeltaRational \<Rightarrow> DeltaRational \<Rightarrow> bool" where
  "less_eq_DeltaRational a b =
     (getNoninfinitesimalPart a < getNoninfinitesimalPart b \<or>
      (getNoninfinitesimalPart a = getNoninfinitesimalPart b \<and>
       getInfinitesimalPart a \<le> getInfinitesimalPart b))"

definition less_DeltaRational :: "DeltaRational \<Rightarrow> DeltaRational \<Rightarrow> bool" where
  "less_DeltaRational a b =
     (getNoninfinitesimalPart a < getNoninfinitesimalPart b \<or>
      (getNoninfinitesimalPart a = getNoninfinitesimalPart b \<and>
       getInfinitesimalPart a < getInfinitesimalPart b))"

instance
  by standard
    (auto simp add: less_eq_DeltaRational_def less_DeltaRational_def
       DeltaRational.expand)

end

text \<open>\<^verbatim>\<open>DeltaRational::operator*(const Rational&)\<close>.\<close>

definition times_Rational :: "DeltaRational \<Rightarrow> Rational \<Rightarrow> DeltaRational" where
  "times_Rational d a =
     DeltaRational (getNoninfinitesimalPart d * a) (getInfinitesimalPart d * a)"

subsection \<open>Term handles\<close>

text \<open>Modelled from the spec: a term handle is opaque to the engine. All the engine does
  with one is store it, test it for null, compare it, count its children and build an
  \<^verbatim>\<open>AND\<close> node from a list of children. Nodes are hash-consed in the node manager, so
  \<^verbatim>\<open>!=\<close> on nodes is structural inequality.\<close>

datatype Kind = AND | OTHER nat

datatype Node = NullNode | mkNode Kind "Node list"

definition isNull :: "Node \<Rightarrow> bool" where
  "isNull n = (n = NullNode)"

fun getNumChildren :: "Node \<Rightarrow> nat" where
  "getNumChildren NullNode = 0"
| "getNumChildren (mkNode k cs) = length cs"

subsection \<open>Partial model\<close>

text \<open>Modelled from the spec (section 4.1): per variable the assignment, the optional
  lower and upper bound, and for each bound the term that asserted it.\<close>

record ArithPartialModel =
  d_assignment :: "ArithVar \<Rightarrow> DeltaRational"
  d_lowerBound :: "ArithVar \<Rightarrow> DeltaRational option"
  d_upperBound :: "ArithVar \<Rightarrow> DeltaRational option"
  d_lowerConstraint :: "ArithVar \<Rightarrow> Node"
  d_upperConstraint :: "ArithVar \<Rightarrow> Node"

definition setLowerBound :: "ArithPartialModel \<Rightarrow> ArithVar \<Rightarrow> DeltaRational \<Rightarrow> ArithPartialModel" where
  "setLowerBound pm x c = pm\<lparr>d_lowerBound := (d_lowerBound pm)(x := Some c)\<rparr>"

definition setUpperBound :: "ArithPartialModel \<Rightarrow> ArithVar \<Rightarrow> DeltaRational \<Rightarrow> ArithPartialModel" where
  "setUpperBound pm x c = pm\<lparr>d_upperBound := (d_upperBound pm)(x := Some c)\<rparr>"

definition setLowerConstraint :: "ArithPartialModel \<Rightarrow> ArithVar \<Rightarrow> Node \<Rightarrow> ArithPartialModel" where
  "setLowerConstraint pm x t = pm\<lparr>d_lowerConstraint := (d_lowerConstraint pm)(x := t)\<rparr>"

definition setUpperConstraint :: "ArithPartialModel \<Rightarrow> ArithVar \<Rightarrow> Node \<Rightarrow> ArithPartialModel" where
  "setUpperConstraint pm x t = pm\<lparr>d_upperConstraint := (d_upperConstraint pm)(x := t)\<rparr>"

definition hasLowerBound :: "ArithPartialModel \<Rightarrow> ArithVar \<Rightarrow> bool" where
  "hasLowerBound pm x = (d_lowerBound pm x \<noteq> None)"

definition hasUpperBound :: "ArithPartialModel \<Rightarrow> ArithVar \<Rightarrow> bool" where
  "hasUpperBound pm x = (d_upperBound pm x \<noteq> None)"

text \<open>The getters of a bound are only called by the engine behind a test that the bound
  exists; on a variable without the bound they are given the value zero here.\<close>

definition getLowerBound :: "ArithPartialModel \<Rightarrow> ArithVar \<Rightarrow> DeltaRational" where
  "getLowerBound pm x = (case d_lowerBound pm x of Some l \<Rightarrow> l | None \<Rightarrow> 0)"

definition getUpperBound :: "ArithPartialModel \<Rightarrow> ArithVar \<Rightarrow> DeltaRational" where
  "getUpperBound pm x = (case d_upperBound pm x of Some u \<Rightarrow> u | None \<Rightarrow> 0)"

definition getLowerConstraint :: "ArithPartialModel \<Rightarrow> ArithVar \<Rightarrow> Node" where
  "getLowerConstraint pm x = d_lowerConstraint pm x"

definition getUpperConstraint :: "ArithPartialModel \<Rightarrow> ArithVar \<Rightarrow> Node" where
  "getUpperConstraint pm x = d_upperConstraint pm x"

definition setAssignment :: "ArithPartialModel \<Rightarrow> ArithVar \<Rightarrow> DeltaRational \<Rightarrow> ArithPartialModel" where
  "setAssignment pm x v = pm\<lparr>d_assignment := (d_assignment pm)(x := v)\<rparr>"

definition getAssignment :: "ArithPartialModel \<Rightarrow> ArithVar \<Rightarrow> DeltaRational" where
  "getAssignment pm x = d_assignment pm x"

definition belowLowerBound :: "ArithPartialModel \<Rightarrow> ArithVar \<Rightarrow> DeltaRational \<Rightarrow> bool \<Rightarrow> bool" where
  "belowLowerBound pm x c strict =
     (case d_lowerBound pm x of
        None \<Rightarrow> False
      | Some l \<Rightarrow> if strict then c < l else c \<le> l)"

definition aboveUpperBound :: "ArithPartialModel \<Rightarrow> ArithVar \<Rightarrow> DeltaRational \<Rightarrow> bool \<Rightarrow> bool" where
  "aboveUpperBound pm x c strict =
     (case d_upperBound pm x of
        None \<Rightarrow> False
      | Some u \<Rightarrow> if strict then c > u else c \<ge> u)"

definition strictlyBelowUpperBound :: "ArithPartialModel \<Rightarrow> ArithVar \<Rightarrow> bool" where
  "strictlyBelowUpperBound pm x =
     (case d_upperBound pm x of None \<Rightarrow> True | Some u \<Rightarrow> d_assignment pm x < u)"

definition strictlyAboveLowerBound :: "ArithPartialModel \<Rightarrow> ArithVar \<Rightarrow> bool" where
  "strictlyAboveLowerBound pm x =
     (case d_lowerBound pm x of None \<Rightarrow> True | Some l \<Rightarrow> l < d_assignment pm x)"

definition assignmentIsConsistent :: "ArithPartialModel \<Rightarrow> ArithVar \<Rightarrow> bool" where
  "assignmentIsConsistent pm x =
     (\<not> belowLowerBound pm x (getAssignment pm x) True \<and>
      \<not> aboveUpperBound pm x (getAssignment pm x) True)"

subsection \<open>Reduced rows and the tableau\<close>

text \<open>Modelled from the spec (section 3, ReducedRow): the row of a basic variable \<open>xb\<close>
  is the sequence of its non-zero entries \<open>(variable, coefficient)\<close> in iteration order
  (increasing variable id, the sorted sparse vector of the design notes); the entry of
  \<open>xb\<close> itself is part of the row, with coefficient \<open>-1\<close>.\<close>

type_synonym ReducedRowVector = "(ArithVar \<times> Rational) list"

definition has :: "ReducedRowVector \<Rightarrow> ArithVar \<Rightarrow> bool" where
  "has row x = (map_of row x \<noteq> None)"

text \<open>\<^verbatim>\<open>ReducedRowVector::lookup\<close>; the engine calls it on variables of the row only, and
  the coefficient of a variable outside the row is zero.\<close>

definition lookup :: "ReducedRowVector \<Rightarrow> ArithVar \<Rightarrow> Rational" where
  "lookup row x = (case map_of row x of Some a \<Rightarrow> a | None \<Rightarrow> 0)"

text \<open>Modelled from the spec (section 4.2): multiplying a row by a constant, and adding
  \<open>c\<close> times a row to another one, entries with a zero result being dropped
  ("in-place linear combination").\<close>

definition multiply :: "ReducedRowVector \<Rightarrow> Rational \<Rightarrow> ReducedRowVector" where
  "multiply row c = map (\<lambda>(x, a). (x, a * c)) row"

fun addRowTimesConstant :: "Rational \<Rightarrow> ReducedRowVector \<Rightarrow> ReducedRowVector \<Rightarrow> ReducedRowVector" where
  "addRowTimesConstant c [] [] = []"
| "addRowTimesConstant c ((x, a) # xs) [] = (x, a) # addRowTimesConstant c xs []"
| "addRowTimesConstant c [] ((y, b) # ys) =
     (if c * b = 0 then addRowTimesConstant c [] ys
      else (y, c * b) # addRowTimesConstant c [] ys)"
| "addRowTimesConstant c ((x, a) # xs) ((y, b) # ys) =
     (if x < y then (x, a) # addRowTimesConstant c xs ((y, b) # ys)
      else if y < x then
        (if c * b = 0 then addRowTimesConstant c ((x, a) # xs) ys
         else (y, c * b) # addRowTimesConstant c ((x, a) # xs) ys)
      else
        (if a + c * b = 0 then addRowTimesConstant c xs ys
         else (x, a + c * b) # addRowTimesConstant c xs ys))"

text \<open>Modelled from the spec: solving the row of the leaving variable for \<open>x_j\<close>
  (every entry is multiplied by \<open>-1/a\<close>, \<open>a\<close> the coefficient of \<open>x_j\<close>, which thereby
  gets the coefficient \<open>-1\<close>), and substituting a solved row into a row that mentions
  its basic variable.\<close>

definition ReducedRowVector_pivot :: "ReducedRowVector \<Rightarrow> ArithVar \<Rightarrow> ReducedRowVector" where
  "ReducedRowVector_pivot row x_j = multiply row (- inverse (lookup row x_j))"

definition substitute :: "ReducedRowVector \<Rightarrow> ArithVar \<Rightarrow> ReducedRowVector \<Rightarrow> ReducedRowVector" where
  "substitute row_k x_s row_s = addRowTimesConstant (lookup row_k x_s) row_k row_s"

text \<open>Modelled from the spec (sections 3 and 4.2): the tableau is the set of basic
  variables, in iteration order, and the row of each.\<close>

record Tableau =
  d_activeBasicVars :: "ArithVar list"
  d_rowsTable :: "ArithVar \<Rightarrow> ReducedRowVector"

definition Tableau_lookup :: "Tableau \<Rightarrow> ArithVar \<Rightarrow> ReducedRowVector" where
  "Tableau_lookup t basic = d_rowsTable t basic"

text \<open>Modelled from the spec: \<open>getRowCount\<close> is the number of rows in which the variable
  appears with a non-zero coefficient.\<close>

definition getRowCount :: "Tableau \<Rightarrow> ArithVar \<Rightarrow> nat" where
  "getRowCount t x = length (filter (\<lambda>b. has (d_rowsTable t b) x) (d_activeBasicVars t))"

text \<open>Modelled from the spec: \<open>pivot(xi, xj)\<close> solves the row of \<open>xi\<close> for \<open>xj\<close>, makes
  \<open>xj\<close> basic and \<open>xi\<close> non-basic, and substitutes the solved row into every other row
  that mentions \<open>xj\<close>.\<close>

definition Tableau_pivot :: "Tableau \<Rightarrow> ArithVar \<Rightarrow> ArithVar \<Rightarrow> Tableau" where
  "Tableau_pivot t x_r x_s =
     (let row_s = ReducedRowVector_pivot (Tableau_lookup t x_r) x_s;
          basics = remove1 x_r (d_activeBasicVars t) @ [x_s]
      in \<lparr>d_activeBasicVars = basics,
          d_rowsTable = (\<lambda>b.
            if b = x_s then row_s
            else if b = x_r then []
            else if b \<in> set basics \<and> has (d_rowsTable t b) x_s
              then substitute (d_rowsTable t b) x_s row_s
            else d_rowsTable t b)\<rparr>)"

subsection \<open>The two work queues\<close>

text \<open>Modelled from the spec (section 3, inconsistency queues): the Griggio queue is a
  max-heap of pairs (variable, violation) by violation, the Bland queue a min-heap of
  variables by id. A queue is kept as the list of its entries in the order in which
  \<open>top\<close>/\<open>pop\<close> would deliver them: \<open>top\<close> is the head, \<open>pop\<close> drops the head.\<close>

type_synonym VarDRatPair = "ArithVar \<times> DeltaRational"

type_synonym GriggioPQueue = "VarDRatPair list"

fun GriggioPQueue_push :: "VarDRatPair \<Rightarrow> GriggioPQueue \<Rightarrow> GriggioPQueue" where
  "GriggioPQueue_push e [] = [e]"
| "GriggioPQueue_push e (h # q) =
     (if snd h < snd e then e # h # q else h # GriggioPQueue_push e q)"

type_synonym ArithVarPQueue = "ArithVar list"

definition ArithVarPQueue_push :: "ArithVar \<Rightarrow> ArithVarPQueue \<Rightarrow> ArithVarPQueue" where
  "ArithVarPQueue_push x q = insort x q"

subsection \<open>The state of the engine\<close>

record Statistics =
  d_statPivots :: nat
  d_statUpdates :: nat
  d_statAssertUpperConflicts :: nat
  d_statAssertLowerConflicts :: nat
  d_statUpdateConflicts :: nat
  d_statEjections :: nat
  d_statUnEjections :: nat
  d_statEarlyConflicts :: nat
  d_statEarlyConflictImprovements :: nat
  d_pivotsAfterConflict :: nat
  d_checksWithWastefulPivots :: nat

text \<open>The conflict sink \<^verbatim>\<open>d_out\<close> is the list of the nodes passed to
  \<^verbatim>\<open>d_out->conflict\<close>, oldest first.\<close>

record SimplexDecisionProcedure =
  d_partialModel :: ArithPartialModel
  d_tableau :: Tableau
  d_activityMonitor :: "ArithVar \<Rightarrow> nat"
  d_out :: "Node list"
  d_numVariables :: nat
  d_griggioRuleQueue :: GriggioPQueue
  d_possiblyInconsistent :: ArithVarPQueue
  d_pivotStage :: bool
  d_foundAConflict :: bool
  d_pivotsSinceConflict :: nat
  d_statistics :: Statistics

text \<open>Modelled from the spec (Basic Manager, "variable is currently basic"): the basic
  manager is one object shared by the engine and its tableau, and a variable is basic
  exactly when it owns a row of the tableau.\<close>

definition d_basicManager :: "SimplexDecisionProcedure \<Rightarrow> ArithVar set" where
  "d_basicManager s = set (d_activeBasicVars (d_tableau s))"

definition isMember :: "ArithVar set \<Rightarrow> ArithVar \<Rightarrow> bool" where
  "isMember m x = (x \<in> m)"

subsection \<open>checkBasicVariable, update, the three assertions\<close>

definition checkBasicVariable :: "SimplexDecisionProcedure \<Rightarrow> ArithVar \<Rightarrow> SimplexDecisionProcedure" where
  "checkBasicVariable s basic =
     (if \<not> assignmentIsConsistent (d_partialModel s) basic then
        (if d_pivotStage s then
           (let beta = getAssignment (d_partialModel s) basic;
                diff = (if belowLowerBound (d_partialModel s) basic beta True
                        then getLowerBound (d_partialModel s) basic - beta
                        else beta - getUpperBound (d_partialModel s) basic)
            in s\<lparr>d_griggioRuleQueue := GriggioPQueue_push (basic, diff) (d_griggioRuleQueue s)\<rparr>)
         else s\<lparr>d_possiblyInconsistent := ArithVarPQueue_push basic (d_possiblyInconsistent s)\<rparr>)
      else s)"

text \<open>The loop of \<^verbatim>\<open>update\<close> over the basic variables of the tableau; the activity
  counter is a \<^verbatim>\<open>uint64_t\<close>.\<close>

fun update_loop :: "ArithVar \<Rightarrow> DeltaRational \<Rightarrow> ArithVar list \<Rightarrow> SimplexDecisionProcedure \<Rightarrow> SimplexDecisionProcedure" where
  "update_loop x_i diff [] s = s"
| "update_loop x_i diff (x_j # basics) s =
     (let row_j = Tableau_lookup (d_tableau s) x_j in
      if has row_j x_i then
        (let a_ji = lookup row_j x_i;
             assignment = getAssignment (d_partialModel s) x_j;
             nAssignment = assignment + times_Rational diff a_ji;
             s1 = s\<lparr>d_partialModel := setAssignment (d_partialModel s) x_j nAssignment\<rparr>;
             s2 = s1\<lparr>d_activityMonitor :=
                    (d_activityMonitor s1)(x_j := (d_activityMonitor s1 x_j + 1) mod 2 ^ 64)\<rparr>;
             s3 = checkBasicVariable s2 x_j
         in update_loop x_i diff basics s3)
      else update_loop x_i diff basics s)"

definition update :: "SimplexDecisionProcedure \<Rightarrow> ArithVar \<Rightarrow> DeltaRational \<Rightarrow> SimplexDecisionProcedure" where
  "update s x_i v =
     (let assignment_x_i = getAssignment (d_partialModel s) x_i;
          s1 = s\<lparr>d_statistics := (d_statistics s)
                 \<lparr>d_statUpdates := d_statUpdates (d_statistics s) + 1\<rparr>\<rparr>;
          diff = v - assignment_x_i;
          s2 = update_loop x_i diff (d_activeBasicVars (d_tableau s1)) s1
      in s2\<lparr>d_partialModel := setAssignment (d_partialModel s2) x_i v\<rparr>)"

definition AssertLower :: "SimplexDecisionProcedure \<Rightarrow> ArithVar \<Rightarrow> DeltaRational \<Rightarrow> Node \<Rightarrow> bool \<times> SimplexDecisionProcedure" where
  "AssertLower s x_i c_i original =
     (if belowLowerBound (d_partialModel s) x_i c_i False then (False, s)
      else if aboveUpperBound (d_partialModel s) x_i c_i True then
        (let ubc = getUpperConstraint (d_partialModel s) x_i;
             conflict = mkNode AND [ubc, original];
             s1 = s\<lparr>d_out := d_out s @ [conflict]\<rparr>;
             s2 = s1\<lparr>d_statistics := (d_statistics s1)
                    \<lparr>d_statAssertLowerConflicts := d_statAssertLowerConflicts (d_statistics s1) + 1\<rparr>\<rparr>
         in (True, s2))
      else
        (let s1 = s\<lparr>d_partialModel := setLowerConstraint (d_partialModel s) x_i original\<rparr>;
             s2 = s1\<lparr>d_partialModel := setLowerBound (d_partialModel s1) x_i c_i\<rparr>;
             s3 = s2\<lparr>d_activityMonitor := (d_activityMonitor s2)(x_i := 0)\<rparr>;
             s4 = (if \<not> isMember (d_basicManager s3) x_i then
                     (if getAssignment (d_partialModel s3) x_i < c_i then update s3 x_i c_i else s3)
                   else checkBasicVariable s3 x_i)
         in (False, s4)))"

definition AssertUpper :: "SimplexDecisionProcedure \<Rightarrow> ArithVar \<Rightarrow> DeltaRational \<Rightarrow> Node \<Rightarrow> bool \<times> SimplexDecisionProcedure" where
  "AssertUpper s x_i c_i original =
     (if aboveUpperBound (d_partialModel s) x_i c_i False then (False, s)
      else if belowLowerBound (d_partialModel s) x_i c_i True then
        (let lbc = getLowerConstraint (d_partialModel s) x_i;
             conflict = mkNode AND [lbc, original];
             s1 = s\<lparr>d_statistics := (d_statistics s)
                    \<lparr>d_statAssertUpperConflicts := d_statAssertUpperConflicts (d_statistics s) + 1\<rparr>\<rparr>;
             s2 = s1\<lparr>d_out := d_out s1 @ [conflict]\<rparr>
         in (True, s2))
      else
        (let s1 = s\<lparr>d_partialModel := setUpperConstraint (d_partialModel s) x_i original\<rparr>;
             s2 = s1\<lparr>d_partialModel := setUpperBound (d_partialModel s1) x_i c_i\<rparr>;
             s3 = s2\<lparr>d_activityMonitor := (d_activityMonitor s2)(x_i := 0)\<rparr>;
             s4 = (if \<not> isMember (d_basicManager s3) x_i then
                     (if getAssignment (d_partialModel s3) x_i > c_i then update s3 x_i c_i else s3)
                   else checkBasicVariable s3 x_i)
         in (False, s4)))"


subsection \<open>Selecting the slack variable\<close>

text \<open>The loop of \<^verbatim>\<open>selectSlack<above>\<close> over the non-zero entries of the row, with its
  two locals \<^verbatim>\<open>slack\<close> and \<^verbatim>\<open>numRows\<close>; a \<^verbatim>\<open>break\<close> ends the recursion. The template
  parameter \<^verbatim>\<open>above\<close> is the argument \<open>is_above\<close>.\<close>

fun selectSlack_loop :: "bool \<Rightarrow> SimplexDecisionProcedure \<Rightarrow> ArithVar \<Rightarrow> ReducedRowVector \<Rightarrow> ArithVar \<Rightarrow> nat \<Rightarrow> ArithVar" where
  "selectSlack_loop is_above s x_i [] slack numRows = slack"
| "selectSlack_loop is_above s x_i ((nonbasic, a_ij) # nbi) slack numRows =
     (if nonbasic = x_i then selectSlack_loop is_above s x_i nbi slack numRows
      else if is_above then
        (if a_ij < 0 \<and> strictlyBelowUpperBound (d_partialModel s) nonbasic then
           (if d_pivotStage s then
              (if getRowCount (d_tableau s) nonbasic < numRows
               then selectSlack_loop is_above s x_i nbi nonbasic (getRowCount (d_tableau s) nonbasic)
               else selectSlack_loop is_above s x_i nbi slack numRows)
            else nonbasic)
         else if a_ij > 0 \<and> strictlyAboveLowerBound (d_partialModel s) nonbasic then
           (if d_pivotStage s then
              (if getRowCount (d_tableau s) nonbasic < numRows
               then selectSlack_loop is_above s x_i nbi nonbasic (getRowCount (d_tableau s) nonbasic)
               else selectSlack_loop is_above s x_i nbi slack numRows)
            else nonbasic)
         else selectSlack_loop is_above s x_i nbi slack numRows)
      else
        (if a_ij > 0 \<and> strictlyBelowUpperBound (d_partialModel s) nonbasic then
           (if d_pivotStage s then
              (if getRowCount (d_tableau s) nonbasic < numRows
               then selectSlack_loop is_above s x_i nbi nonbasic (getRowCount (d_tableau s) nonbasic)
               else selectSlack_loop is_above s x_i nbi slack numRows)
            else nonbasic)
         else if a_ij < 0 \<and> strictlyAboveLowerBound (d_partialModel s) nonbasic then
           (if d_pivotStage s then
              (if getRowCount (d_tableau s) nonbasic < numRows
               then selectSlack_loop is_above s x_i nbi nonbasic (getRowCount (d_tableau s) nonbasic)
               else selectSlack_loop is_above s x_i nbi slack numRows)
            else nonbasic)
         else selectSlack_loop is_above s x_i nbi slack numRows))"

definition selectSlack :: "bool \<Rightarrow> SimplexDecisionProcedure \<Rightarrow> ArithVar \<Rightarrow> ArithVar" where
  "selectSlack is_above s x_i =
     (let row_i = Tableau_lookup (d_tableau s) x_i
      in selectSlack_loop is_above s x_i row_i ARITHVAR_SENTINEL UINT32_MAX)"

definition selectSlackBelow :: "SimplexDecisionProcedure \<Rightarrow> ArithVar \<Rightarrow> ArithVar" where
  "selectSlackBelow s x_i = selectSlack False s x_i"

definition selectSlackAbove :: "SimplexDecisionProcedure \<Rightarrow> ArithVar \<Rightarrow> ArithVar" where
  "selectSlackAbove s x_i = selectSlack True s x_i"

subsection \<open>Generating conflicts\<close>

text \<open>The loops of \<^verbatim>\<open>generateConflictAbove\<close> and \<^verbatim>\<open>generateConflictBelow\<close> over the
  row; \<open>nb\<close> is the list of children the node builder has collected so far.\<close>

fun generateConflictAbove_loop :: "ArithPartialModel \<Rightarrow> ArithVar \<Rightarrow> ReducedRowVector \<Rightarrow> Node list \<Rightarrow> Node list" where
  "generateConflictAbove_loop pm conflictVar [] nb = nb"
| "generateConflictAbove_loop pm conflictVar ((nonbasic, a_ij) # nbi) nb =
     (if nonbasic = conflictVar then generateConflictAbove_loop pm conflictVar nbi nb
      else if a_ij < 0
        then generateConflictAbove_loop pm conflictVar nbi (nb @ [getUpperConstraint pm nonbasic])
        else generateConflictAbove_loop pm conflictVar nbi (nb @ [getLowerConstraint pm nonbasic]))"

definition generateConflictAbove :: "SimplexDecisionProcedure \<Rightarrow> ArithVar \<Rightarrow> Node" where
  "generateConflictAbove s conflictVar =
     (let row_i = Tableau_lookup (d_tableau s) conflictVar;
          bound = getUpperConstraint (d_partialModel s) conflictVar
      in mkNode AND (generateConflictAbove_loop (d_partialModel s) conflictVar row_i [bound]))"

fun generateConflictBelow_loop :: "ArithPartialModel \<Rightarrow> ArithVar \<Rightarrow> ReducedRowVector \<Rightarrow> Node list \<Rightarrow> Node list" where
  "generateConflictBelow_loop pm conflictVar [] nb = nb"
| "generateConflictBelow_loop pm conflictVar ((nonbasic, a_ij) # nbi) nb =
     (if nonbasic = conflictVar then generateConflictBelow_loop pm conflictVar nbi nb
      else if a_ij < 0
        then generateConflictBelow_loop pm conflictVar nbi (nb @ [getLowerConstraint pm nonbasic])
        else generateConflictBelow_loop pm conflictVar nbi (nb @ [getUpperConstraint pm nonbasic]))"

definition generateConflictBelow :: "SimplexDecisionProcedure \<Rightarrow> ArithVar \<Rightarrow> Node" where
  "generateConflictBelow s conflictVar =
     (let row_i = Tableau_lookup (d_tableau s) conflictVar;
          bound = getLowerConstraint (d_partialModel s) conflictVar
      in mkNode AND (generateConflictBelow_loop (d_partialModel s) conflictVar row_i [bound]))"

definition checkBasicForConflict :: "SimplexDecisionProcedure \<Rightarrow> ArithVar \<Rightarrow> Node" where
  "checkBasicForConflict s basic =
     (let beta = getAssignment (d_partialModel s) basic in
      if belowLowerBound (d_partialModel s) basic beta True then
        (let x_j = selectSlackBelow s basic in
         if x_j = ARITHVAR_SENTINEL then generateConflictBelow s basic else NullNode)
      else if aboveUpperBound (d_partialModel s) basic beta True then
        (let x_j = selectSlackAbove s basic in
         if x_j = ARITHVAR_SENTINEL then generateConflictAbove s basic else NullNode)
      else NullNode)"

subsection \<open>pivotAndUpdate\<close>

text \<open>The loop of \<^verbatim>\<open>pivotAndUpdate\<close> over the basic variables. The source increments the
  activity of \<open>x_j\<close> here (not of \<open>x_k\<close>).\<close>

fun pivotAndUpdate_loop :: "ArithVar \<Rightarrow> ArithVar \<Rightarrow> DeltaRational \<Rightarrow> ArithVar list \<Rightarrow> SimplexDecisionProcedure \<Rightarrow> SimplexDecisionProcedure" where
  "pivotAndUpdate_loop x_i x_j theta [] s = s"
| "pivotAndUpdate_loop x_i x_j theta (x_k # basics) s =
     (let row_k = Tableau_lookup (d_tableau s) x_k in
      if x_k \<noteq> x_i \<and> has row_k x_j then
        (let a_kj = lookup row_k x_j;
             nextAssignment = getAssignment (d_partialModel s) x_k + times_Rational theta a_kj;
             s1 = s\<lparr>d_partialModel := setAssignment (d_partialModel s) x_k nextAssignment\<rparr>;
             s2 = s1\<lparr>d_activityMonitor :=
                    (d_activityMonitor s1)(x_j := (d_activityMonitor s1 x_j + 1) mod 2 ^ 64)\<rparr>;
             s3 = checkBasicVariable s2 x_k
         in pivotAndUpdate_loop x_i x_j theta basics s3)
      else pivotAndUpdate_loop x_i x_j theta basics s)"

text \<open>The block of \<^verbatim>\<open>pivotAndUpdate\<close> under the comment \<^verbatim>\<open>// Pivots\<close>: the statistics
  of the pivot.\<close>

definition pivotAndUpdate_countPivot :: "SimplexDecisionProcedure \<Rightarrow> SimplexDecisionProcedure" where
  "pivotAndUpdate_countPivot s =
     (let s4 = s\<lparr>d_statistics := (d_statistics s)
                 \<lparr>d_statPivots := d_statPivots (d_statistics s) + 1\<rparr>\<rparr>
      in if d_foundAConflict s4 then
           (let t1 = s4\<lparr>d_pivotsSinceConflict := d_pivotsSinceConflict s4 + 1\<rparr>;
                t2 = (if d_pivotsSinceConflict t1 = 1 then
                        t1\<lparr>d_statistics := (d_statistics t1)
                          \<lparr>d_checksWithWastefulPivots :=
                             d_checksWithWastefulPivots (d_statistics t1) + 1\<rparr>\<rparr>
                      else t1)
            in t2\<lparr>d_statistics := (d_statistics t2)
                 \<lparr>d_pivotsAfterConflict := d_pivotsAfterConflict (d_statistics t2) + 1\<rparr>\<rparr>)
         else s4)"

text \<open>The block of \<^verbatim>\<open>pivotAndUpdate\<close> under the comment
  \<^verbatim>\<open>// Debug found conflict\<close>.\<close>

definition pivotAndUpdate_debugFoundConflict :: "SimplexDecisionProcedure \<Rightarrow> ArithVar \<Rightarrow> SimplexDecisionProcedure" where
  "pivotAndUpdate_debugFoundConflict s x_j =
     (if \<not> d_foundAConflict s then
        (let beta_j = getAssignment (d_partialModel s) x_j in
         if belowLowerBound (d_partialModel s) x_j beta_j True then
           (if selectSlackBelow s x_j = ARITHVAR_SENTINEL
            then s\<lparr>d_foundAConflict := True\<rparr> else s)
         else if aboveUpperBound (d_partialModel s) x_j beta_j True then
           (if selectSlackAbove s x_j = ARITHVAR_SENTINEL
            then s\<lparr>d_foundAConflict := True\<rparr> else s)
         else s)
      else s)"

text \<open>\<^verbatim>\<open>a_ij.inverse()\<close> of a zero coefficient divides by zero in the rational library and
  ends the process: the result \<open>None\<close>.\<close>

definition pivotAndUpdate :: "SimplexDecisionProcedure \<Rightarrow> ArithVar \<Rightarrow> ArithVar \<Rightarrow> DeltaRational \<Rightarrow> SimplexDecisionProcedure option" where
  "pivotAndUpdate s x_i x_j v =
     (let row_i = Tableau_lookup (d_tableau s) x_i;
          a_ij = lookup row_i x_j;
          betaX_i = getAssignment (d_partialModel s) x_i
      in if a_ij = 0 then None
      else
        (let inv_aij = inverse a_ij;
             theta = times_Rational (v - betaX_i) inv_aij;
             s1 = s\<lparr>d_partialModel := setAssignment (d_partialModel s) x_i v\<rparr>;
             tmp = getAssignment (d_partialModel s1) x_j + theta;
             s2 = s1\<lparr>d_partialModel := setAssignment (d_partialModel s1) x_j tmp\<rparr>;
             s3 = pivotAndUpdate_loop x_i x_j theta (d_activeBasicVars (d_tableau s2)) s2;
             s4 = pivotAndUpdate_countPivot s3;
             s5 = s4\<lparr>d_tableau := Tableau_pivot (d_tableau s4) x_i x_j\<rparr>;
             s6 = checkBasicVariable s5 x_j;
             s7 = pivotAndUpdate_debugFoundConflict s6 x_j
         in Some s7))"

subsection \<open>Selecting the inconsistent variable\<close>

text \<open>The two \<^verbatim>\<open>while\<close> loops of \<^verbatim>\<open>selectSmallestInconsistentVar\<close>: each returns the
  variable found (or the sentinel) and what is left of the queue.\<close>

fun selectSmallestInconsistentVar_griggio :: "SimplexDecisionProcedure \<Rightarrow> GriggioPQueue \<Rightarrow> ArithVar \<times> GriggioPQueue" where
  "selectSmallestInconsistentVar_griggio s [] = (ARITHVAR_SENTINEL, [])"
| "selectSmallestInconsistentVar_griggio s (top_pair # q) =
     (let var = fst top_pair in
      if isMember (d_basicManager s) var \<and> \<not> assignmentIsConsistent (d_partialModel s) var
      then (var, top_pair # q)
      else selectSmallestInconsistentVar_griggio s q)"

fun selectSmallestInconsistentVar_bland :: "SimplexDecisionProcedure \<Rightarrow> ArithVarPQueue \<Rightarrow> ArithVar \<times> ArithVarPQueue" where
  "selectSmallestInconsistentVar_bland s [] = (ARITHVAR_SENTINEL, [])"
| "selectSmallestInconsistentVar_bland s (var # q) =
     (if isMember (d_basicManager s) var \<and> \<not> assignmentIsConsistent (d_partialModel s) var
      then (var, var # q)
      else selectSmallestInconsistentVar_bland s q)"

definition selectSmallestInconsistentVar :: "SimplexDecisionProcedure \<Rightarrow> ArithVar \<times> SimplexDecisionProcedure" where
  "selectSmallestInconsistentVar s =
     (if d_pivotStage s then
        (case selectSmallestInconsistentVar_griggio s (d_griggioRuleQueue s) of
           (var, q) \<Rightarrow> (var, s\<lparr>d_griggioRuleQueue := q\<rparr>))
      else
        (case selectSmallestInconsistentVar_bland s (d_possiblyInconsistent s) of
           (var, q) \<Rightarrow> (var, s\<lparr>d_possiblyInconsistent := q\<rparr>)))"

subsection \<open>The initial conflict\<close>

definition betterConflict :: "Node \<Rightarrow> Node \<Rightarrow> Node" where
  "betterConflict x y =
     (if isNull x then y
      else if isNull y then x
      else if getNumChildren x \<le> getNumChildren y then x
      else y)"

text \<open>The first loop of \<^verbatim>\<open>selectInitialConflict\<close> empties the Griggio queue and collects
  in \<open>init\<close> the entries whose variable is basic and inconsistent.\<close>

fun selectInitialConflict_collect :: "SimplexDecisionProcedure \<Rightarrow> GriggioPQueue \<Rightarrow> VarDRatPair list \<Rightarrow> VarDRatPair list" where
  "selectInitialConflict_collect s [] init = init"
| "selectInitialConflict_collect s (top_pair # q) init =
     (let var = fst top_pair in
      if isMember (d_basicManager s) var then
        (if \<not> assignmentIsConsistent (d_partialModel s) var
         then selectInitialConflict_collect s q (init @ [top_pair])
         else selectInitialConflict_collect s q init)
      else selectInitialConflict_collect s q init)"

text \<open>The second loop, over \<open>init\<close>, with the locals \<open>bestConflict\<close> and
  \<open>conflictChanges\<close>.\<close>

fun selectInitialConflict_loop :: "VarDRatPair list \<Rightarrow> SimplexDecisionProcedure \<Rightarrow> Node \<Rightarrow> nat \<Rightarrow> SimplexDecisionProcedure \<times> Node \<times> nat" where
  "selectInitialConflict_loop [] s bestConflict conflictChanges = (s, bestConflict, conflictChanges)"
| "selectInitialConflict_loop (i # init) s bestConflict conflictChanges =
     (let x_i = fst i;
          s1 = s\<lparr>d_griggioRuleQueue := GriggioPQueue_push i (d_griggioRuleQueue s)\<rparr>;
          possibleConflict = checkBasicForConflict s1 x_i
      in if \<not> isNull possibleConflict then
           (let better = betterConflict bestConflict possibleConflict;
                conflictChanges1 = (if better \<noteq> bestConflict then conflictChanges + 1 else conflictChanges);
                s2 = s1\<lparr>d_statistics := (d_statistics s1)
                       \<lparr>d_statEarlyConflicts := d_statEarlyConflicts (d_statistics s1) + 1\<rparr>\<rparr>
            in selectInitialConflict_loop init s2 better conflictChanges1)
         else selectInitialConflict_loop init s1 bestConflict conflictChanges)"

definition selectInitialConflict :: "SimplexDecisionProcedure \<Rightarrow> Node \<times> SimplexDecisionProcedure" where
  "selectInitialConflict s =
     (let init = selectInitialConflict_collect s (d_griggioRuleQueue s) [];
          s1 = s\<lparr>d_griggioRuleQueue := []\<rparr>
      in case selectInitialConflict_loop init s1 NullNode 0 of
           (s2, bestConflict, conflictChanges) \<Rightarrow>
             (bestConflict,
              if conflictChanges > 1
              then s2\<lparr>d_statistics := (d_statistics s2)
                     \<lparr>d_statEarlyConflictImprovements :=
                        d_statEarlyConflictImprovements (d_statistics s2) + 1\<rparr>\<rparr>
              else s2))"

subsection \<open>The main loop\<close>

text \<open>One pass through the body of the \<^verbatim>\<open>while\<close> loop of
  \<^verbatim>\<open>privateUpdateInconsistentVars\<close>: it returns a node, or goes on to the next
  iteration, or the process ends (\<open>Abort\<close>: \<^verbatim>\<open>pivotAndUpdate\<close> divided by zero, or the
  variable selected is inside both of its bounds, where the source goes on with the
  sentinel as a variable).\<close>

datatype LoopStep =
  Return Node SimplexDecisionProcedure
| Continue SimplexDecisionProcedure
| Abort

definition privateUpdateInconsistentVars_body :: "SimplexDecisionProcedure \<Rightarrow> LoopStep" where
  "privateUpdateInconsistentVars_body s =
     (case selectSmallestInconsistentVar s of (x_i, s1) \<Rightarrow>
        if x_i = ARITHVAR_SENTINEL then Return NullNode s1
        else
          (let beta_i = getAssignment (d_partialModel s1) x_i in
           if belowLowerBound (d_partialModel s1) x_i beta_i True then
             (let l_i = getLowerBound (d_partialModel s1) x_i;
                  x_j = selectSlackBelow s1 x_i
              in if x_j = ARITHVAR_SENTINEL then
                   (let s2 = s1\<lparr>d_statistics := (d_statistics s1)
                          \<lparr>d_statUpdateConflicts := d_statUpdateConflicts (d_statistics s1) + 1\<rparr>\<rparr>
                    in Return (generateConflictBelow s2 x_i) s2)
                 else
                   (case pivotAndUpdate s1 x_i x_j l_i of
                      None \<Rightarrow> Abort
                    | Some s2 \<Rightarrow>
                        (let earlyConflict = checkBasicForConflict s2 x_j in
                         if \<not> isNull earlyConflict then Return earlyConflict s2 else Continue s2)))
           else if aboveUpperBound (d_partialModel s1) x_i beta_i True then
             (let u_i = getUpperBound (d_partialModel s1) x_i;
                  x_j = selectSlackAbove s1 x_i
              in if x_j = ARITHVAR_SENTINEL then
                   (let s2 = s1\<lparr>d_statistics := (d_statistics s1)
                          \<lparr>d_statUpdateConflicts := d_statUpdateConflicts (d_statistics s1) + 1\<rparr>\<rparr>
                    in Return (generateConflictAbove s2 x_i) s2)
                 else
                   (case pivotAndUpdate s1 x_i x_j u_i of
                      None \<Rightarrow> Abort
                    | Some s2 \<Rightarrow>
                        (let earlyConflict = checkBasicForConflict s2 x_j in
                         if \<not> isNull earlyConflict then Return earlyConflict s2 else Continue s2)))
           else Abort))"

text \<open>The block after the loop: the entries of the Griggio queue whose variable is basic
  go to the Bland queue, and the stage flag is cleared.\<close>

fun migrate_loop :: "SimplexDecisionProcedure \<Rightarrow> GriggioPQueue \<Rightarrow> ArithVarPQueue \<Rightarrow> ArithVarPQueue" where
  "migrate_loop s [] p = p"
| "migrate_loop s (top_pair # q) p =
     (let var = fst top_pair in
      if isMember (d_basicManager s) var
      then migrate_loop s q (ArithVarPQueue_push var p)
      else migrate_loop s q p)"

definition migrate :: "SimplexDecisionProcedure \<Rightarrow> SimplexDecisionProcedure" where
  "migrate s =
     s\<lparr>d_possiblyInconsistent := migrate_loop s (d_griggioRuleQueue s) (d_possiblyInconsistent s),
       d_griggioRuleQueue := [],
       d_pivotStage := False\<rparr>"

text \<open>\<^verbatim>\<open>privateUpdateInconsistentVars\<close>, entered with the loop counter \<open>iteratationNum\<close> (a
  \<^verbatim>\<open>uint32_t\<close>, so the increment wraps). The Bland stage has no bound, so the function is
  partial: \<open>None\<close> is a run that does not return (or ends the process). The last branch
  is the \<^verbatim>\<open>Unreachable()\<close> of the source.\<close>

partial_function (option) privateUpdateInconsistentVars_from :: "nat \<Rightarrow> SimplexDecisionProcedure \<Rightarrow> (Node \<times> SimplexDecisionProcedure) option" where
  "privateUpdateInconsistentVars_from iteratationNum s =
     (if \<not> d_pivotStage s \<or> iteratationNum \<le> d_numVariables s then
        (case privateUpdateInconsistentVars_body s of
           Return n s' \<Rightarrow> Some (n, s')
         | Continue s' \<Rightarrow> privateUpdateInconsistentVars_from ((iteratationNum + 1) mod 2 ^ 32) s'
         | Abort \<Rightarrow> None)
      else if d_pivotStage s \<and> iteratationNum \<ge> d_numVariables s then
        privateUpdateInconsistentVars_from 0 (migrate s)
      else None)"

definition privateUpdateInconsistentVars :: "SimplexDecisionProcedure \<Rightarrow> (Node \<times> SimplexDecisionProcedure) option" where
  "privateUpdateInconsistentVars s = privateUpdateInconsistentVars_from 0 s"

definition updateInconsistentVars :: "SimplexDecisionProcedure \<Rightarrow> (Node \<times> SimplexDecisionProcedure) option" where
  "updateInconsistentVars s =
     (if d_griggioRuleQueue s = [] then Some (NullNode, s)
      else
        (let s1 = s\<lparr>d_foundAConflict := False, d_pivotsSinceConflict := 0\<rparr> in
         case (if length (d_griggioRuleQueue s1) > 1 then selectInitialConflict s1
               else (NullNode, s1)) of
           (possibleConflict, s2) \<Rightarrow>
             (case (if isNull possibleConflict then privateUpdateInconsistentVars s2
                    else Some (possibleConflict, s2)) of
                None \<Rightarrow> None
              | Some (possibleConflict', s3) \<Rightarrow>
                  Some (possibleConflict',
                        s3\<lparr>d_pivotStage := True, d_griggioRuleQueue := [],
                           d_possiblyInconsistent := []\<rparr>))))"

subsection \<open>checkTableau\<close>

text \<open>The inner loop of \<^verbatim>\<open>checkTableau\<close> sums \<open>beta * coeff\<close> over the entries of a row
  other than its basic variable; \<^verbatim>\<open>checkTableau\<close> asserts for every row that the sum is
  the assignment of the basic variable. Here it returns whether all its assertions
  hold. The local \<^verbatim>\<open>sum\<close> is \<open>sum_acc\<close>.\<close>

fun checkTableau_sum :: "ArithPartialModel \<Rightarrow> ArithVar \<Rightarrow> ReducedRowVector \<Rightarrow> DeltaRational \<Rightarrow> DeltaRational" where
  "checkTableau_sum pm basic [] sum_acc = sum_acc"
| "checkTableau_sum pm basic ((nonbasic, coeff) # nonbasicIter) sum_acc =
     (if basic = nonbasic then checkTableau_sum pm basic nonbasicIter sum_acc
      else checkTableau_sum pm basic nonbasicIter
             (sum_acc + times_Rational (getAssignment pm nonbasic) coeff))"

definition checkTableau :: "SimplexDecisionProcedure \<Rightarrow> bool" where
  "checkTableau s =
     list_all (\<lambda>basic.
         checkTableau_sum (d_partialModel s) basic (Tableau_lookup (d_tableau s) basic) 0
           = getAssignment (d_partialModel s) basic)
       (d_activeBasicVars (d_tableau s))"

subsection \<open>Well-formed states and concrete states\<close>

text \<open>The bounds of a variable are ordered when its lower bound, if it has both, is not
  above its upper bound (section 3 of the specification: a pair \<open>l > u\<close> is never
  stored).\<close>

definition boundsOrdered :: "ArithPartialModel \<Rightarrow> ArithVar \<Rightarrow> bool" where
  "boundsOrdered pm x =
     (case (d_lowerBound pm x, d_upperBound pm x) of
        (Some l, Some u) \<Rightarrow> l \<le> u
      | _ \<Rightarrow> True)"

text \<open>The engine right after construction, over a given tableau: no bound, every
  assignment zero, both queues empty, the Griggio stage selected.\<close>

definition initialState :: "nat \<Rightarrow> Tableau \<Rightarrow> SimplexDecisionProcedure" where
  "initialState n t =
     \<lparr>d_partialModel =
        \<lparr>d_assignment = (\<lambda>x. 0), d_lowerBound = (\<lambda>x. None), d_upperBound = (\<lambda>x. None),
         d_lowerConstraint = (\<lambda>x. NullNode), d_upperConstraint = (\<lambda>x. NullNode)\<rparr>,
      d_tableau = t,
      d_activityMonitor = (\<lambda>x. 0),
      d_out = [],
      d_numVariables = n,
      d_griggioRuleQueue = [],
      d_possiblyInconsistent = [],
      d_pivotStage = True,
      d_foundAConflict = False,
      d_pivotsSinceConflict = 0,
      d_statistics =
        \<lparr>d_statPivots = 0, d_statUpdates = 0, d_statAssertUpperConflicts = 0,
         d_statAssertLowerConflicts = 0, d_statUpdateConflicts = 0, d_statEjections = 0,
         d_statUnEjections = 0, d_statEarlyConflicts = 0, d_statEarlyConflictImprovements = 0,
         d_pivotsAfterConflict = 0, d_checksWithWastefulPivots = 0\<rparr>\<rparr>"

text \<open>The tableau of the first scenarios of the specification: \<open>x2 = x0 + x1\<close>, with
  \<open>x2\<close> basic.\<close>

definition tableau_x2 :: Tableau where
  "tableau_x2 =
     \<lparr>d_activeBasicVars = [2],
      d_rowsTable = (\<lambda>b. if b = 2 then [(0, 1), (1, 1), (2, - 1)] else [])\<rparr>"

text \<open>An asserted literal, as an opaque leaf.\<close>

definition literal :: "nat \<Rightarrow> Node" where
  "literal n = mkNode (OTHER n) []"

text \<open>The engine over that tableau after \<open>AssertUpper(x0 \<le> 1)\<close>.\<close>

definition state_x0_le_1 :: SimplexDecisionProcedure where
  "state_x0_le_1 =
     snd (AssertUpper (initialState 3 tableau_x2) 0 (DeltaRational 1 0) (literal 10))"

text \<open>The engine over that tableau after \<open>AssertLower(x0 \<ge> 1)\<close> and
  \<open>AssertUpper(x0 \<le> 1)\<close>, asserted by the literals 20 and 21.\<close>

definition state_x0_between :: SimplexDecisionProcedure where
  "state_x0_between =
     snd (AssertUpper
            (snd (AssertLower (initialState 3 tableau_x2) 0 (DeltaRational 1 0) (literal 20)))
            0 (DeltaRational 1 0) (literal 21))"

subsection \<open>The conflicts as the specification words them\<close>

text \<open>Section 4.7 of the specification: the conjunct that a non-basic \<open>xj\<close> with
  coefficient \<open>a\<close> contributes to the conflict of a row whose basic variable is below its
  lower bound is \<open>getLowerConstraint(xj)\<close> if \<open>a < 0\<close> and \<open>getUpperConstraint(xj)\<close> if
  \<open>a > 0\<close>; above the upper bound the roles of the two signs are exchanged. The
  specification gives no conjunct for a zero coefficient (rows hold none);
  it is the null node here.\<close>

definition belowConjunct :: "ArithPartialModel \<Rightarrow> ArithVar \<times> Rational \<Rightarrow> Node" where
  "belowConjunct pm e =
     (if snd e < 0 then getLowerConstraint pm (fst e)
      else if snd e > 0 then getUpperConstraint pm (fst e)
      else NullNode)"

definition aboveConjunct :: "ArithPartialModel \<Rightarrow> ArithVar \<times> Rational \<Rightarrow> Node" where
  "aboveConjunct pm e =
     (if snd e > 0 then getLowerConstraint pm (fst e)
      else if snd e < 0 then getUpperConstraint pm (fst e)
      else NullNode)"

subsection \<open>Stale queue entries\<close>

text \<open>An entry of a work queue is stale when its variable is no longer basic or its
  assignment is consistent with its bounds (design notes of the specification, "queue
  staleness").\<close>

definition staleEntry :: "SimplexDecisionProcedure \<Rightarrow> ArithVar \<Rightarrow> bool" where
  "staleEntry s var =
     (\<not> isMember (d_basicManager s) var \<or> assignmentIsConsistent (d_partialModel s) var)"

text \<open>The engine over the tableau \<open>x2 = x0 + x1\<close> after \<open>AssertUpper(x2 \<le> -1)\<close>: the
  basic variable \<open>x2\<close>, assigned zero, is above its bound and waits in the Griggio queue.
  The second state has, in front of it, an entry for the non-basic \<open>x0\<close>.\<close>

definition state_x2_le_m1 :: SimplexDecisionProcedure where
  "state_x2_le_m1 =
     snd (AssertUpper (initialState 3 tableau_x2) 2 (DeltaRational (- 1) 0) (literal 30))"

definition state_stale_front :: SimplexDecisionProcedure where
  "state_stale_front =
     state_x2_le_m1\<lparr>d_griggioRuleQueue :=
       (0, DeltaRational 5 0) # d_griggioRuleQueue state_x2_le_m1\<rparr>"

subsection \<open>Slack candidates as the specification words them\<close>

text \<open>Section 4.6 of the specification: an entry \<open>(xj, a)\<close> of the row of \<open>xi\<close> with
  \<open>xj \<noteq> xi\<close> is a valid slack, when \<open>xi\<close> is above its upper bound, if
  \<open>a < 0\<close> and \<open>\<beta>(xj) < u_j\<close>, or \<open>a > 0\<close> and \<open>\<beta>(xj) > l_j\<close>; when \<open>xi\<close> is below its
  lower bound, if \<open>a > 0\<close> and \<open>\<beta>(xj) < u_j\<close>, or \<open>a < 0\<close> and \<open>\<beta>(xj) > l_j\<close>. An
  absent bound is infinite.\<close>

definition validSlack :: "bool \<Rightarrow> SimplexDecisionProcedure \<Rightarrow> ArithVar \<Rightarrow> ArithVar \<times> Rational \<Rightarrow> bool" where
  "validSlack is_above s x_i e =
     (fst e \<noteq> x_i \<and>
      (if is_above then
         (snd e < 0 \<and> strictlyBelowUpperBound (d_partialModel s) (fst e)) \<or>
         (snd e > 0 \<and> strictlyAboveLowerBound (d_partialModel s) (fst e))
       else
         (snd e > 0 \<and> strictlyBelowUpperBound (d_partialModel s) (fst e)) \<or>
         (snd e < 0 \<and> strictlyAboveLowerBound (d_partialModel s) (fst e))))"


subsection \<open>The initial conflict as the specification words it\<close>

text \<open>Section 4.7 of the specification: the conflict clauses that
  \<open>checkBasicForConflict\<close> produces on the entries of the Griggio queue whose variable is
  basic and inconsistent, in the order in which the queue delivers them.\<close>

definition initialConflicts :: "SimplexDecisionProcedure \<Rightarrow> Node list" where
  "initialConflicts s =
     filter (\<lambda>n. \<not> isNull n)
       (map (\<lambda>e. checkBasicForConflict s (fst e))
          (filter (\<lambda>e. \<not> staleEntry s (fst e)) (d_griggioRuleQueue s)))"

text \<open>How often the chosen clause is replaced while the clauses found are met one
  after the other: the first clause found is chosen, and a later clause replaces the
  chosen one when it has fewer conjuncts than the chosen one.\<close>

fun countReplacements :: "Node \<Rightarrow> Node list \<Rightarrow> nat" where
  "countReplacements chosen [] = 0"
| "countReplacements chosen (c # cs) =
     (if getNumChildren c < getNumChildren chosen
      then Suc (countReplacements c cs)
      else countReplacements chosen cs)"

definition replacements :: "Node list \<Rightarrow> nat" where
  "replacements found = (case found of [] \<Rightarrow> 0 | c # cs \<Rightarrow> countReplacements c cs)"

text \<open>Scenario 1 of the specification: over \<open>x2 = x0 + x1\<close>, assert \<open>x0 \<ge> 1\<close>,
  \<open>x1 \<ge> 1\<close> and \<open>x2 \<le> 1\<close> (literals 40, 41 and 42).\<close>

definition state_scenario1 :: SimplexDecisionProcedure where
  "state_scenario1 =
     snd (AssertUpper
       (snd (AssertLower
         (snd (AssertLower (initialState 3 tableau_x2) 0 (DeltaRational 1 0) (literal 40)))
         1 (DeltaRational 1 0) (literal 41)))
       2 (DeltaRational 1 0) (literal 42))"

text \<open>Two rows in conflict: over \<open>x3 = x0 + x1 + x2\<close> and \<open>x4 = x0 + x1\<close>, assert
  \<open>x0 \<ge> 1\<close>, \<open>x1 \<ge> 1\<close>, \<open>x2 \<ge> 1\<close>, \<open>x3 \<le> 1\<close> and \<open>x4 \<le> 1\<close> (literals 50 to 54). The
  Griggio queue then holds \<open>x3\<close> (violation 2) before \<open>x4\<close> (violation 1).\<close>

definition tableau_two_rows :: Tableau where
  "tableau_two_rows =
     \<lparr>d_activeBasicVars = [3, 4],
      d_rowsTable = (\<lambda>b.
        if b = 3 then [(0, 1), (1, 1), (2, 1), (3, - 1)]
        else if b = 4 then [(0, 1), (1, 1), (4, - 1)]
        else [])\<rparr>"

definition state_two_conflicts :: SimplexDecisionProcedure where
  "state_two_conflicts =
     snd (AssertUpper (snd (AssertUpper
       (snd (AssertLower (snd (AssertLower (snd (AssertLower
         (initialState 5 tableau_two_rows)
         0 (DeltaRational 1 0) (literal 50)))
         1 (DeltaRational 1 0) (literal 51)))
         2 (DeltaRational 1 0) (literal 52)))
       3 (DeltaRational 1 0) (literal 53)))
       4 (DeltaRational 1 0) (literal 54))"

subsection \<open>Satisfying states\<close>

text \<open>Every basic variable of the tableau is inside its bounds. (A non-basic variable
  is kept inside its bounds by the assertions, so this is the state that is "already
  SAT" for \<open>updateInconsistentVars\<close>.)\<close>

definition allBasicConsistent :: "SimplexDecisionProcedure \<Rightarrow> bool" where
  "allBasicConsistent s =
     list_all (assignmentIsConsistent (d_partialModel s)) (d_activeBasicVars (d_tableau s))"

text \<open>A satisfying state whose Griggio queue still holds two entries, both stale: the
  state after \<open>x0 \<ge> 1\<close> and \<open>x0 \<le> 1\<close> with entries for \<open>x0\<close> and \<open>x2\<close> in the queue.\<close>

definition state_sat_stale :: SimplexDecisionProcedure where
  "state_sat_stale =
     state_x0_between\<lparr>d_griggioRuleQueue := [(0, DeltaRational 5 0), (2, DeltaRational 1 0)]\<rparr>"

subsection \<open>The step of pivotAndUpdate as the specification words it\<close>

text \<open>Section 4.4 of the specification: \<open>\<theta> = (v - \<beta>(xi)) / a_ij\<close>, from the assignment
  and the row of \<open>xi\<close> before the call.\<close>

definition pivotTheta :: "SimplexDecisionProcedure \<Rightarrow> ArithVar \<Rightarrow> ArithVar \<Rightarrow> DeltaRational \<Rightarrow> DeltaRational" where
  "pivotTheta s x_i x_j v =
     times_Rational (v - getAssignment (d_partialModel s) x_i)
       (1 / lookup (Tableau_lookup (d_tableau s) x_i) x_j)"

subsection \<open>The Griggio stage with its iterations counted\<close>

text \<open>The loop of \<^verbatim>\<open>privateUpdateInconsistentVars\<close> run for at most \<open>budget\<close>
  iterations: the number of iterations that were executed, and how the loop ended
  (\<open>Return\<close>: an iteration returned; \<open>Abort\<close>: the process ended; \<open>Continue\<close>: the budget
  ran out, in the state given).\<close>

fun griggioStage :: "nat \<Rightarrow> SimplexDecisionProcedure \<Rightarrow> nat \<times> LoopStep" where
  "griggioStage 0 s = (0, Continue s)"
| "griggioStage (Suc budget) s =
     (case privateUpdateInconsistentVars_body s of
        Return n s' \<Rightarrow> (1, Return n s')
      | Abort \<Rightarrow> (1, Abort)
      | Continue s' \<Rightarrow>
          (case griggioStage budget s' of (iterations, r) \<Rightarrow> (Suc iterations, r)))"

text \<open>A tableau over five variables, \<open>x3 = x0 - x2\<close> and \<open>x4 = -2 x0 + x1 - x2\<close>, and the
  engine over it after nine assertions: \<open>-3 \<le> x4 \<le> -1\<close>, \<open>-2 \<le> x2 \<le> -1\<close>, \<open>x0 \<le> 1\<close>,
  \<open>3 \<le> x3 \<le> 5\<close> and \<open>-2 \<le> x1 \<le> -1\<close>, in this order.\<close>

definition tableau_budget :: Tableau where
  "tableau_budget =
     \<lparr>d_activeBasicVars = [3, 4],
      d_rowsTable = (\<lambda>b.
        if b = 3 then [(0, 1), (2, - 1), (3, - 1)]
        else if b = 4 then [(0, - 2), (1, 1), (2, - 1), (4, - 1)]
        else [])\<rparr>"

definition state_budget :: SimplexDecisionProcedure where
  "state_budget =
     snd (AssertUpper (snd (AssertLower
       (snd (AssertUpper (snd (AssertLower
         (snd (AssertUpper
           (snd (AssertUpper (snd (AssertLower
             (snd (AssertUpper (snd (AssertLower (initialState 5 tableau_budget)
               4 (DeltaRational (- 3) 0) (literal 0)))
               4 (DeltaRational (- 1) 0) (literal 1)))
             2 (DeltaRational (- 2) 0) (literal 2)))
             2 (DeltaRational (- 1) 0) (literal 3)))
           0 (DeltaRational 1 0) (literal 4)))
         3 (DeltaRational 3 0) (literal 5)))
         3 (DeltaRational 5 0) (literal 6)))
       1 (DeltaRational (- 2) 0) (literal 7)))
       1 (DeltaRational (- 1) 0) (literal 8))"

subsection \<open>Later states and the conjuncts of a variable\<close>










subsection \<open>The states of the budget example\<close>

text \<open>The bounds that the nine assertions of \<open>state_budget\<close> install, the engine over
  them as a function of what the loop changes (assignment, tableau, activity monitor,
  Griggio queue and number of pivots), and \<open>state_budget_k\<close>, the state after \<open>k\<close> passes
  through the body of the loop.\<close>

definition budget_lowerBound :: "ArithVar \<Rightarrow> DeltaRational option" where
  "budget_lowerBound =
     (\<lambda>x. if x = 1 then Some (DeltaRational (- 2) 0) else
        if x = 2 then Some (DeltaRational (- 2) 0) else
        if x = 3 then Some (DeltaRational 3 0) else
        if x = 4 then Some (DeltaRational (- 3) 0) else
        None)"

definition budget_upperBound :: "ArithVar \<Rightarrow> DeltaRational option" where
  "budget_upperBound =
     (\<lambda>x. if x = 0 then Some (DeltaRational 1 0) else
        if x = 1 then Some (DeltaRational (- 1) 0) else
        if x = 2 then Some (DeltaRational (- 1) 0) else
        if x = 3 then Some (DeltaRational 5 0) else
        if x = 4 then Some (DeltaRational (- 1) 0) else
        None)"

definition budget_state :: "(ArithVar \<Rightarrow> DeltaRational) \<Rightarrow> Tableau \<Rightarrow> (ArithVar \<Rightarrow> nat) \<Rightarrow> GriggioPQueue \<Rightarrow> nat \<Rightarrow> SimplexDecisionProcedure" where
  "budget_state assignment t activity q pivots =
     \<lparr>d_partialModel =
        \<lparr>d_assignment = assignment,
         d_lowerBound = budget_lowerBound,
         d_upperBound = budget_upperBound,
         d_lowerConstraint =
           (\<lambda>x. if x = 1 then literal 7 else if x = 2 then literal 2 else
              if x = 3 then literal 5 else if x = 4 then literal 0 else NullNode),
         d_upperConstraint =
           (\<lambda>x. if x = 0 then literal 4 else if x = 1 then literal 8 else
              if x = 2 then literal 3 else if x = 3 then literal 6 else
              if x = 4 then literal 1 else NullNode)\<rparr>,
      d_tableau = t,
      d_activityMonitor = activity,
      d_out = [],
      d_numVariables = 5,
      d_griggioRuleQueue = q,
      d_possiblyInconsistent = [],
      d_pivotStage = True,
      d_foundAConflict = False,
      d_pivotsSinceConflict = 0,
      d_statistics =
        \<lparr>d_statPivots = pivots, d_statUpdates = 2, d_statAssertUpperConflicts = 0,
         d_statAssertLowerConflicts = 0, d_statUpdateConflicts = 0, d_statEjections = 0,
         d_statUnEjections = 0, d_statEarlyConflicts = 0, d_statEarlyConflictImprovements = 0,
         d_pivotsAfterConflict = 0, d_checksWithWastefulPivots = 0\<rparr>\<rparr>"

definition state_budget_0 :: SimplexDecisionProcedure where
  "state_budget_0 =
     budget_state
       (\<lambda>x. if x = 1 then DeltaRational (- 1) 0 else
          if x = 2 then DeltaRational (- 1) 0 else if x = 3 then DeltaRational 1 0 else
          DeltaRational 0 0)
       \<lparr>d_activeBasicVars = [3, 4],
         d_rowsTable =
           (\<lambda>b. if b = 3 then [(0, 1), (2, - 1), (3, - 1)] else
            if b = 4 then [(0, - 2), (1, 1), (2, - 1), (4, - 1)] else
            [])\<rparr>
       (\<lambda>x. if x = 4 then 2 else 0)
       [(4, DeltaRational 2 0), (3, DeltaRational 2 0), (3, DeltaRational 2 0),
        (4, DeltaRational 1 0), (4, DeltaRational 1 0)] 0"

definition state_budget_1 :: SimplexDecisionProcedure where
  "state_budget_1 =
     budget_state
       (\<lambda>x. if x = 1 then DeltaRational (- 2) 0 else
          if x = 2 then DeltaRational (- 1) 0 else if x = 3 then DeltaRational 1 0 else
          if x = 4 then DeltaRational (- 1) 0 else DeltaRational 0 0)
       \<lparr>d_activeBasicVars = [3, 1],
         d_rowsTable =
           (\<lambda>b. if b = 1 then [(0, 2), (1, - 1), (2, 1), (4, 1)] else
            if b = 3 then [(0, 1), (2, - 1), (3, - 1)] else
            [])\<rparr>
       (\<lambda>x. if x = 4 then 2 else 0)
       [(4, DeltaRational 2 0), (3, DeltaRational 2 0), (3, DeltaRational 2 0),
        (4, DeltaRational 1 0), (4, DeltaRational 1 0)] 1"

definition state_budget_2 :: SimplexDecisionProcedure where
  "state_budget_2 =
     budget_state
       (\<lambda>x. if x = 0 then DeltaRational 2 0 else if x = 1 then DeltaRational 2 0 else
          if x = 2 then DeltaRational (- 1) 0 else if x = 3 then DeltaRational 3 0 else
          if x = 4 then DeltaRational (- 1) 0 else DeltaRational 0 0)
       \<lparr>d_activeBasicVars = [1, 0],
         d_rowsTable =
           (\<lambda>b. if b = 0 then [(0, - 1), (2, 1), (3, 1)] else
            if b = 1 then [(1, - 1), (2, 3), (3, 2), (4, 1)] else
            [])\<rparr>
       (\<lambda>x. if x = 0 then 1 else if x = 4 then 2 else 0)
       [(1, DeltaRational 3 0), (3, DeltaRational 2 0), (3, DeltaRational 2 0),
        (4, DeltaRational 1 0), (4, DeltaRational 1 0), (0, DeltaRational 1 0)] 2"

definition state_budget_3 :: SimplexDecisionProcedure where
  "state_budget_3 =
     budget_state
       (\<lambda>x. if x = 0 then DeltaRational 2 0 else
          if x = 1 then DeltaRational (- 1) 0 else if x = 2 then DeltaRational (- 1) 0 else
          if x = 3 then DeltaRational 3 0 else if x = 4 then DeltaRational (- 4) 0 else
          DeltaRational 0 0)
       \<lparr>d_activeBasicVars = [0, 4],
         d_rowsTable =
           (\<lambda>b. if b = 0 then [(0, - 1), (2, 1), (3, 1)] else
            if b = 4 then [(1, 1), (2, - 3), (3, - 2), (4, - 1)] else
            [])\<rparr>
       (\<lambda>x. if x = 0 then 1 else if x = 4 then 2 else 0)
       [(1, DeltaRational 3 0), (3, DeltaRational 2 0), (3, DeltaRational 2 0),
        (4, DeltaRational 1 0), (4, DeltaRational 1 0), (0, DeltaRational 1 0),
        (4, DeltaRational 1 0)] 3"

definition state_budget_4 :: SimplexDecisionProcedure where
  "state_budget_4 =
     budget_state
       (\<lambda>x. if x = 0 then DeltaRational (5 / 3) 0 else
          if x = 1 then DeltaRational (- 1) 0 else if x = 2 then DeltaRational (- 4 / 3) 0 else
          if x = 3 then DeltaRational 3 0 else if x = 4 then DeltaRational (- 3) 0 else
          DeltaRational 0 0)
       \<lparr>d_activeBasicVars = [0, 2],
         d_rowsTable =
           (\<lambda>b. if b = 0 then [(0, - 1), (1, 1 / 3), (3, 1 / 3), (4, - 1 / 3)] else
            if b = 2 then [(1, 1 / 3), (2, - 1), (3, - 2 / 3), (4, - 1 / 3)] else
            [])\<rparr>
       (\<lambda>x. if x = 0 then 1 else if x = 2 then 1 else if x = 4 then 2 else 0)
       [(4, DeltaRational 1 0), (4, DeltaRational 1 0), (0, DeltaRational 1 0),
        (4, DeltaRational 1 0), (0, DeltaRational (2 / 3) 0)] 4"

definition state_budget_5 :: SimplexDecisionProcedure where
  "state_budget_5 =
     budget_state
       (\<lambda>x. if x = 0 then DeltaRational 1 0 else
          if x = 1 then DeltaRational (- 3) 0 else if x = 2 then DeltaRational (- 2) 0 else
          if x = 3 then DeltaRational 3 0 else if x = 4 then DeltaRational (- 3) 0 else
          DeltaRational 0 0)
       \<lparr>d_activeBasicVars = [2, 1],
         d_rowsTable =
           (\<lambda>b. if b = 1 then [(0, 3), (1, - 1), (3, - 1), (4, 1)] else
            if b = 2 then [(0, 1), (2, - 1), (3, - 1)] else
            [])\<rparr>
       (\<lambda>x. if x = 0 then 1 else if x = 1 then 1 else if x = 2 then 1 else
          if x = 4 then 2 else 0)
       [(0, DeltaRational 1 0), (4, DeltaRational 1 0), (1, DeltaRational 1 0),
        (0, DeltaRational (2 / 3) 0)] 5"

definition state_budget_6 :: SimplexDecisionProcedure where
  "state_budget_6 =
     budget_state
       (\<lambda>x. if x = 0 then DeltaRational 1 0 else
          if x = 1 then DeltaRational (- 2) 0 else if x = 2 then DeltaRational (- 2) 0 else
          if x = 3 then DeltaRational 3 0 else if x = 4 then DeltaRational (- 2) 0 else
          DeltaRational 0 0)
       \<lparr>d_activeBasicVars = [2, 4],
         d_rowsTable =
           (\<lambda>b. if b = 2 then [(0, 1), (2, - 1), (3, - 1)] else
            if b = 4 then [(0, - 3), (1, 1), (3, 1), (4, - 1)] else
            [])\<rparr>
       (\<lambda>x. if x = 0 then 1 else if x = 1 then 1 else if x = 2 then 1 else
          if x = 4 then 2 else 0)
       [(1, DeltaRational 1 0), (0, DeltaRational (2 / 3) 0)] 6"

section \<open>Properties\<close>

subsection \<open>What the helpers leave alone\<close>

lemma checkBasicVariable_frame:
  "d_partialModel (checkBasicVariable s b) = d_partialModel s"
  "d_tableau (checkBasicVariable s b) = d_tableau s"
  "d_out (checkBasicVariable s b) = d_out s"
  "d_statistics (checkBasicVariable s b) = d_statistics s"
  "d_pivotStage (checkBasicVariable s b) = d_pivotStage s"
  "d_numVariables (checkBasicVariable s b) = d_numVariables s"
  "d_foundAConflict (checkBasicVariable s b) = d_foundAConflict s"
  "d_pivotsSinceConflict (checkBasicVariable s b) = d_pivotsSinceConflict s"
  "d_activityMonitor (checkBasicVariable s b) = d_activityMonitor s"
  by (simp_all add: checkBasicVariable_def Let_def)

lemma update_loop_frame:
  "d_tableau (update_loop x d bs s) = d_tableau s"
  "d_out (update_loop x d bs s) = d_out s"
  "d_statistics (update_loop x d bs s) = d_statistics s"
  "d_pivotStage (update_loop x d bs s) = d_pivotStage s"
  "d_numVariables (update_loop x d bs s) = d_numVariables s"
  "d_lowerBound (d_partialModel (update_loop x d bs s)) = d_lowerBound (d_partialModel s)"
  "d_upperBound (d_partialModel (update_loop x d bs s)) = d_upperBound (d_partialModel s)"
  "d_lowerConstraint (d_partialModel (update_loop x d bs s)) = d_lowerConstraint (d_partialModel s)"
  "d_upperConstraint (d_partialModel (update_loop x d bs s)) = d_upperConstraint (d_partialModel s)"
  by (induction bs arbitrary: s; simp add: Let_def checkBasicVariable_frame setAssignment_def)+

lemma update_frame:
  "d_tableau (update s x v) = d_tableau s"
  "d_out (update s x v) = d_out s"
  "d_pivotStage (update s x v) = d_pivotStage s"
  "d_numVariables (update s x v) = d_numVariables s"
  "d_lowerBound (d_partialModel (update s x v)) = d_lowerBound (d_partialModel s)"
  "d_upperBound (d_partialModel (update s x v)) = d_upperBound (d_partialModel s)"
  "d_lowerConstraint (d_partialModel (update s x v)) = d_lowerConstraint (d_partialModel s)"
  "d_upperConstraint (d_partialModel (update s x v)) = d_upperConstraint (d_partialModel s)"
  by (simp_all add: update_def Let_def update_loop_frame setAssignment_def)

lemma state_x0_le_1_fields:
  "d_upperBound (d_partialModel state_x0_le_1) 0 = Some (DeltaRational 1 0)"
  "d_lowerBound (d_partialModel state_x0_le_1) 0 = None"
  "d_upperConstraint (d_partialModel state_x0_le_1) 0 = literal 10"
  "d_out state_x0_le_1 = []"
  by (simp_all add: state_x0_le_1_def AssertUpper_def initialState_def aboveUpperBound_def
        belowLowerBound_def Let_def update_frame checkBasicVariable_frame setUpperBound_def
        setUpperConstraint_def)

subsection \<open>C4: the conflict of AssertLower\<close>

text \<open>
  Claim C4. On a variable whose stored bounds are ordered, \<open>AssertLower(x, c, t)\<close>
  returns true exactly when \<open>x\<close> has an upper bound \<open>u\<close> with \<open>c > u\<close>. In that case the
  state after the call is the state before it with the node \<open>AND(getUpperConstraint(x), t)\<close>
  appended to the conflict sink and the counter of such conflicts incremented: no bound,
  no explanation and no assignment has changed. Whatever the call returns, every
  variable whose bounds were ordered before the call has ordered bounds after it.
\<close>

theorem AssertLower_conflict:
  assumes "boundsOrdered (d_partialModel s) x"
  shows "(fst (AssertLower s x c t) \<longleftrightarrow>
            (\<exists>u. d_upperBound (d_partialModel s) x = Some u \<and> u < c)) \<and>
         (fst (AssertLower s x c t) \<longrightarrow>
            snd (AssertLower s x c t) =
              s\<lparr>d_out := d_out s @ [mkNode AND [getUpperConstraint (d_partialModel s) x, t]],
                d_statistics := (d_statistics s)
                  \<lparr>d_statAssertLowerConflicts := d_statAssertLowerConflicts (d_statistics s) + 1\<rparr>\<rparr>) \<and>
         (\<forall>y. boundsOrdered (d_partialModel s) y \<longrightarrow>
                boundsOrdered (d_partialModel (snd (AssertLower s x c t))) y)"
  using assms
  by (auto simp add: AssertLower_def boundsOrdered_def belowLowerBound_def aboveUpperBound_def
        Let_def update_frame checkBasicVariable_frame setLowerBound_def setLowerConstraint_def
      split: option.splits)

theorem AssertLower_conflict_witness:
  "boundsOrdered (d_partialModel state_x0_le_1) 0 \<and>
   fst (AssertLower state_x0_le_1 0 (DeltaRational 2 0) (literal 11)) \<and>
   d_out (snd (AssertLower state_x0_le_1 0 (DeltaRational 2 0) (literal 11)))
     = [mkNode AND [literal 10, literal 11]] \<and>
   d_partialModel (snd (AssertLower state_x0_le_1 0 (DeltaRational 2 0) (literal 11)))
     = d_partialModel state_x0_le_1"
proof -
  have b: "boundsOrdered (d_partialModel state_x0_le_1) 0"
    by (simp add: boundsOrdered_def state_x0_le_1_fields)
  show ?thesis
    using b AssertLower_conflict[OF b, of "DeltaRational 2 0" "literal 11"]
    by (simp add: state_x0_le_1_fields getUpperConstraint_def less_DeltaRational_def)
qed


subsection \<open>C3: the structure of the generated conflicts\<close>

lemma generateConflictAbove_loop_eq:
  "generateConflictAbove_loop pm v row nb =
     nb @ map (\<lambda>e. if snd e < 0 then getUpperConstraint pm (fst e) else getLowerConstraint pm (fst e))
            (filter (\<lambda>e. fst e \<noteq> v) row)"
  by (induction row arbitrary: nb) auto

lemma generateConflictBelow_loop_eq:
  "generateConflictBelow_loop pm v row nb =
     nb @ map (\<lambda>e. if snd e < 0 then getLowerConstraint pm (fst e) else getUpperConstraint pm (fst e))
            (filter (\<lambda>e. fst e \<noteq> v) row)"
  by (induction row arbitrary: nb) auto

text \<open>
  Claim C3. Over a row without zero coefficients, \<open>generateConflictBelow(xi)\<close> is the
  \<open>AND\<close> of \<open>getLowerConstraint(xi)\<close> and, for each entry \<open>xj \<noteq> xi\<close> of the row of \<open>xi\<close> in
  row order, of \<open>getLowerConstraint(xj)\<close> if the coefficient is negative and
  \<open>getUpperConstraint(xj)\<close> if it is positive; \<open>generateConflictAbove(xi)\<close> is the \<open>AND\<close> of
  \<open>getUpperConstraint(xi)\<close> and of \<open>getLowerConstraint(xj)\<close> for a positive,
  \<open>getUpperConstraint(xj)\<close> for a negative coefficient. This holds in every state, so in
  particular when \<open>xi\<close> violates the bound and has no slack.
\<close>

theorem generateConflict_structure:
  assumes "\<forall>e \<in> set (Tableau_lookup (d_tableau s) xi). snd e \<noteq> 0"
  shows "generateConflictBelow s xi =
           mkNode AND (getLowerConstraint (d_partialModel s) xi #
             map (belowConjunct (d_partialModel s))
               (filter (\<lambda>e. fst e \<noteq> xi) (Tableau_lookup (d_tableau s) xi))) \<and>
         generateConflictAbove s xi =
           mkNode AND (getUpperConstraint (d_partialModel s) xi #
             map (aboveConjunct (d_partialModel s))
               (filter (\<lambda>e. fst e \<noteq> xi) (Tableau_lookup (d_tableau s) xi)))"
proof -
  have b: "map (\<lambda>e. if snd e < 0 then getLowerConstraint pm (fst e) else getUpperConstraint pm (fst e))
             (filter (\<lambda>e. fst e \<noteq> xi) row) =
           map (belowConjunct pm) (filter (\<lambda>e. fst e \<noteq> xi) row)"
    if "\<forall>e \<in> set row. snd e \<noteq> 0" for row :: ReducedRowVector and pm
    using that by (auto simp add: belowConjunct_def)
  have a: "map (\<lambda>e. if snd e < 0 then getUpperConstraint pm (fst e) else getLowerConstraint pm (fst e))
             (filter (\<lambda>e. fst e \<noteq> xi) row) =
           map (aboveConjunct pm) (filter (\<lambda>e. fst e \<noteq> xi) row)"
    if "\<forall>e \<in> set row. snd e \<noteq> 0" for row :: ReducedRowVector and pm
    using that by (auto simp add: aboveConjunct_def)
  show ?thesis
    using a[OF assms] b[OF assms]
    by (simp add: generateConflictBelow_def generateConflictAbove_def Let_def
          generateConflictAbove_loop_eq generateConflictBelow_loop_eq)
qed

lemma state_x0_between_fields:
  "d_lowerBound (d_partialModel state_x0_between) 0 = Some (DeltaRational 1 0)"
  "d_upperBound (d_partialModel state_x0_between) 0 = Some (DeltaRational 1 0)"
  "d_lowerConstraint (d_partialModel state_x0_between) 0 = literal 20"
  "d_upperConstraint (d_partialModel state_x0_between) 0 = literal 21"
  "d_tableau state_x0_between = tableau_x2"
  by (simp_all add: state_x0_between_def AssertUpper_def AssertLower_def initialState_def
        aboveUpperBound_def belowLowerBound_def Let_def update_frame checkBasicVariable_frame
        setUpperBound_def setUpperConstraint_def setLowerBound_def setLowerConstraint_def
        isMember_def d_basicManager_def tableau_x2_def getAssignment_def
        less_DeltaRational_def zero_DeltaRational_def)

theorem generateConflict_structure_witness:
  "Tableau_lookup (d_tableau state_x0_between) 2 = [(0, 1), (1, 1), (2, - 1)] \<and>
   generateConflictBelow state_x0_between 2 =
     mkNode AND [NullNode, literal 21, NullNode] \<and>
   generateConflictAbove state_x0_between 2 =
     mkNode AND [NullNode, literal 20, NullNode]"
proof -
  have h: "\<forall>e \<in> set (Tableau_lookup (d_tableau state_x0_between) 2). snd e \<noteq> 0"
    by (simp add: state_x0_between_fields Tableau_lookup_def tableau_x2_def)
  have l1: "d_lowerConstraint (d_partialModel state_x0_between) (Suc 0) = NullNode"
     "d_upperConstraint (d_partialModel state_x0_between) (Suc 0) = NullNode"
     "d_lowerConstraint (d_partialModel state_x0_between) 2 = NullNode"
     "d_upperConstraint (d_partialModel state_x0_between) 2 = NullNode"
  by (simp_all add: state_x0_between_def AssertUpper_def AssertLower_def initialState_def
        aboveUpperBound_def belowLowerBound_def Let_def update_frame checkBasicVariable_frame
        setUpperBound_def setUpperConstraint_def setLowerBound_def setLowerConstraint_def
        isMember_def d_basicManager_def tableau_x2_def getAssignment_def
        less_DeltaRational_def zero_DeltaRational_def)
  show ?thesis
    using generateConflict_structure[OF h]
    by (simp add: state_x0_between_fields Tableau_lookup_def tableau_x2_def belowConjunct_def
          aboveConjunct_def getLowerConstraint_def getUpperConstraint_def l1)
qed


subsection \<open>C9: selectSmallestInconsistentVar\<close>

lemma selectSmallestInconsistentVar_griggio_eq:
  "selectSmallestInconsistentVar_griggio s q =
     (case dropWhile (\<lambda>e. staleEntry s (fst e)) q of
        [] \<Rightarrow> (ARITHVAR_SENTINEL, [])
      | e # r \<Rightarrow> (fst e, e # r))"
  by (induction q) (auto simp add: staleEntry_def Let_def)

lemma selectSmallestInconsistentVar_bland_eq:
  "selectSmallestInconsistentVar_bland s q =
     (case dropWhile (staleEntry s) q of
        [] \<Rightarrow> (ARITHVAR_SENTINEL, [])
      | var # r \<Rightarrow> (var, var # r))"
  by (induction q) (auto simp add: staleEntry_def)

lemma dropWhile_Cons_fresh:
  "dropWhile P q = e # r \<Longrightarrow> \<not> P e \<and> e \<in> set q"
  by (metis dropWhile_eq_Cons_conv in_set_conv_decomp)

text \<open>
  Claim C9. In a state where the sentinel is not a basic variable,
  \<open>selectSmallestInconsistentVar\<close> returns the sentinel or a variable that is basic and
  whose assignment is inconsistent with its bounds. It changes only the active queue
  (the Griggio queue when \<open>pivotStage\<close> is true, the Bland queue otherwise): the stale
  entries in front of the first entry that is not stale are popped, and nothing else. A
  variable that is returned is the one of the entry now on top of the active queue. The
  sentinel is returned exactly when every entry of the active queue is stale.
\<close>

theorem selectSmallestInconsistentVar_result:
  assumes "\<not> isMember (d_basicManager s) ARITHVAR_SENTINEL"
  shows "(fst (selectSmallestInconsistentVar s) = ARITHVAR_SENTINEL \<or>
            (isMember (d_basicManager s) (fst (selectSmallestInconsistentVar s)) \<and>
             \<not> assignmentIsConsistent (d_partialModel s) (fst (selectSmallestInconsistentVar s)))) \<and>
         (d_pivotStage s \<longrightarrow>
            snd (selectSmallestInconsistentVar s) =
              s\<lparr>d_griggioRuleQueue :=
                  dropWhile (\<lambda>e. staleEntry s (fst e)) (d_griggioRuleQueue s)\<rparr> \<and>
            (fst (selectSmallestInconsistentVar s) = ARITHVAR_SENTINEL \<longleftrightarrow>
               (\<forall>e \<in> set (d_griggioRuleQueue s). staleEntry s (fst e))) \<and>
            (fst (selectSmallestInconsistentVar s) \<noteq> ARITHVAR_SENTINEL \<longrightarrow>
               d_griggioRuleQueue (snd (selectSmallestInconsistentVar s)) \<noteq> [] \<and>
               fst (hd (d_griggioRuleQueue (snd (selectSmallestInconsistentVar s))))
                 = fst (selectSmallestInconsistentVar s))) \<and>
         (\<not> d_pivotStage s \<longrightarrow>
            snd (selectSmallestInconsistentVar s) =
              s\<lparr>d_possiblyInconsistent := dropWhile (staleEntry s) (d_possiblyInconsistent s)\<rparr> \<and>
            (fst (selectSmallestInconsistentVar s) = ARITHVAR_SENTINEL \<longleftrightarrow>
               (\<forall>var \<in> set (d_possiblyInconsistent s). staleEntry s var)) \<and>
            (fst (selectSmallestInconsistentVar s) \<noteq> ARITHVAR_SENTINEL \<longrightarrow>
               d_possiblyInconsistent (snd (selectSmallestInconsistentVar s)) \<noteq> [] \<and>
               hd (d_possiblyInconsistent (snd (selectSmallestInconsistentVar s)))
                 = fst (selectSmallestInconsistentVar s)))"
proof (cases "d_pivotStage s")
  case True
  show ?thesis
  proof (cases "dropWhile (\<lambda>e. staleEntry s (fst e)) (d_griggioRuleQueue s)")
    case Nil
    then have "\<forall>e \<in> set (d_griggioRuleQueue s). staleEntry s (fst e)"
      by (simp add: dropWhile_eq_Nil_conv)
    then show ?thesis
      using True
      by (simp add: Nil selectSmallestInconsistentVar_def
            selectSmallestInconsistentVar_griggio_eq)
  next
    case (Cons e r)
    from dropWhile_Cons_fresh[OF Cons]
    have e: "\<not> staleEntry s (fst e)" "e \<in> set (d_griggioRuleQueue s)" by simp_all
    then have ne: "fst e \<noteq> ARITHVAR_SENTINEL" using assms by (auto simp add: staleEntry_def)
    have sel: "selectSmallestInconsistentVar s = (fst e, s\<lparr>d_griggioRuleQueue := e # r\<rparr>)"
      using True
      by (simp add: Cons selectSmallestInconsistentVar_def
            selectSmallestInconsistentVar_griggio_eq)
    have m: "isMember (d_basicManager s) (fst e)"
        "\<not> assignmentIsConsistent (d_partialModel s) (fst e)"
      using e(1) by (simp_all add: staleEntry_def)
    have ex: "\<not> (\<forall>e \<in> set (d_griggioRuleQueue s). staleEntry s (fst e))"
      using e by blast
    show ?thesis
      using True ne m ex by (simp add: sel Cons)
  qed
next
  case False
  show ?thesis
  proof (cases "dropWhile (staleEntry s) (d_possiblyInconsistent s)")
    case Nil
    then have "\<forall>e \<in> set (d_possiblyInconsistent s). staleEntry s e"
      by (simp add: dropWhile_eq_Nil_conv)
    then show ?thesis
      using False
      by (simp add: Nil selectSmallestInconsistentVar_def
            selectSmallestInconsistentVar_bland_eq)
  next
    case (Cons e r)
    from dropWhile_Cons_fresh[OF Cons]
    have e: "\<not> staleEntry s e" "e \<in> set (d_possiblyInconsistent s)" by simp_all
    then have ne: "e \<noteq> ARITHVAR_SENTINEL" using assms by (auto simp add: staleEntry_def)
    have sel: "selectSmallestInconsistentVar s = (e, s\<lparr>d_possiblyInconsistent := e # r\<rparr>)"
      using False
      by (simp add: Cons selectSmallestInconsistentVar_def
            selectSmallestInconsistentVar_bland_eq)
    have m: "isMember (d_basicManager s) e"
        "\<not> assignmentIsConsistent (d_partialModel s) e"
      using e(1) by (simp_all add: staleEntry_def)
    have ex: "\<not> (\<forall>e \<in> set (d_possiblyInconsistent s). staleEntry s e)"
      using e by blast
    show ?thesis
      using False ne m ex by (simp add: sel Cons)
  qed
qed


lemma state_x2_le_m1_eq:
  "state_x2_le_m1 =
     (initialState 3 tableau_x2)
       \<lparr>d_partialModel := (d_partialModel (initialState 3 tableau_x2))
          \<lparr>d_upperBound := (\<lambda>x. None)(2 := Some (DeltaRational (- 1) 0)),
           d_upperConstraint := (\<lambda>x. NullNode)(2 := literal 30)\<rparr>,
        d_griggioRuleQueue := [(2, DeltaRational 1 0)]\<rparr>"
  by (simp add: state_x2_le_m1_def AssertUpper_def initialState_def aboveUpperBound_def
        belowLowerBound_def Let_def setUpperBound_def setUpperConstraint_def isMember_def
        d_basicManager_def tableau_x2_def checkBasicVariable_def assignmentIsConsistent_def
        getAssignment_def getUpperBound_def less_DeltaRational_def zero_DeltaRational_def
        minus_DeltaRational_def fun_upd_idem_iff)

theorem selectSmallestInconsistentVar_result_witness:
  "\<not> isMember (d_basicManager state_stale_front) ARITHVAR_SENTINEL \<and>
   d_pivotStage state_stale_front \<and>
   d_griggioRuleQueue state_stale_front = [(0, DeltaRational 5 0), (2, DeltaRational 1 0)] \<and>
   fst (selectSmallestInconsistentVar state_stale_front) = 2 \<and>
   d_griggioRuleQueue (snd (selectSmallestInconsistentVar state_stale_front))
     = [(2, DeltaRational 1 0)]"
proof -
  have h: "\<not> isMember (d_basicManager state_stale_front) ARITHVAR_SENTINEL"
    by (simp add: state_stale_front_def state_x2_le_m1_eq isMember_def d_basicManager_def
          initialState_def tableau_x2_def ARITHVAR_SENTINEL_def)
  have p: "d_pivotStage state_stale_front"
    by (simp add: state_stale_front_def state_x2_le_m1_eq initialState_def)
  have q: "d_griggioRuleQueue state_stale_front = [(0, DeltaRational 5 0), (2, DeltaRational 1 0)]"
    by (simp add: state_stale_front_def state_x2_le_m1_eq)
  have st: "staleEntry state_stale_front 0" "\<not> staleEntry state_stale_front 2"
    by (simp_all add: staleEntry_def state_stale_front_def state_x2_le_m1_eq isMember_def
          d_basicManager_def initialState_def tableau_x2_def assignmentIsConsistent_def
          aboveUpperBound_def belowLowerBound_def getAssignment_def less_DeltaRational_def
          zero_DeltaRational_def)
  note T = selectSmallestInconsistentVar_result[OF h]
  have dw: "dropWhile (\<lambda>e. staleEntry state_stale_front (fst e))
              (d_griggioRuleQueue state_stale_front) = [(2, DeltaRational 1 0)]"
    by (simp add: q st)
  from T p have a: "snd (selectSmallestInconsistentVar state_stale_front) =
      state_stale_front\<lparr>d_griggioRuleQueue := [(2, DeltaRational 1 0)]\<rparr>"
    by (simp add: dw)
  from T p have "fst (selectSmallestInconsistentVar state_stale_front) \<noteq> ARITHVAR_SENTINEL"
    using st by (simp add: q)
  with T p have "fst (hd (d_griggioRuleQueue (snd (selectSmallestInconsistentVar state_stale_front))))
      = fst (selectSmallestInconsistentVar state_stale_front)"
    by meson
  then have b: "fst (selectSmallestInconsistentVar state_stale_front) = 2"
    by (simp add: a)
  show ?thesis
    using h p q a b by simp
qed


subsection \<open>C5: the slack variable selected\<close>

lemma selectSlack_loop_Cons:
  "selectSlack_loop a s xi (e # row) slack n =
     (if validSlack a s xi e then
        (if d_pivotStage s then
           (if getRowCount (d_tableau s) (fst e) < n
            then selectSlack_loop a s xi row (fst e) (getRowCount (d_tableau s) (fst e))
            else selectSlack_loop a s xi row slack n)
         else fst e)
      else selectSlack_loop a s xi row slack n)"
  by (cases e) (auto simp add: validSlack_def)


lemma arg_min_list_Cons:
  "arg_min_list f (x # xs) =
     (if xs = [] then x else if f x \<le> f (arg_min_list f xs) then x else arg_min_list f xs)"
  by (cases xs) (simp_all add: Let_def)







subsection \<open>C7: the initial conflict\<close>

lemma validSlack_cong:
  "d_partialModel s' = d_partialModel s \<Longrightarrow> validSlack a s' xi e = validSlack a s xi e"
  by (simp add: validSlack_def)

lemma selectSlack_loop_cong:
  assumes "d_partialModel s' = d_partialModel s" "d_tableau s' = d_tableau s"
    "d_pivotStage s' = d_pivotStage s"
  shows "selectSlack_loop a s' xi row slack n = selectSlack_loop a s xi row slack n"
proof (induction row arbitrary: slack n)
  case Nil
  show ?case by simp
next
  case (Cons e row)
  show ?case
    by (simp del: selectSlack_loop.simps(2)
          add: selectSlack_loop_Cons validSlack_cong[OF assms(1)] assms(2,3) Cons.IH)
qed

lemma checkBasicForConflict_cong:
  assumes "d_partialModel s' = d_partialModel s" "d_tableau s' = d_tableau s"
    "d_pivotStage s' = d_pivotStage s"
  shows "checkBasicForConflict s' x = checkBasicForConflict s x"
  by (simp add: checkBasicForConflict_def selectSlackBelow_def selectSlackAbove_def
        selectSlack_def generateConflictBelow_def generateConflictAbove_def Let_def
        selectSlack_loop_cong[OF assms] assms(1,2))

lemma selectInitialConflict_collect_eq:
  "selectInitialConflict_collect s q init =
     init @ filter (\<lambda>e. \<not> staleEntry s (fst e)) q"
  by (induction q arbitrary: init) (simp_all add: Let_def staleEntry_def)

lemma betterConflict_eq:
  "c \<noteq> NullNode \<Longrightarrow>
   betterConflict chosen c =
     (if isNull chosen \<or> getNumChildren c < getNumChildren chosen then c else chosen)"
  by (auto simp add: betterConflict_def isNull_def)

lemma betterConflict_changes:
  "c \<noteq> NullNode \<Longrightarrow>
   (betterConflict chosen c \<noteq> chosen) = (isNull chosen \<or> getNumChildren c < getNumChildren chosen)"
  by (auto simp add: betterConflict_def isNull_def)

lemmas eval_defs =
  AssertUpper_def AssertLower_def initialState_def aboveUpperBound_def
  belowLowerBound_def Let_def setUpperBound_def setUpperConstraint_def setLowerBound_def
  setLowerConstraint_def setAssignment_def isMember_def
  d_basicManager_def tableau_x2_def checkBasicVariable_def assignmentIsConsistent_def
  getAssignment_def getUpperBound_def getLowerBound_def less_DeltaRational_def
  less_eq_DeltaRational_def zero_DeltaRational_def
  minus_DeltaRational_def plus_DeltaRational_def times_Rational_def
  update_def Tableau_lookup_def has_def lookup_def fun_upd_idem_iff

lemma state_scenario1_eq:
  "state_scenario1 =
     (initialState 3 tableau_x2)
       \<lparr>d_partialModel :=
          \<lparr>d_assignment = (\<lambda>x. 0)(2 := DeltaRational 2 0, 0 := DeltaRational 1 0, 1 := DeltaRational 1 0),
           d_lowerBound = (\<lambda>x. None)(0 := Some (DeltaRational 1 0), 1 := Some (DeltaRational 1 0)),
           d_upperBound = (\<lambda>x. None)(2 := Some (DeltaRational 1 0)),
           d_lowerConstraint = (\<lambda>x. NullNode)(0 := literal 40, 1 := literal 41),
           d_upperConstraint = (\<lambda>x. NullNode)(2 := literal 42)\<rparr>,
        d_griggioRuleQueue := [(2, DeltaRational 1 0)],
        d_statistics := (d_statistics (initialState 3 tableau_x2))\<lparr>d_statUpdates := 2\<rparr>\<rparr>"
  apply (simp add: state_scenario1_def eval_defs)
  apply (auto simp add: fun_eq_iff)
  done

lemma state_scenario1_conflict:
  "checkBasicForConflict state_scenario1 2 = mkNode AND [literal 42, literal 40, literal 41]"
  by (simp add: state_scenario1_eq checkBasicForConflict_def selectSlackBelow_def
        selectSlackAbove_def selectSlack_def generateConflictAbove_def
        strictlyAboveLowerBound_def strictlyBelowUpperBound_def getUpperConstraint_def
        getLowerConstraint_def eval_defs)

lemma selectInitialConflict_loop_eq:
  assumes "d_partialModel s1 = d_partialModel s" "d_tableau s1 = d_tableau s"
    "d_pivotStage s1 = d_pivotStage s"
  shows "fst (snd (selectInitialConflict_loop init s1 chosen ch)) =
           foldl betterConflict chosen
             (filter (\<lambda>n. \<not> isNull n) (map (\<lambda>e. checkBasicForConflict s (fst e)) init)) \<and>
         snd (snd (selectInitialConflict_loop init s1 chosen ch)) =
           ch + (if isNull chosen
                 then (case filter (\<lambda>n. \<not> isNull n)
                              (map (\<lambda>e. checkBasicForConflict s (fst e)) init) of
                         [] \<Rightarrow> 0
                       | c # cs \<Rightarrow> Suc (countReplacements c cs))
                 else countReplacements chosen
                        (filter (\<lambda>n. \<not> isNull n)
                           (map (\<lambda>e. checkBasicForConflict s (fst e)) init))) \<and>
         d_statistics (fst (selectInitialConflict_loop init s1 chosen ch)) =
           (d_statistics s1)\<lparr>d_statEarlyConflicts := d_statEarlyConflicts (d_statistics s1) +
             length (filter (\<lambda>n. \<not> isNull n) (map (\<lambda>e. checkBasicForConflict s (fst e)) init))\<rparr> \<and>
         d_partialModel (fst (selectInitialConflict_loop init s1 chosen ch)) = d_partialModel s \<and>
         d_tableau (fst (selectInitialConflict_loop init s1 chosen ch)) = d_tableau s"
  using assms
proof (induction init arbitrary: s1 chosen ch)
  case Nil
  then show ?case by simp
next
  case (Cons i init)
  let ?s1 = "s1\<lparr>d_griggioRuleQueue := GriggioPQueue_push i (d_griggioRuleQueue s1)\<rparr>"
  let ?s2 = "?s1\<lparr>d_statistics := (d_statistics ?s1)
               \<lparr>d_statEarlyConflicts := d_statEarlyConflicts (d_statistics ?s1) + 1\<rparr>\<rparr>"
  let ?c = "checkBasicForConflict s (fst i)"
  let ?rest = "filter (\<lambda>n. \<not> isNull n) (map (\<lambda>e. checkBasicForConflict s (fst e)) init)"
  have c: "checkBasicForConflict ?s1 (fst i) = ?c"
    by (rule checkBasicForConflict_cong) (simp_all add: Cons.prems)
  have pre1: "d_partialModel ?s1 = d_partialModel s" "d_tableau ?s1 = d_tableau s"
      "d_pivotStage ?s1 = d_pivotStage s"
    using Cons.prems by simp_all
  have pre2: "d_partialModel ?s2 = d_partialModel s" "d_tableau ?s2 = d_tableau s"
      "d_pivotStage ?s2 = d_pivotStage s"
    using Cons.prems by simp_all
  show ?case
  proof (cases "isNull ?c")
    case True
    have step: "selectInitialConflict_loop (i # init) s1 chosen ch =
          selectInitialConflict_loop init ?s1 chosen ch"
      using True by (simp add: Let_def c)
    have f: "filter (\<lambda>n. \<not> isNull n) (map (\<lambda>e. checkBasicForConflict s (fst e)) (i # init)) =
          ?rest"
      using True by simp
    show ?thesis
      unfolding step f using Cons.IH[OF pre1, of chosen ch] by simp
  next
    case False
    then have nn: "?c \<noteq> NullNode" by (simp add: isNull_def)
    let ?b = "betterConflict chosen ?c"
    let ?ch = "if ?b \<noteq> chosen then ch + 1 else ch"
    have step: "selectInitialConflict_loop (i # init) s1 chosen ch =
          selectInitialConflict_loop init ?s2 ?b ?ch"
      using False by (simp add: Let_def c)
    have f: "filter (\<lambda>n. \<not> isNull n) (map (\<lambda>e. checkBasicForConflict s (fst e)) (i # init)) =
          ?c # ?rest"
      using False by simp
    have bn: "\<not> isNull ?b"
      using nn by (simp add: betterConflict_eq isNull_def)
    have cr: "?ch + countReplacements ?b ?rest =
          ch + (if isNull chosen then Suc (countReplacements ?c ?rest)
                else countReplacements chosen (?c # ?rest))"
      using nn
      by (auto simp add: betterConflict_changes[OF nn] betterConflict_eq[OF nn] isNull_def)
    have st: "(d_statistics ?s2)\<lparr>d_statEarlyConflicts := d_statEarlyConflicts (d_statistics ?s2) + k\<rparr>
        = (d_statistics s1)\<lparr>d_statEarlyConflicts := d_statEarlyConflicts (d_statistics s1) + Suc k\<rparr>" for k
      by simp
    have ih: "fst (snd (selectInitialConflict_loop init ?s2 ?b ?ch)) = foldl betterConflict ?b ?rest"
        "snd (snd (selectInitialConflict_loop init ?s2 ?b ?ch)) = ?ch + countReplacements ?b ?rest"
        "d_statistics (fst (selectInitialConflict_loop init ?s2 ?b ?ch)) =
           (d_statistics s1)\<lparr>d_statEarlyConflicts := d_statEarlyConflicts (d_statistics s1) +
              Suc (length ?rest)\<rparr>"
        "d_partialModel (fst (selectInitialConflict_loop init ?s2 ?b ?ch)) = d_partialModel s"
        "d_tableau (fst (selectInitialConflict_loop init ?s2 ?b ?ch)) = d_tableau s"
      using Cons.IH[OF pre2, of ?b ?ch] bn by (simp_all only: st if_False simp_thms)
    show ?thesis
      unfolding step f
      by (simp only: ih cr foldl_Cons list.simps list.size) simp
  qed
qed

lemma foldl_betterConflict:
  "\<forall>c \<in> set cs. c \<noteq> NullNode \<Longrightarrow>
   foldl betterConflict chosen cs =
     (if cs = [] then chosen
      else if isNull chosen \<or>
              getNumChildren (arg_min_list getNumChildren cs) < getNumChildren chosen
        then arg_min_list getNumChildren cs
        else chosen)"
proof (induction cs arbitrary: chosen)
  case Nil
  then show ?case by simp
next
  case (Cons c cs)
  then have nn: "c \<noteq> NullNode" and rest: "\<forall>c \<in> set cs. c \<noteq> NullNode" by simp_all
  have b: "\<not> isNull (betterConflict chosen c)"
    using nn by (simp add: betterConflict_eq isNull_def)
  show ?case
    using b nn
    by (simp add: Cons.IH[OF rest] arg_min_list_Cons)
       (auto simp add: betterConflict_eq[OF nn] isNull_def)
qed

lemma arg_min_list_first:
  "xs \<noteq> [] \<Longrightarrow>
   \<exists>pre post. xs = pre @ arg_min_list f xs # post \<and>
     (\<forall>x \<in> set pre. f (arg_min_list f xs) < f x)"
proof (induction xs)
  case Nil
  then show ?case by simp
next
  case (Cons x xs)
  show ?case
  proof (cases "xs = [] \<or> f x \<le> f (arg_min_list f xs)")
    case True
    then have "arg_min_list f (x # xs) = x" by (auto simp add: arg_min_list_Cons)
    then have "x # xs = [] @ arg_min_list f (x # xs) # xs \<and>
        (\<forall>y \<in> set []. f (arg_min_list f (x # xs)) < f y)" by simp
    then show ?thesis by blast
  next
    case False
    then have ne: "xs \<noteq> []" and lt: "f (arg_min_list f xs) < f x" by auto
    from Cons.IH[OF ne] obtain pre post where
      p: "xs = pre @ arg_min_list f xs # post" "\<forall>y \<in> set pre. f (arg_min_list f xs) < f y"
      by blast
    have m: "arg_min_list f (x # xs) = arg_min_list f xs"
      using False by (simp add: arg_min_list_Cons)
    have "x # xs = (x # pre) @ arg_min_list f (x # xs) # post \<and>
        (\<forall>y \<in> set (x # pre). f (arg_min_list f (x # xs)) < f y)"
      using p lt by (simp add: m)
    then show ?thesis by blast
  qed
qed


lemma state_two_conflicts_eq:
  "state_two_conflicts =
     (initialState 5 tableau_two_rows)
       \<lparr>d_partialModel :=
          \<lparr>d_assignment = (\<lambda>x. 0)(0 := DeltaRational 1 0, 1 := DeltaRational 1 0,
             2 := DeltaRational 1 0, 3 := DeltaRational 3 0, 4 := DeltaRational 2 0),
           d_lowerBound = (\<lambda>x. None)(0 := Some (DeltaRational 1 0), 1 := Some (DeltaRational 1 0),
             2 := Some (DeltaRational 1 0)),
           d_upperBound = (\<lambda>x. None)(3 := Some (DeltaRational 1 0), 4 := Some (DeltaRational 1 0)),
           d_lowerConstraint = (\<lambda>x. NullNode)(0 := literal 50, 1 := literal 51, 2 := literal 52),
           d_upperConstraint = (\<lambda>x. NullNode)(3 := literal 53, 4 := literal 54)\<rparr>,
        d_griggioRuleQueue := [(3, DeltaRational 2 0), (4, DeltaRational 1 0)],
        d_statistics := (d_statistics (initialState 5 tableau_two_rows))\<lparr>d_statUpdates := 3\<rparr>\<rparr>"
  apply (simp add: state_two_conflicts_def eval_defs tableau_two_rows_def)
  apply (auto simp add: fun_eq_iff)
  done


lemma state_two_conflicts_checks:
  "checkBasicForConflict state_two_conflicts 3 =
     mkNode AND [literal 53, literal 50, literal 51, literal 52]"
  "checkBasicForConflict state_two_conflicts 4 = mkNode AND [literal 54, literal 50, literal 51]"
  by (simp_all add: state_two_conflicts_eq checkBasicForConflict_def selectSlackBelow_def
        selectSlackAbove_def selectSlack_def generateConflictAbove_def
        strictlyAboveLowerBound_def strictlyBelowUpperBound_def getUpperConstraint_def
        getLowerConstraint_def eval_defs tableau_two_rows_def)

lemma state_two_conflicts_queue:
  "d_griggioRuleQueue state_two_conflicts = [(3, DeltaRational 2 0), (4, DeltaRational 1 0)]"
  "\<not> staleEntry state_two_conflicts 3" "\<not> staleEntry state_two_conflicts 4"
  "d_statEarlyConflicts (d_statistics state_two_conflicts) = 0"
  "d_statEarlyConflictImprovements (d_statistics state_two_conflicts) = 0"
  by (simp_all add: state_two_conflicts_eq staleEntry_def eval_defs tableau_two_rows_def)

lemma state_two_conflicts_initialConflicts:
  "initialConflicts state_two_conflicts =
     [mkNode AND [literal 53, literal 50, literal 51, literal 52],
      mkNode AND [literal 54, literal 50, literal 51]]"
  by (simp add: initialConflicts_def state_two_conflicts_queue state_two_conflicts_checks
        isNull_def)

text \<open>
  Claim C7 as stated fails in its last part. In the state with two rows in conflict the
  clauses found have 4 and 3 conjuncts, in this order: the chosen clause is replaced
  once, and \<open>earlyConflictImprovements\<close> is incremented all the same.
\<close>

theorem selectInitialConflict_result_counterexample:
  "map getNumChildren (initialConflicts state_two_conflicts) = [4, 3] \<and>
   replacements (initialConflicts state_two_conflicts) = 1 \<and>
   d_statEarlyConflictImprovements (d_statistics state_two_conflicts) = 0 \<and>
   d_statEarlyConflictImprovements
     (d_statistics (snd (selectInitialConflict state_two_conflicts))) = 1"
proof -
  let ?s1 = "state_two_conflicts\<lparr>d_griggioRuleQueue := []\<rparr>"
  let ?s2 = "state_two_conflicts\<lparr>d_griggioRuleQueue := [(3, DeltaRational 2 0)]\<rparr>"
  have c3: "checkBasicForConflict ?s2 3 =
      mkNode AND [literal 53, literal 50, literal 51, literal 52]"
    by (simp add: checkBasicForConflict_cong[of ?s2 state_two_conflicts]
          state_two_conflicts_checks)
  have c4: "checkBasicForConflict s' 4 = mkNode AND [literal 54, literal 50, literal 51]"
    if "d_partialModel s' = d_partialModel state_two_conflicts"
       "d_tableau s' = d_tableau state_two_conflicts"
       "d_pivotStage s' = d_pivotStage state_two_conflicts" for s'
    using checkBasicForConflict_cong[OF that, of 4] by (simp add: state_two_conflicts_checks)
  have "d_statEarlyConflictImprovements
      (d_statistics (snd (selectInitialConflict state_two_conflicts))) = 1"
    by (simp add: selectInitialConflict_def selectInitialConflict_collect_eq
          state_two_conflicts_queue Let_def c3 c4 isNull_def betterConflict_def)
  then show ?thesis
    by (simp add: state_two_conflicts_initialConflicts replacements_def
          state_two_conflicts_queue)
qed

text \<open>
  Claim C7, amended. Let the clauses found be the non-null results of
  \<open>checkBasicForConflict\<close> on the entries of the Griggio queue whose variable is basic and
  inconsistent, in queue order. \<open>selectInitialConflict\<close> returns null if no clause is
  found, and otherwise the first of the clauses found that has the least number of
  conjuncts. The counter \<open>earlyConflicts\<close> grows by the number of clauses found, and
  \<open>earlyConflictImprovements\<close> grows by one exactly when the chosen clause was replaced at
  least once (the source counts the first clause found as a change too, and tests for
  more than one change).
\<close>

theorem selectInitialConflict_result:
  "fst (selectInitialConflict s) =
     (if initialConflicts s = [] then NullNode
      else arg_min_list getNumChildren (initialConflicts s)) \<and>
   (initialConflicts s \<noteq> [] \<longrightarrow>
      (\<exists>pre post. initialConflicts s = pre @ fst (selectInitialConflict s) # post \<and>
         (\<forall>c \<in> set pre. getNumChildren (fst (selectInitialConflict s)) < getNumChildren c)) \<and>
      (\<forall>c \<in> set (initialConflicts s).
         getNumChildren (fst (selectInitialConflict s)) \<le> getNumChildren c)) \<and>
   d_statEarlyConflicts (d_statistics (snd (selectInitialConflict s))) =
     d_statEarlyConflicts (d_statistics s) + length (initialConflicts s) \<and>
   d_statEarlyConflictImprovements (d_statistics (snd (selectInitialConflict s))) =
     d_statEarlyConflictImprovements (d_statistics s) +
       (if 1 \<le> replacements (initialConflicts s) then 1 else 0)"
proof -
  let ?s1 = "s\<lparr>d_griggioRuleQueue := []\<rparr>"
  let ?init = "filter (\<lambda>e. \<not> staleEntry s (fst e)) (d_griggioRuleQueue s)"
  let ?r = "selectInitialConflict_loop ?init ?s1 NullNode 0"
  have confs: "filter (\<lambda>n. \<not> isNull n) (map (\<lambda>e. checkBasicForConflict s (fst e)) ?init)
      = initialConflicts s"
    by (simp add: initialConflicts_def)
  have loop: "fst (snd ?r) = foldl betterConflict NullNode (initialConflicts s)"
      "snd (snd ?r) = (case initialConflicts s of [] \<Rightarrow> 0
                       | c # cs \<Rightarrow> Suc (countReplacements c cs))"
      "d_statistics (fst ?r) = (d_statistics s)\<lparr>d_statEarlyConflicts :=
          d_statEarlyConflicts (d_statistics s) + length (initialConflicts s)\<rparr>"
  proof -
    have p: "d_partialModel ?s1 = d_partialModel s" "d_tableau ?s1 = d_tableau s"
        "d_pivotStage ?s1 = d_pivotStage s"
      by simp_all
    note L = selectInitialConflict_loop_eq[OF p, of ?init NullNode 0, unfolded confs]
    show "fst (snd ?r) = foldl betterConflict NullNode (initialConflicts s)"
      "snd (snd ?r) = (case initialConflicts s of [] \<Rightarrow> 0
                       | c # cs \<Rightarrow> Suc (countReplacements c cs))"
      "d_statistics (fst ?r) = (d_statistics s)\<lparr>d_statEarlyConflicts :=
          d_statEarlyConflicts (d_statistics s) + length (initialConflicts s)\<rparr>"
      using L by (simp_all add: isNull_def)
  qed
  have ch: "(1 < snd (snd ?r)) = (1 \<le> replacements (initialConflicts s))"
    by (cases "initialConflicts s") (auto simp add: loop replacements_def)
  have sel: "selectInitialConflict s =
      (fst (snd ?r),
       if snd (snd ?r) > 1
       then (fst ?r)\<lparr>d_statistics := (d_statistics (fst ?r))
              \<lparr>d_statEarlyConflictImprovements :=
                 d_statEarlyConflictImprovements (d_statistics (fst ?r)) + 1\<rparr>\<rparr>
       else fst ?r)"
    by (simp add: selectInitialConflict_def selectInitialConflict_collect_eq Let_def
          split_beta)
  have nn: "\<forall>c \<in> set (initialConflicts s). c \<noteq> NullNode"
    by (simp add: initialConflicts_def isNull_def)
  have res: "fst (selectInitialConflict s) =
      (if initialConflicts s = [] then NullNode
       else arg_min_list getNumChildren (initialConflicts s))"
    by (simp add: sel loop foldl_betterConflict[OF nn] isNull_def)
  have least: "\<forall>c \<in> set (initialConflicts s).
      getNumChildren (arg_min_list getNumChildren (initialConflicts s)) \<le> getNumChildren c"
    if "initialConflicts s \<noteq> []"
  proof -
    have "getNumChildren (arg_min_list getNumChildren (initialConflicts s)) =
        Min (getNumChildren ` set (initialConflicts s))"
      using that by (rule f_arg_min_list_f)
    then show ?thesis by simp
  qed
  have st1: "d_statEarlyConflicts (d_statistics (snd (selectInitialConflict s))) =
      d_statEarlyConflicts (d_statistics s) + length (initialConflicts s)"
    by (simp add: sel loop(1,3))
  have st2: "d_statEarlyConflictImprovements (d_statistics (snd (selectInitialConflict s))) =
      d_statEarlyConflictImprovements (d_statistics s) +
        (if 1 \<le> replacements (initialConflicts s) then 1 else 0)"
    unfolding sel ch[symmetric] by (simp add: loop(3))
  show ?thesis
    using res least arg_min_list_first[of "initialConflicts s" getNumChildren] st1 st2
    by simp
qed


theorem selectInitialConflict_result_witness:
  "d_griggioRuleQueue state_two_conflicts = [(3, DeltaRational 2 0), (4, DeltaRational 1 0)] \<and>
   initialConflicts state_two_conflicts =
     [mkNode AND [literal 53, literal 50, literal 51, literal 52],
      mkNode AND [literal 54, literal 50, literal 51]] \<and>
   fst (selectInitialConflict state_two_conflicts) =
     mkNode AND [literal 54, literal 50, literal 51] \<and>
   d_statEarlyConflicts (d_statistics (snd (selectInitialConflict state_two_conflicts))) = 2 \<and>
   d_statEarlyConflictImprovements
     (d_statistics (snd (selectInitialConflict state_two_conflicts))) = 1"
  using selectInitialConflict_result[of state_two_conflicts]
  by (simp add: state_two_conflicts_initialConflicts state_two_conflicts_queue
        replacements_def)

subsection \<open>C8: updateInconsistentVars on a satisfying state\<close>

lemma allBasicConsistent_stale:
  "allBasicConsistent s \<Longrightarrow> staleEntry s x"
  by (auto simp add: allBasicConsistent_def staleEntry_def isMember_def d_basicManager_def
        list_all_iff)

lemma selectSmallestInconsistentVar_all_stale:
  assumes "allBasicConsistent s"
  shows "selectSmallestInconsistentVar s =
           (ARITHVAR_SENTINEL,
            if d_pivotStage s then s\<lparr>d_griggioRuleQueue := []\<rparr>
            else s\<lparr>d_possiblyInconsistent := []\<rparr>)"
proof -
  have g: "dropWhile (\<lambda>e. staleEntry s (fst e)) q = []" for q :: GriggioPQueue
    by (simp add: allBasicConsistent_stale[OF assms])
  have b: "dropWhile (staleEntry s) q = []" for q
    by (simp add: allBasicConsistent_stale[OF assms])
  show ?thesis
    by (simp add: selectSmallestInconsistentVar_def selectSmallestInconsistentVar_griggio_eq
          selectSmallestInconsistentVar_bland_eq g b)
qed

lemma privateUpdateInconsistentVars_all_stale:
  assumes "allBasicConsistent s"
  shows "privateUpdateInconsistentVars s =
           Some (NullNode,
                 if d_pivotStage s then s\<lparr>d_griggioRuleQueue := []\<rparr>
                 else s\<lparr>d_possiblyInconsistent := []\<rparr>)"
  unfolding privateUpdateInconsistentVars_def
  by (subst privateUpdateInconsistentVars_from.simps)
     (simp add: privateUpdateInconsistentVars_body_def
        selectSmallestInconsistentVar_all_stale[OF assms])

lemma selectInitialConflict_all_stale:
  assumes "allBasicConsistent s"
  shows "selectInitialConflict s = (NullNode, s\<lparr>d_griggioRuleQueue := []\<rparr>)"
proof -
  have "filter (\<lambda>e. \<not> staleEntry s (fst e)) q = []" for q :: GriggioPQueue
    by (simp add: allBasicConsistent_stale[OF assms])
  then show ?thesis
    by (simp add: selectInitialConflict_def selectInitialConflict_collect_eq)
qed

text \<open>
  Claim C8. In a state where every basic variable is inside its bounds,
  \<open>updateInconsistentVars\<close> returns, and what it returns is null; the tableau, the
  partial model and every statistics counter (the pivots counter among them) are as
  before the call, so no pivot was performed. If the Griggio queue is empty at entry,
  the call returns null with the whole state unchanged, whatever the assignment.
\<close>

theorem updateInconsistentVars_sat:
  "(d_griggioRuleQueue s = [] \<longrightarrow> updateInconsistentVars s = Some (NullNode, s)) \<and>
   (allBasicConsistent s \<longrightarrow>
      (\<exists>s'. updateInconsistentVars s = Some (NullNode, s') \<and>
            d_tableau s' = d_tableau s \<and>
            d_partialModel s' = d_partialModel s \<and>
            d_statistics s' = d_statistics s \<and>
            d_statPivots (d_statistics s') = d_statPivots (d_statistics s)))"
proof (intro conjI impI)
  show "updateInconsistentVars s = Some (NullNode, s)" if "d_griggioRuleQueue s = []"
    using that by (simp add: updateInconsistentVars_def)
next
  assume sat: "allBasicConsistent s"
  let ?s1 = "s\<lparr>d_foundAConflict := False, d_pivotsSinceConflict := 0\<rparr>"
  have sat1: "allBasicConsistent ?s1"
    using sat by (simp add: allBasicConsistent_def)
  have sat2: "allBasicConsistent (?s1\<lparr>d_griggioRuleQueue := []\<rparr>)"
    using sat by (simp add: allBasicConsistent_def)
  show "\<exists>s'. updateInconsistentVars s = Some (NullNode, s') \<and>
            d_tableau s' = d_tableau s \<and>
            d_partialModel s' = d_partialModel s \<and>
            d_statistics s' = d_statistics s \<and>
            d_statPivots (d_statistics s') = d_statPivots (d_statistics s)"
    by (simp add: updateInconsistentVars_def Let_def isNull_def
          selectInitialConflict_all_stale[OF sat1]
          privateUpdateInconsistentVars_all_stale[OF sat1]
          privateUpdateInconsistentVars_all_stale[OF sat2])
qed

lemma state_sat_stale_consistent: "allBasicConsistent state_sat_stale"
  by (simp add: allBasicConsistent_def state_sat_stale_def state_x0_between_fields tableau_x2_def
        assignmentIsConsistent_def belowLowerBound_def aboveUpperBound_def
        state_x0_between_def AssertUpper_def AssertLower_def initialState_def Let_def
        update_frame checkBasicVariable_frame setUpperBound_def setUpperConstraint_def
        setLowerBound_def setLowerConstraint_def isMember_def d_basicManager_def)

theorem updateInconsistentVars_sat_witness:
  "allBasicConsistent state_sat_stale \<and>
   d_griggioRuleQueue state_sat_stale = [(0, DeltaRational 5 0), (2, DeltaRational 1 0)] \<and>
   (\<exists>s'. updateInconsistentVars state_sat_stale = Some (NullNode, s') \<and>
         d_tableau s' = tableau_x2 \<and>
         d_statPivots (d_statistics s') = d_statPivots (d_statistics state_sat_stale))"
  using updateInconsistentVars_sat[of state_sat_stale] state_sat_stale_consistent
  by (auto simp add: state_sat_stale_def state_x0_between_fields)


subsection \<open>C2: the postcondition of pivotAndUpdate\<close>

lemma pivotAndUpdate_loop_frame:
  "d_tableau (pivotAndUpdate_loop xi xj th bs s) = d_tableau s"
  "d_out (pivotAndUpdate_loop xi xj th bs s) = d_out s"
  "d_statistics (pivotAndUpdate_loop xi xj th bs s) = d_statistics s"
  "d_pivotStage (pivotAndUpdate_loop xi xj th bs s) = d_pivotStage s"
  "d_numVariables (pivotAndUpdate_loop xi xj th bs s) = d_numVariables s"
  "d_foundAConflict (pivotAndUpdate_loop xi xj th bs s) = d_foundAConflict s"
  "d_pivotsSinceConflict (pivotAndUpdate_loop xi xj th bs s) = d_pivotsSinceConflict s"
  "d_lowerBound (d_partialModel (pivotAndUpdate_loop xi xj th bs s)) = d_lowerBound (d_partialModel s)"
  "d_upperBound (d_partialModel (pivotAndUpdate_loop xi xj th bs s)) = d_upperBound (d_partialModel s)"
  "d_lowerConstraint (d_partialModel (pivotAndUpdate_loop xi xj th bs s)) = d_lowerConstraint (d_partialModel s)"
  "d_upperConstraint (d_partialModel (pivotAndUpdate_loop xi xj th bs s)) = d_upperConstraint (d_partialModel s)"
  by (induction bs arbitrary: s; simp add: Let_def checkBasicVariable_frame setAssignment_def)+

lemma pivotAndUpdate_loop_assignment:
  "distinct bs \<Longrightarrow>
   d_assignment (d_partialModel (pivotAndUpdate_loop xi xj th bs s)) =
     (\<lambda>x. if x \<in> set bs \<and> x \<noteq> xi \<and> has (Tableau_lookup (d_tableau s) x) xj
          then d_assignment (d_partialModel s) x
                 + times_Rational th (lookup (Tableau_lookup (d_tableau s) x) xj)
          else d_assignment (d_partialModel s) x)"
proof (induction bs arbitrary: s)
  case Nil
  then show ?case by simp
next
  case (Cons b bs)
  then have d: "distinct bs" and nb: "b \<notin> set bs" by simp_all
  show ?case
    using nb
    by (auto simp add: Let_def Cons.IH[OF d] checkBasicVariable_frame setAssignment_def
          getAssignment_def fun_eq_iff)
qed

lemma pivotAndUpdate_countPivot_frame:
  "d_partialModel (pivotAndUpdate_countPivot s) = d_partialModel s"
  "d_tableau (pivotAndUpdate_countPivot s) = d_tableau s"
  "d_out (pivotAndUpdate_countPivot s) = d_out s"
  "d_pivotStage (pivotAndUpdate_countPivot s) = d_pivotStage s"
  "d_numVariables (pivotAndUpdate_countPivot s) = d_numVariables s"
  "d_griggioRuleQueue (pivotAndUpdate_countPivot s) = d_griggioRuleQueue s"
  "d_possiblyInconsistent (pivotAndUpdate_countPivot s) = d_possiblyInconsistent s"
  "d_statPivots (d_statistics (pivotAndUpdate_countPivot s)) = d_statPivots (d_statistics s) + 1"
  by (simp_all add: pivotAndUpdate_countPivot_def Let_def)

lemma pivotAndUpdate_debugFoundConflict_frame:
  "d_partialModel (pivotAndUpdate_debugFoundConflict s x) = d_partialModel s"
  "d_tableau (pivotAndUpdate_debugFoundConflict s x) = d_tableau s"
  "d_out (pivotAndUpdate_debugFoundConflict s x) = d_out s"
  "d_statistics (pivotAndUpdate_debugFoundConflict s x) = d_statistics s"
  "d_pivotStage (pivotAndUpdate_debugFoundConflict s x) = d_pivotStage s"
  "d_numVariables (pivotAndUpdate_debugFoundConflict s x) = d_numVariables s"
  "d_griggioRuleQueue (pivotAndUpdate_debugFoundConflict s x) = d_griggioRuleQueue s"
  "d_possiblyInconsistent (pivotAndUpdate_debugFoundConflict s x) = d_possiblyInconsistent s"
  by (simp_all add: pivotAndUpdate_debugFoundConflict_def Let_def)

lemma Tableau_pivot_basics:
  "distinct (d_activeBasicVars t) \<Longrightarrow>
   set (d_activeBasicVars (Tableau_pivot t xi xj)) = insert xj (set (d_activeBasicVars t) - {xi})"
  by (auto simp add: Tableau_pivot_def Let_def)

text \<open>
  Claim C2. Let \<open>xi\<close> be basic, \<open>xj\<close> non-basic with a non-zero coefficient \<open>a_ij\<close> in the
  row of \<open>xi\<close>, and the basic variables of the tableau pairwise distinct. Then
  \<open>pivotAndUpdate(xi, xj, v)\<close> returns, and with \<open>\<theta> = (v - \<beta>(xi)) / a_ij\<close> taken before
  the call, the assignment after the call is \<open>v\<close> at \<open>xi\<close>, \<open>\<beta>(xj) + \<theta>\<close> at \<open>xj\<close>,
  \<open>\<beta>(xk) + \<theta> a_kj\<close> at every other basic \<open>xk\<close> whose row mentions \<open>xj\<close>, and unchanged at
  every other variable. The bounds and their explanations are unchanged, the tableau is
  the pivoted one, in which \<open>xj\<close> is basic and \<open>xi\<close> is not, and the pivots counter has
  grown by one.
\<close>

theorem pivotAndUpdate_post:
  assumes "isMember (d_basicManager s) x_i"
    and "\<not> isMember (d_basicManager s) x_j"
    and "lookup (Tableau_lookup (d_tableau s) x_i) x_j \<noteq> 0"
    and "distinct (d_activeBasicVars (d_tableau s))"
  shows "\<exists>s'. pivotAndUpdate s x_i x_j v = Some s' \<and>
           d_assignment (d_partialModel s') =
             (\<lambda>x. if x = x_i then v
                  else if x = x_j
                    then getAssignment (d_partialModel s) x_j + pivotTheta s x_i x_j v
                  else if isMember (d_basicManager s) x \<and> has (Tableau_lookup (d_tableau s) x) x_j
                    then getAssignment (d_partialModel s) x
                           + times_Rational (pivotTheta s x_i x_j v)
                               (lookup (Tableau_lookup (d_tableau s) x) x_j)
                  else getAssignment (d_partialModel s) x) \<and>
           d_lowerBound (d_partialModel s') = d_lowerBound (d_partialModel s) \<and>
           d_upperBound (d_partialModel s') = d_upperBound (d_partialModel s) \<and>
           d_lowerConstraint (d_partialModel s') = d_lowerConstraint (d_partialModel s) \<and>
           d_upperConstraint (d_partialModel s') = d_upperConstraint (d_partialModel s) \<and>
           d_tableau s' = Tableau_pivot (d_tableau s) x_i x_j \<and>
           isMember (d_basicManager s') x_j \<and>
           \<not> isMember (d_basicManager s') x_i \<and>
           d_statPivots (d_statistics s') = d_statPivots (d_statistics s) + 1"
proof -
  let ?th = "pivotTheta s x_i x_j v"
  let ?s1 = "s\<lparr>d_partialModel := setAssignment (d_partialModel s) x_i v\<rparr>"
  let ?s2 = "?s1\<lparr>d_partialModel := setAssignment (d_partialModel ?s1) x_j
                (getAssignment (d_partialModel ?s1) x_j + ?th)\<rparr>"
  let ?s3 = "pivotAndUpdate_loop x_i x_j ?th (d_activeBasicVars (d_tableau ?s2)) ?s2"
  have ne: "x_i \<noteq> x_j" using assms(1,2) by auto
  obtain s' where r: "pivotAndUpdate s x_i x_j v = Some s'"
      and pm: "d_partialModel s' = d_partialModel ?s3"
      and tb: "d_tableau s' = Tableau_pivot (d_tableau ?s3) x_i x_j"
      and st: "d_statPivots (d_statistics s') = d_statPivots (d_statistics ?s3) + 1"
    using assms(3)
    by (simp add: pivotAndUpdate_def Let_def pivotTheta_def checkBasicVariable_frame
          pivotAndUpdate_countPivot_frame pivotAndUpdate_debugFoundConflict_frame
          inverse_eq_divide)
  have t3: "d_tableau ?s3 = d_tableau s"
    by (simp add: pivotAndUpdate_loop_frame)
  have a: "d_assignment (d_partialModel ?s3) =
      (\<lambda>x. if x = x_i then v
           else if x = x_j then getAssignment (d_partialModel s) x_j + ?th
           else if isMember (d_basicManager s) x \<and> has (Tableau_lookup (d_tableau s) x) x_j
             then getAssignment (d_partialModel s) x
                    + times_Rational ?th (lookup (Tableau_lookup (d_tableau s) x) x_j)
           else getAssignment (d_partialModel s) x)"
    using assms(2,4) ne
    by (auto simp add: pivotAndUpdate_loop_assignment setAssignment_def getAssignment_def
          isMember_def d_basicManager_def fun_eq_iff)
  have tb': "d_tableau s' = Tableau_pivot (d_tableau s) x_i x_j"
    by (simp only: tb t3)
  have b: "isMember (d_basicManager s') x_j" "\<not> isMember (d_basicManager s') x_i"
    using assms(4) ne
    by (simp_all add: isMember_def d_basicManager_def tb' Tableau_pivot_basics)
  have a': "d_assignment (d_partialModel s') =
      (\<lambda>x. if x = x_i then v
           else if x = x_j then getAssignment (d_partialModel s) x_j + ?th
           else if isMember (d_basicManager s) x \<and> has (Tableau_lookup (d_tableau s) x) x_j
             then getAssignment (d_partialModel s) x
                    + times_Rational ?th (lookup (Tableau_lookup (d_tableau s) x) x_j)
           else getAssignment (d_partialModel s) x)"
    by (simp only: pm a)
  have fr: "d_lowerBound (d_partialModel s') = d_lowerBound (d_partialModel s)"
      "d_upperBound (d_partialModel s') = d_upperBound (d_partialModel s)"
      "d_lowerConstraint (d_partialModel s') = d_lowerConstraint (d_partialModel s)"
      "d_upperConstraint (d_partialModel s') = d_upperConstraint (d_partialModel s)"
      "d_statPivots (d_statistics s') = d_statPivots (d_statistics s) + 1"
    by (simp_all add: pm st pivotAndUpdate_loop_frame setAssignment_def)
  show ?thesis
    using r a' b tb' fr by blast
qed

theorem pivotAndUpdate_post_witness:
  "isMember (d_basicManager state_x2_le_m1) 2 \<and>
   \<not> isMember (d_basicManager state_x2_le_m1) 0 \<and>
   lookup (Tableau_lookup (d_tableau state_x2_le_m1) 2) 0 = 1 \<and>
   pivotTheta state_x2_le_m1 2 0 (DeltaRational (- 1) 0) = DeltaRational (- 1) 0 \<and>
   (\<exists>s'. pivotAndUpdate state_x2_le_m1 2 0 (DeltaRational (- 1) 0) = Some s' \<and>
         d_assignment (d_partialModel s') 2 = DeltaRational (- 1) 0 \<and>
         d_assignment (d_partialModel s') 0 = DeltaRational (- 1) 0 \<and>
         d_assignment (d_partialModel s') 1 = DeltaRational 0 0 \<and>
         isMember (d_basicManager s') 0 \<and>
         \<not> isMember (d_basicManager s') 2)"
proof -
  have h1: "isMember (d_basicManager state_x2_le_m1) 2"
    and h2: "\<not> isMember (d_basicManager state_x2_le_m1) 0"
    and h4: "distinct (d_activeBasicVars (d_tableau state_x2_le_m1))"
    by (simp_all add: state_x2_le_m1_eq initialState_def tableau_x2_def isMember_def
          d_basicManager_def)
  have l: "lookup (Tableau_lookup (d_tableau state_x2_le_m1) 2) 0 = 1"
    by (simp add: state_x2_le_m1_eq initialState_def tableau_x2_def Tableau_lookup_def
          lookup_def)
  then have h3: "lookup (Tableau_lookup (d_tableau state_x2_le_m1) 2) 0 \<noteq> 0" by simp
  have th: "pivotTheta state_x2_le_m1 2 0 (DeltaRational (- 1) 0) = DeltaRational (- 1) 0"
    by (simp add: pivotTheta_def l)
       (simp add: state_x2_le_m1_eq initialState_def getAssignment_def times_Rational_def
          minus_DeltaRational_def zero_DeltaRational_def)
  have b: "getAssignment (d_partialModel state_x2_le_m1) x = DeltaRational 0 0" for x
    by (simp add: state_x2_le_m1_eq initialState_def getAssignment_def zero_DeltaRational_def)
  from pivotAndUpdate_post[OF h1 h2 h3 h4, of "DeltaRational (- 1) 0"]
  obtain s' where s': "pivotAndUpdate state_x2_le_m1 2 0 (DeltaRational (- 1) 0) = Some s'"
      "d_assignment (d_partialModel s') =
        (\<lambda>x. if x = 2 then DeltaRational (- 1) 0
             else if x = 0 then DeltaRational 0 0 + DeltaRational (- 1) 0
             else if isMember (d_basicManager state_x2_le_m1) x \<and>
                     has (Tableau_lookup (d_tableau state_x2_le_m1) x) 0
               then DeltaRational 0 0
                      + times_Rational (DeltaRational (- 1) 0)
                          (lookup (Tableau_lookup (d_tableau state_x2_le_m1) x) 0)
             else DeltaRational 0 0)"
      "isMember (d_basicManager s') 0" "\<not> isMember (d_basicManager s') 2"
    unfolding th b by blast
  have m1: "\<not> isMember (d_basicManager state_x2_le_m1) (Suc 0)"
    by (simp add: state_x2_le_m1_eq initialState_def tableau_x2_def isMember_def
          d_basicManager_def)
  have "d_assignment (d_partialModel s') 2 = DeltaRational (- 1) 0"
       "d_assignment (d_partialModel s') 0 = DeltaRational (- 1) 0"
       "d_assignment (d_partialModel s') 1 = DeltaRational 0 0"
    by (simp_all add: s'(2) plus_DeltaRational_def m1)
  with s' h1 h2 l th show ?thesis by blast
qed
subsection \<open>C10: what a non-conflicting AssertEquality installs\<close>




lemma selectSmallestInconsistentVar_frame:
  "d_partialModel (snd (selectSmallestInconsistentVar s)) = d_partialModel s"
  "d_tableau (snd (selectSmallestInconsistentVar s)) = d_tableau s"
  "d_out (snd (selectSmallestInconsistentVar s)) = d_out s"
  "d_statistics (snd (selectSmallestInconsistentVar s)) = d_statistics s"
  "d_pivotStage (snd (selectSmallestInconsistentVar s)) = d_pivotStage s"
  "d_numVariables (snd (selectSmallestInconsistentVar s)) = d_numVariables s"
  by (simp_all add: selectSmallestInconsistentVar_def split_beta)



lemma generateConflict_cong:
  assumes "d_partialModel s' = d_partialModel s" "d_tableau s' = d_tableau s"
  shows "generateConflictBelow s' xi = generateConflictBelow s xi"
    and "generateConflictAbove s' xi = generateConflictAbove s xi"
  by (simp_all add: generateConflictBelow_def generateConflictAbove_def assms)




















subsection \<open>C6: the iteration budget of the Griggio stage\<close>

lemma has_simps:
  "has [] x = False"
  "has ((k, a) # row) x = (k = x \<or> has row x)"
  by (auto simp add: has_def)

lemmas budget_eval =
  initialState_def aboveUpperBound_def belowLowerBound_def Let_def setAssignment_def
  isMember_def d_basicManager_def checkBasicVariable_def assignmentIsConsistent_def
  getAssignment_def getUpperBound_def getLowerBound_def less_DeltaRational_def
  less_eq_DeltaRational_def zero_DeltaRational_def minus_DeltaRational_def
  plus_DeltaRational_def times_Rational_def Tableau_lookup_def has_simps lookup_def
  budget_state_def budget_lowerBound_def budget_upperBound_def

lemma pivotAndUpdate_eval:
  assumes "lookup (Tableau_lookup (d_tableau s) xi) xj = a"
    and "a \<noteq> 0"
    and "times_Rational (v - getAssignment (d_partialModel s) xi) (inverse a) = \<theta>"
    and "pivotAndUpdate_loop xi xj \<theta> (d_activeBasicVars (d_tableau s))
           (s\<lparr>d_partialModel := setAssignment (setAssignment (d_partialModel s) xi v) xj
              (getAssignment (setAssignment (d_partialModel s) xi v) xj + \<theta>)\<rparr>) = s3"
    and "Tableau_pivot (d_tableau s3) xi xj = t'"
    and "checkBasicVariable ((pivotAndUpdate_countPivot s3)\<lparr>d_tableau := t'\<rparr>) xj = s6"
    and "pivotAndUpdate_debugFoundConflict s6 xj = s7"
  shows "pivotAndUpdate s xi xj v = Some s7"
  using assms(2)
  by (simp add: pivotAndUpdate_def Let_def assms(1) assms(3) assms(4)
        pivotAndUpdate_countPivot_frame assms(5) assms(6) assms(7))

lemma budget_step_0:
  "privateUpdateInconsistentVars_body state_budget_0 = Continue state_budget_1"
proof -
  define s1 where "s1 =
     budget_state
       (\<lambda>x. if x = 1 then DeltaRational (- 1) 0 else
          if x = 2 then DeltaRational (- 1) 0 else if x = 3 then DeltaRational 1 0 else
          DeltaRational 0 0)
       \<lparr>d_activeBasicVars = [3, 4],
         d_rowsTable =
           (\<lambda>b. if b = 3 then [(0, 1), (2, - 1), (3, - 1)] else
            if b = 4 then [(0, - 2), (1, 1), (2, - 1), (4, - 1)] else
            [])\<rparr>
       (\<lambda>x. if x = 4 then 2 else 0)
       [(4, DeltaRational 2 0), (3, DeltaRational 2 0), (3, DeltaRational 2 0),
        (4, DeltaRational 1 0), (4, DeltaRational 1 0)] 0"
  define s3 where "s3 =
     budget_state
       (\<lambda>x. if x = 1 then DeltaRational (- 2) 0 else
          if x = 2 then DeltaRational (- 1) 0 else if x = 3 then DeltaRational 1 0 else
          if x = 4 then DeltaRational (- 1) 0 else DeltaRational 0 0)
       \<lparr>d_activeBasicVars = [3, 4],
         d_rowsTable =
           (\<lambda>b. if b = 3 then [(0, 1), (2, - 1), (3, - 1)] else
            if b = 4 then [(0, - 2), (1, 1), (2, - 1), (4, - 1)] else
            [])\<rparr>
       (\<lambda>x. if x = 4 then 2 else 0)
       [(4, DeltaRational 2 0), (3, DeltaRational 2 0), (3, DeltaRational 2 0),
        (4, DeltaRational 1 0), (4, DeltaRational 1 0)] 0"
  define t where "t =
       \<lparr>d_activeBasicVars = [3, 1],
         d_rowsTable =
           (\<lambda>b. if b = 1 then [(0, 2), (1, - 1), (2, 1), (4, 1)] else
            if b = 3 then [(0, 1), (2, - 1), (3, - 1)] else
            [])\<rparr>"
  define s6 where "s6 =
     budget_state
       (\<lambda>x. if x = 1 then DeltaRational (- 2) 0 else
          if x = 2 then DeltaRational (- 1) 0 else if x = 3 then DeltaRational 1 0 else
          if x = 4 then DeltaRational (- 1) 0 else DeltaRational 0 0)
       \<lparr>d_activeBasicVars = [3, 1],
         d_rowsTable =
           (\<lambda>b. if b = 1 then [(0, 2), (1, - 1), (2, 1), (4, 1)] else
            if b = 3 then [(0, 1), (2, - 1), (3, - 1)] else
            [])\<rparr>
       (\<lambda>x. if x = 4 then 2 else 0)
       [(4, DeltaRational 2 0), (3, DeltaRational 2 0), (3, DeltaRational 2 0),
        (4, DeltaRational 1 0), (4, DeltaRational 1 0)] 1"
  have sel: "selectSmallestInconsistentVar state_budget_0 = (4, s1)"
    by (simp add: state_budget_0_def selectSmallestInconsistentVar_def
          s1_def s3_def t_def s6_def budget_eval)
  have cond: "\<not> belowLowerBound (d_partialModel s1) 4
        (getAssignment (d_partialModel s1) 4) True \<and>
      aboveUpperBound (d_partialModel s1) 4 (getAssignment (d_partialModel s1) 4) True"
    by (simp add: s1_def s3_def t_def s6_def budget_eval)
  have slack: "selectSlackAbove s1 4 = 1"
    by (simp add: selectSlackAbove_def selectSlack_def strictlyBelowUpperBound_def
          strictlyAboveLowerBound_def getRowCount_def UINT32_MAX_def ARITHVAR_SENTINEL_def
          s1_def s3_def t_def s6_def budget_eval)
  have bound: "getUpperBound (d_partialModel s1) 4 = DeltaRational (- 1) 0"
    by (simp add: s1_def s3_def t_def s6_def budget_eval)
  have piv: "pivotAndUpdate s1 4 1 (DeltaRational (- 1) 0) = Some state_budget_1"
  proof (rule pivotAndUpdate_eval[where a = "1" and \<theta> = "DeltaRational (- 1) 0"
        and ?s3.0 = s3 and t' = t and ?s6.0 = s6])
    show "lookup (Tableau_lookup (d_tableau s1) 4) 1 = 1"
      by (simp add: s1_def s3_def t_def s6_def budget_eval)
    show "(1::rat) \<noteq> 0"
      by simp
    show "times_Rational (DeltaRational (- 1) 0 - getAssignment (d_partialModel s1) 4)
        (inverse (1)) = DeltaRational (- 1) 0"
      by (simp add: s1_def s3_def t_def s6_def budget_eval)
    show "pivotAndUpdate_loop 4 1 (DeltaRational (- 1) 0) (d_activeBasicVars (d_tableau s1))
        (s1\<lparr>d_partialModel :=
           setAssignment (setAssignment (d_partialModel s1) 4 (DeltaRational (- 1) 0)) 1
           (getAssignment (setAssignment (d_partialModel s1) 4 (DeltaRational (- 1) 0)) 1 +
              DeltaRational (- 1) 0)\<rparr>) = s3"
      by (simp add: s1_def s3_def t_def s6_def budget_eval) (auto simp add: fun_eq_iff)
    show "Tableau_pivot (d_tableau s3) 4 1 = t"
      by (simp add: Tableau_pivot_def ReducedRowVector_pivot_def substitute_def multiply_def
            s1_def s3_def t_def s6_def budget_eval)
        (auto simp add: fun_eq_iff ReducedRowVector_pivot_def substitute_def multiply_def
            has_simps lookup_def)
    show "checkBasicVariable ((pivotAndUpdate_countPivot s3)\<lparr>d_tableau := t\<rparr>) 1 = s6"
      by (simp add: pivotAndUpdate_countPivot_def s1_def s3_def t_def s6_def budget_eval)
    show "pivotAndUpdate_debugFoundConflict s6 1 = state_budget_1"
      by (simp add: pivotAndUpdate_debugFoundConflict_def state_budget_1_def selectSlackBelow_def
            selectSlackAbove_def selectSlack_def strictlyBelowUpperBound_def
            strictlyAboveLowerBound_def getRowCount_def UINT32_MAX_def ARITHVAR_SENTINEL_def
          s1_def s3_def t_def s6_def budget_eval)
  qed
  have early: "checkBasicForConflict state_budget_1 1 = NullNode"
    by (simp add: checkBasicForConflict_def state_budget_1_def selectSlackBelow_def
          selectSlackAbove_def selectSlack_def strictlyBelowUpperBound_def
          strictlyAboveLowerBound_def getRowCount_def UINT32_MAX_def ARITHVAR_SENTINEL_def
          s1_def s3_def t_def s6_def budget_eval)
  show ?thesis
    by (simp add: privateUpdateInconsistentVars_body_def sel Let_def cond slack bound piv early
          ARITHVAR_SENTINEL_def isNull_def del: One_nat_def)
qed

lemma budget_step_1:
  "privateUpdateInconsistentVars_body state_budget_1 = Continue state_budget_2"
proof -
  define s1 where "s1 =
     budget_state
       (\<lambda>x. if x = 1 then DeltaRational (- 2) 0 else
          if x = 2 then DeltaRational (- 1) 0 else if x = 3 then DeltaRational 1 0 else
          if x = 4 then DeltaRational (- 1) 0 else DeltaRational 0 0)
       \<lparr>d_activeBasicVars = [3, 1],
         d_rowsTable =
           (\<lambda>b. if b = 1 then [(0, 2), (1, - 1), (2, 1), (4, 1)] else
            if b = 3 then [(0, 1), (2, - 1), (3, - 1)] else
            [])\<rparr>
       (\<lambda>x. if x = 4 then 2 else 0)
       [(3, DeltaRational 2 0), (3, DeltaRational 2 0), (4, DeltaRational 1 0),
        (4, DeltaRational 1 0)] 1"
  define s3 where "s3 =
     budget_state
       (\<lambda>x. if x = 0 then DeltaRational 2 0 else if x = 1 then DeltaRational 2 0 else
          if x = 2 then DeltaRational (- 1) 0 else if x = 3 then DeltaRational 3 0 else
          if x = 4 then DeltaRational (- 1) 0 else DeltaRational 0 0)
       \<lparr>d_activeBasicVars = [3, 1],
         d_rowsTable =
           (\<lambda>b. if b = 1 then [(0, 2), (1, - 1), (2, 1), (4, 1)] else
            if b = 3 then [(0, 1), (2, - 1), (3, - 1)] else
            [])\<rparr>
       (\<lambda>x. if x = 0 then 1 else if x = 4 then 2 else 0)
       [(1, DeltaRational 3 0), (3, DeltaRational 2 0), (3, DeltaRational 2 0),
        (4, DeltaRational 1 0), (4, DeltaRational 1 0)] 1"
  define t where "t =
       \<lparr>d_activeBasicVars = [1, 0],
         d_rowsTable =
           (\<lambda>b. if b = 0 then [(0, - 1), (2, 1), (3, 1)] else
            if b = 1 then [(1, - 1), (2, 3), (3, 2), (4, 1)] else
            [])\<rparr>"
  define s6 where "s6 =
     budget_state
       (\<lambda>x. if x = 0 then DeltaRational 2 0 else if x = 1 then DeltaRational 2 0 else
          if x = 2 then DeltaRational (- 1) 0 else if x = 3 then DeltaRational 3 0 else
          if x = 4 then DeltaRational (- 1) 0 else DeltaRational 0 0)
       \<lparr>d_activeBasicVars = [1, 0],
         d_rowsTable =
           (\<lambda>b. if b = 0 then [(0, - 1), (2, 1), (3, 1)] else
            if b = 1 then [(1, - 1), (2, 3), (3, 2), (4, 1)] else
            [])\<rparr>
       (\<lambda>x. if x = 0 then 1 else if x = 4 then 2 else 0)
       [(1, DeltaRational 3 0), (3, DeltaRational 2 0), (3, DeltaRational 2 0),
        (4, DeltaRational 1 0), (4, DeltaRational 1 0), (0, DeltaRational 1 0)] 2"
  have sel: "selectSmallestInconsistentVar state_budget_1 = (3, s1)"
    by (simp add: state_budget_1_def selectSmallestInconsistentVar_def
          s1_def s3_def t_def s6_def budget_eval)
  have cond: "belowLowerBound (d_partialModel s1) 3 (getAssignment (d_partialModel s1) 3) True"
    by (simp add: s1_def s3_def t_def s6_def budget_eval)
  have slack: "selectSlackBelow s1 3 = 0"
    by (simp add: selectSlackBelow_def selectSlack_def strictlyBelowUpperBound_def
          strictlyAboveLowerBound_def getRowCount_def UINT32_MAX_def ARITHVAR_SENTINEL_def
          s1_def s3_def t_def s6_def budget_eval)
  have bound: "getLowerBound (d_partialModel s1) 3 = DeltaRational 3 0"
    by (simp add: s1_def s3_def t_def s6_def budget_eval)
  have piv: "pivotAndUpdate s1 3 0 (DeltaRational 3 0) = Some state_budget_2"
  proof (rule pivotAndUpdate_eval[where a = "1" and \<theta> = "DeltaRational 2 0"
        and ?s3.0 = s3 and t' = t and ?s6.0 = s6])
    show "lookup (Tableau_lookup (d_tableau s1) 3) 0 = 1"
      by (simp add: s1_def s3_def t_def s6_def budget_eval)
    show "(1::rat) \<noteq> 0"
      by simp
    show "times_Rational (DeltaRational 3 0 - getAssignment (d_partialModel s1) 3)
        (inverse (1)) = DeltaRational 2 0"
      by (simp add: s1_def s3_def t_def s6_def budget_eval)
    show "pivotAndUpdate_loop 3 0 (DeltaRational 2 0) (d_activeBasicVars (d_tableau s1))
        (s1\<lparr>d_partialModel :=
           setAssignment (setAssignment (d_partialModel s1) 3 (DeltaRational 3 0)) 0
           (getAssignment (setAssignment (d_partialModel s1) 3 (DeltaRational 3 0)) 0 +
              DeltaRational 2 0)\<rparr>) = s3"
      by (simp add: s1_def s3_def t_def s6_def budget_eval) (auto simp add: fun_eq_iff)
    show "Tableau_pivot (d_tableau s3) 3 0 = t"
      by (simp add: Tableau_pivot_def ReducedRowVector_pivot_def substitute_def multiply_def
            s1_def s3_def t_def s6_def budget_eval)
        (auto simp add: fun_eq_iff ReducedRowVector_pivot_def substitute_def multiply_def
            has_simps lookup_def)
    show "checkBasicVariable ((pivotAndUpdate_countPivot s3)\<lparr>d_tableau := t\<rparr>) 0 = s6"
      by (simp add: pivotAndUpdate_countPivot_def s1_def s3_def t_def s6_def budget_eval)
    show "pivotAndUpdate_debugFoundConflict s6 0 = state_budget_2"
      by (simp add: pivotAndUpdate_debugFoundConflict_def state_budget_2_def selectSlackBelow_def
            selectSlackAbove_def selectSlack_def strictlyBelowUpperBound_def
            strictlyAboveLowerBound_def getRowCount_def UINT32_MAX_def ARITHVAR_SENTINEL_def
          s1_def s3_def t_def s6_def budget_eval)
  qed
  have early: "checkBasicForConflict state_budget_2 0 = NullNode"
    by (simp add: checkBasicForConflict_def state_budget_2_def selectSlackBelow_def
          selectSlackAbove_def selectSlack_def strictlyBelowUpperBound_def
          strictlyAboveLowerBound_def getRowCount_def UINT32_MAX_def ARITHVAR_SENTINEL_def
          s1_def s3_def t_def s6_def budget_eval)
  show ?thesis
    by (simp add: privateUpdateInconsistentVars_body_def sel Let_def cond slack bound piv early
          ARITHVAR_SENTINEL_def isNull_def del: One_nat_def)
qed

lemma budget_step_2:
  "privateUpdateInconsistentVars_body state_budget_2 = Continue state_budget_3"
proof -
  define s1 where "s1 =
     budget_state
       (\<lambda>x. if x = 0 then DeltaRational 2 0 else if x = 1 then DeltaRational 2 0 else
          if x = 2 then DeltaRational (- 1) 0 else if x = 3 then DeltaRational 3 0 else
          if x = 4 then DeltaRational (- 1) 0 else DeltaRational 0 0)
       \<lparr>d_activeBasicVars = [1, 0],
         d_rowsTable =
           (\<lambda>b. if b = 0 then [(0, - 1), (2, 1), (3, 1)] else
            if b = 1 then [(1, - 1), (2, 3), (3, 2), (4, 1)] else
            [])\<rparr>
       (\<lambda>x. if x = 0 then 1 else if x = 4 then 2 else 0)
       [(1, DeltaRational 3 0), (3, DeltaRational 2 0), (3, DeltaRational 2 0),
        (4, DeltaRational 1 0), (4, DeltaRational 1 0), (0, DeltaRational 1 0)] 2"
  define s3 where "s3 =
     budget_state
       (\<lambda>x. if x = 0 then DeltaRational 2 0 else
          if x = 1 then DeltaRational (- 1) 0 else if x = 2 then DeltaRational (- 1) 0 else
          if x = 3 then DeltaRational 3 0 else if x = 4 then DeltaRational (- 4) 0 else
          DeltaRational 0 0)
       \<lparr>d_activeBasicVars = [1, 0],
         d_rowsTable =
           (\<lambda>b. if b = 0 then [(0, - 1), (2, 1), (3, 1)] else
            if b = 1 then [(1, - 1), (2, 3), (3, 2), (4, 1)] else
            [])\<rparr>
       (\<lambda>x. if x = 0 then 1 else if x = 4 then 2 else 0)
       [(1, DeltaRational 3 0), (3, DeltaRational 2 0), (3, DeltaRational 2 0),
        (4, DeltaRational 1 0), (4, DeltaRational 1 0), (0, DeltaRational 1 0)] 2"
  define t where "t =
       \<lparr>d_activeBasicVars = [0, 4],
         d_rowsTable =
           (\<lambda>b. if b = 0 then [(0, - 1), (2, 1), (3, 1)] else
            if b = 4 then [(1, 1), (2, - 3), (3, - 2), (4, - 1)] else
            [])\<rparr>"
  define s6 where "s6 =
     budget_state
       (\<lambda>x. if x = 0 then DeltaRational 2 0 else
          if x = 1 then DeltaRational (- 1) 0 else if x = 2 then DeltaRational (- 1) 0 else
          if x = 3 then DeltaRational 3 0 else if x = 4 then DeltaRational (- 4) 0 else
          DeltaRational 0 0)
       \<lparr>d_activeBasicVars = [0, 4],
         d_rowsTable =
           (\<lambda>b. if b = 0 then [(0, - 1), (2, 1), (3, 1)] else
            if b = 4 then [(1, 1), (2, - 3), (3, - 2), (4, - 1)] else
            [])\<rparr>
       (\<lambda>x. if x = 0 then 1 else if x = 4 then 2 else 0)
       [(1, DeltaRational 3 0), (3, DeltaRational 2 0), (3, DeltaRational 2 0),
        (4, DeltaRational 1 0), (4, DeltaRational 1 0), (0, DeltaRational 1 0),
        (4, DeltaRational 1 0)] 3"
  have sel: "selectSmallestInconsistentVar state_budget_2 = (1, s1)"
    by (simp add: state_budget_2_def selectSmallestInconsistentVar_def
          s1_def s3_def t_def s6_def budget_eval)
  have cond: "\<not> belowLowerBound (d_partialModel s1) 1
        (getAssignment (d_partialModel s1) 1) True \<and>
      aboveUpperBound (d_partialModel s1) 1 (getAssignment (d_partialModel s1) 1) True"
    by (simp add: s1_def s3_def t_def s6_def budget_eval)
  have slack: "selectSlackAbove s1 1 = 4"
    by (simp add: selectSlackAbove_def selectSlack_def strictlyBelowUpperBound_def
          strictlyAboveLowerBound_def getRowCount_def UINT32_MAX_def ARITHVAR_SENTINEL_def
          s1_def s3_def t_def s6_def budget_eval)
  have bound: "getUpperBound (d_partialModel s1) 1 = DeltaRational (- 1) 0"
    by (simp add: s1_def s3_def t_def s6_def budget_eval)
  have piv: "pivotAndUpdate s1 1 4 (DeltaRational (- 1) 0) = Some state_budget_3"
  proof (rule pivotAndUpdate_eval[where a = "1" and \<theta> = "DeltaRational (- 3) 0"
        and ?s3.0 = s3 and t' = t and ?s6.0 = s6])
    show "lookup (Tableau_lookup (d_tableau s1) 1) 4 = 1"
      by (simp add: s1_def s3_def t_def s6_def budget_eval)
    show "(1::rat) \<noteq> 0"
      by simp
    show "times_Rational (DeltaRational (- 1) 0 - getAssignment (d_partialModel s1) 1)
        (inverse (1)) = DeltaRational (- 3) 0"
      by (simp add: s1_def s3_def t_def s6_def budget_eval)
    show "pivotAndUpdate_loop 1 4 (DeltaRational (- 3) 0) (d_activeBasicVars (d_tableau s1))
        (s1\<lparr>d_partialModel :=
           setAssignment (setAssignment (d_partialModel s1) 1 (DeltaRational (- 1) 0)) 4
           (getAssignment (setAssignment (d_partialModel s1) 1 (DeltaRational (- 1) 0)) 4 +
              DeltaRational (- 3) 0)\<rparr>) = s3"
      by (simp add: s1_def s3_def t_def s6_def budget_eval) (auto simp add: fun_eq_iff)
    show "Tableau_pivot (d_tableau s3) 1 4 = t"
      by (simp add: Tableau_pivot_def ReducedRowVector_pivot_def substitute_def multiply_def
            s1_def s3_def t_def s6_def budget_eval)
        (auto simp add: fun_eq_iff ReducedRowVector_pivot_def substitute_def multiply_def
            has_simps lookup_def)
    show "checkBasicVariable ((pivotAndUpdate_countPivot s3)\<lparr>d_tableau := t\<rparr>) 4 = s6"
      by (simp add: pivotAndUpdate_countPivot_def s1_def s3_def t_def s6_def budget_eval)
    show "pivotAndUpdate_debugFoundConflict s6 4 = state_budget_3"
      by (simp add: pivotAndUpdate_debugFoundConflict_def state_budget_3_def selectSlackBelow_def
            selectSlackAbove_def selectSlack_def strictlyBelowUpperBound_def
            strictlyAboveLowerBound_def getRowCount_def UINT32_MAX_def ARITHVAR_SENTINEL_def
          s1_def s3_def t_def s6_def budget_eval)
  qed
  have early: "checkBasicForConflict state_budget_3 4 = NullNode"
    by (simp add: checkBasicForConflict_def state_budget_3_def selectSlackBelow_def
          selectSlackAbove_def selectSlack_def strictlyBelowUpperBound_def
          strictlyAboveLowerBound_def getRowCount_def UINT32_MAX_def ARITHVAR_SENTINEL_def
          s1_def s3_def t_def s6_def budget_eval)
  show ?thesis
    by (simp add: privateUpdateInconsistentVars_body_def sel Let_def cond slack bound piv early
          ARITHVAR_SENTINEL_def isNull_def del: One_nat_def)
qed

lemma budget_step_3:
  "privateUpdateInconsistentVars_body state_budget_3 = Continue state_budget_4"
proof -
  define s1 where "s1 =
     budget_state
       (\<lambda>x. if x = 0 then DeltaRational 2 0 else
          if x = 1 then DeltaRational (- 1) 0 else if x = 2 then DeltaRational (- 1) 0 else
          if x = 3 then DeltaRational 3 0 else if x = 4 then DeltaRational (- 4) 0 else
          DeltaRational 0 0)
       \<lparr>d_activeBasicVars = [0, 4],
         d_rowsTable =
           (\<lambda>b. if b = 0 then [(0, - 1), (2, 1), (3, 1)] else
            if b = 4 then [(1, 1), (2, - 3), (3, - 2), (4, - 1)] else
            [])\<rparr>
       (\<lambda>x. if x = 0 then 1 else if x = 4 then 2 else 0)
       [(4, DeltaRational 1 0), (4, DeltaRational 1 0), (0, DeltaRational 1 0),
        (4, DeltaRational 1 0)] 3"
  define s3 where "s3 =
     budget_state
       (\<lambda>x. if x = 0 then DeltaRational (5 / 3) 0 else
          if x = 1 then DeltaRational (- 1) 0 else if x = 2 then DeltaRational (- 4 / 3) 0 else
          if x = 3 then DeltaRational 3 0 else if x = 4 then DeltaRational (- 3) 0 else
          DeltaRational 0 0)
       \<lparr>d_activeBasicVars = [0, 4],
         d_rowsTable =
           (\<lambda>b. if b = 0 then [(0, - 1), (2, 1), (3, 1)] else
            if b = 4 then [(1, 1), (2, - 3), (3, - 2), (4, - 1)] else
            [])\<rparr>
       (\<lambda>x. if x = 0 then 1 else if x = 2 then 1 else if x = 4 then 2 else 0)
       [(4, DeltaRational 1 0), (4, DeltaRational 1 0), (0, DeltaRational 1 0),
        (4, DeltaRational 1 0), (0, DeltaRational (2 / 3) 0)] 3"
  define t where "t =
       \<lparr>d_activeBasicVars = [0, 2],
         d_rowsTable =
           (\<lambda>b. if b = 0 then [(0, - 1), (1, 1 / 3), (3, 1 / 3), (4, - 1 / 3)] else
            if b = 2 then [(1, 1 / 3), (2, - 1), (3, - 2 / 3), (4, - 1 / 3)] else
            [])\<rparr>"
  define s6 where "s6 =
     budget_state
       (\<lambda>x. if x = 0 then DeltaRational (5 / 3) 0 else
          if x = 1 then DeltaRational (- 1) 0 else if x = 2 then DeltaRational (- 4 / 3) 0 else
          if x = 3 then DeltaRational 3 0 else if x = 4 then DeltaRational (- 3) 0 else
          DeltaRational 0 0)
       \<lparr>d_activeBasicVars = [0, 2],
         d_rowsTable =
           (\<lambda>b. if b = 0 then [(0, - 1), (1, 1 / 3), (3, 1 / 3), (4, - 1 / 3)] else
            if b = 2 then [(1, 1 / 3), (2, - 1), (3, - 2 / 3), (4, - 1 / 3)] else
            [])\<rparr>
       (\<lambda>x. if x = 0 then 1 else if x = 2 then 1 else if x = 4 then 2 else 0)
       [(4, DeltaRational 1 0), (4, DeltaRational 1 0), (0, DeltaRational 1 0),
        (4, DeltaRational 1 0), (0, DeltaRational (2 / 3) 0)] 4"
  have sel: "selectSmallestInconsistentVar state_budget_3 = (4, s1)"
    by (simp add: state_budget_3_def selectSmallestInconsistentVar_def
          s1_def s3_def t_def s6_def budget_eval)
  have cond: "belowLowerBound (d_partialModel s1) 4 (getAssignment (d_partialModel s1) 4) True"
    by (simp add: s1_def s3_def t_def s6_def budget_eval)
  have slack: "selectSlackBelow s1 4 = 2"
    by (simp add: selectSlackBelow_def selectSlack_def strictlyBelowUpperBound_def
          strictlyAboveLowerBound_def getRowCount_def UINT32_MAX_def ARITHVAR_SENTINEL_def
          s1_def s3_def t_def s6_def budget_eval)
  have bound: "getLowerBound (d_partialModel s1) 4 = DeltaRational (- 3) 0"
    by (simp add: s1_def s3_def t_def s6_def budget_eval)
  have piv: "pivotAndUpdate s1 4 2 (DeltaRational (- 3) 0) = Some state_budget_4"
  proof (rule pivotAndUpdate_eval[where a = "(- 3)" and \<theta> = "DeltaRational (- 1 / 3) 0"
        and ?s3.0 = s3 and t' = t and ?s6.0 = s6])
    show "lookup (Tableau_lookup (d_tableau s1) 4) 2 = (- 3)"
      by (simp add: s1_def s3_def t_def s6_def budget_eval)
    show "((- 3)::rat) \<noteq> 0"
      by simp
    show "times_Rational (DeltaRational (- 3) 0 - getAssignment (d_partialModel s1) 4)
        (inverse ((- 3))) = DeltaRational (- 1 / 3) 0"
      by (simp add: s1_def s3_def t_def s6_def budget_eval)
    show "pivotAndUpdate_loop 4 2 (DeltaRational (- 1 / 3) 0) (d_activeBasicVars (d_tableau s1))
        (s1\<lparr>d_partialModel :=
           setAssignment (setAssignment (d_partialModel s1) 4 (DeltaRational (- 3) 0)) 2
           (getAssignment (setAssignment (d_partialModel s1) 4 (DeltaRational (- 3) 0)) 2 +
              DeltaRational (- 1 / 3) 0)\<rparr>) = s3"
      by (simp add: s1_def s3_def t_def s6_def budget_eval) (auto simp add: fun_eq_iff)
    show "Tableau_pivot (d_tableau s3) 4 2 = t"
      by (simp add: Tableau_pivot_def ReducedRowVector_pivot_def substitute_def multiply_def
            s1_def s3_def t_def s6_def budget_eval)
        (auto simp add: fun_eq_iff ReducedRowVector_pivot_def substitute_def multiply_def
            has_simps lookup_def)
    show "checkBasicVariable ((pivotAndUpdate_countPivot s3)\<lparr>d_tableau := t\<rparr>) 2 = s6"
      by (simp add: pivotAndUpdate_countPivot_def s1_def s3_def t_def s6_def budget_eval)
    show "pivotAndUpdate_debugFoundConflict s6 2 = state_budget_4"
      by (simp add: pivotAndUpdate_debugFoundConflict_def state_budget_4_def selectSlackBelow_def
            selectSlackAbove_def selectSlack_def strictlyBelowUpperBound_def
            strictlyAboveLowerBound_def getRowCount_def UINT32_MAX_def ARITHVAR_SENTINEL_def
          s1_def s3_def t_def s6_def budget_eval)
  qed
  have early: "checkBasicForConflict state_budget_4 2 = NullNode"
    by (simp add: checkBasicForConflict_def state_budget_4_def selectSlackBelow_def
          selectSlackAbove_def selectSlack_def strictlyBelowUpperBound_def
          strictlyAboveLowerBound_def getRowCount_def UINT32_MAX_def ARITHVAR_SENTINEL_def
          s1_def s3_def t_def s6_def budget_eval)
  show ?thesis
    by (simp add: privateUpdateInconsistentVars_body_def sel Let_def cond slack bound piv early
          ARITHVAR_SENTINEL_def isNull_def del: One_nat_def)
qed

lemma budget_step_4:
  "privateUpdateInconsistentVars_body state_budget_4 = Continue state_budget_5"
proof -
  define s1 where "s1 =
     budget_state
       (\<lambda>x. if x = 0 then DeltaRational (5 / 3) 0 else
          if x = 1 then DeltaRational (- 1) 0 else if x = 2 then DeltaRational (- 4 / 3) 0 else
          if x = 3 then DeltaRational 3 0 else if x = 4 then DeltaRational (- 3) 0 else
          DeltaRational 0 0)
       \<lparr>d_activeBasicVars = [0, 2],
         d_rowsTable =
           (\<lambda>b. if b = 0 then [(0, - 1), (1, 1 / 3), (3, 1 / 3), (4, - 1 / 3)] else
            if b = 2 then [(1, 1 / 3), (2, - 1), (3, - 2 / 3), (4, - 1 / 3)] else
            [])\<rparr>
       (\<lambda>x. if x = 0 then 1 else if x = 2 then 1 else if x = 4 then 2 else 0)
       [(0, DeltaRational 1 0), (4, DeltaRational 1 0), (0, DeltaRational (2 / 3) 0)] 4"
  define s3 where "s3 =
     budget_state
       (\<lambda>x. if x = 0 then DeltaRational 1 0 else
          if x = 1 then DeltaRational (- 3) 0 else if x = 2 then DeltaRational (- 2) 0 else
          if x = 3 then DeltaRational 3 0 else if x = 4 then DeltaRational (- 3) 0 else
          DeltaRational 0 0)
       \<lparr>d_activeBasicVars = [0, 2],
         d_rowsTable =
           (\<lambda>b. if b = 0 then [(0, - 1), (1, 1 / 3), (3, 1 / 3), (4, - 1 / 3)] else
            if b = 2 then [(1, 1 / 3), (2, - 1), (3, - 2 / 3), (4, - 1 / 3)] else
            [])\<rparr>
       (\<lambda>x. if x = 0 then 1 else if x = 1 then 1 else if x = 2 then 1 else
          if x = 4 then 2 else 0)
       [(0, DeltaRational 1 0), (4, DeltaRational 1 0), (0, DeltaRational (2 / 3) 0)] 4"
  define t where "t =
       \<lparr>d_activeBasicVars = [2, 1],
         d_rowsTable =
           (\<lambda>b. if b = 1 then [(0, 3), (1, - 1), (3, - 1), (4, 1)] else
            if b = 2 then [(0, 1), (2, - 1), (3, - 1)] else
            [])\<rparr>"
  define s6 where "s6 =
     budget_state
       (\<lambda>x. if x = 0 then DeltaRational 1 0 else
          if x = 1 then DeltaRational (- 3) 0 else if x = 2 then DeltaRational (- 2) 0 else
          if x = 3 then DeltaRational 3 0 else if x = 4 then DeltaRational (- 3) 0 else
          DeltaRational 0 0)
       \<lparr>d_activeBasicVars = [2, 1],
         d_rowsTable =
           (\<lambda>b. if b = 1 then [(0, 3), (1, - 1), (3, - 1), (4, 1)] else
            if b = 2 then [(0, 1), (2, - 1), (3, - 1)] else
            [])\<rparr>
       (\<lambda>x. if x = 0 then 1 else if x = 1 then 1 else if x = 2 then 1 else
          if x = 4 then 2 else 0)
       [(0, DeltaRational 1 0), (4, DeltaRational 1 0), (1, DeltaRational 1 0),
        (0, DeltaRational (2 / 3) 0)] 5"
  have sel: "selectSmallestInconsistentVar state_budget_4 = (0, s1)"
    by (simp add: state_budget_4_def selectSmallestInconsistentVar_def
          s1_def s3_def t_def s6_def budget_eval)
  have cond: "\<not> belowLowerBound (d_partialModel s1) 0
        (getAssignment (d_partialModel s1) 0) True \<and>
      aboveUpperBound (d_partialModel s1) 0 (getAssignment (d_partialModel s1) 0) True"
    by (simp add: s1_def s3_def t_def s6_def budget_eval)
  have slack: "selectSlackAbove s1 0 = 1"
    by (simp add: selectSlackAbove_def selectSlack_def strictlyBelowUpperBound_def
          strictlyAboveLowerBound_def getRowCount_def UINT32_MAX_def ARITHVAR_SENTINEL_def
          s1_def s3_def t_def s6_def budget_eval)
  have bound: "getUpperBound (d_partialModel s1) 0 = DeltaRational 1 0"
    by (simp add: s1_def s3_def t_def s6_def budget_eval)
  have piv: "pivotAndUpdate s1 0 1 (DeltaRational 1 0) = Some state_budget_5"
  proof (rule pivotAndUpdate_eval[where a = "(1 / 3)" and \<theta> = "DeltaRational (- 2) 0"
        and ?s3.0 = s3 and t' = t and ?s6.0 = s6])
    show "lookup (Tableau_lookup (d_tableau s1) 0) 1 = (1 / 3)"
      by (simp add: s1_def s3_def t_def s6_def budget_eval)
    show "((1 / 3)::rat) \<noteq> 0"
      by simp
    show "times_Rational (DeltaRational 1 0 - getAssignment (d_partialModel s1) 0)
        (inverse ((1 / 3))) = DeltaRational (- 2) 0"
      by (simp add: s1_def s3_def t_def s6_def budget_eval)
    show "pivotAndUpdate_loop 0 1 (DeltaRational (- 2) 0) (d_activeBasicVars (d_tableau s1))
        (s1\<lparr>d_partialModel :=
           setAssignment (setAssignment (d_partialModel s1) 0 (DeltaRational 1 0)) 1
           (getAssignment (setAssignment (d_partialModel s1) 0 (DeltaRational 1 0)) 1 +
              DeltaRational (- 2) 0)\<rparr>) = s3"
      by (simp add: s1_def s3_def t_def s6_def budget_eval) (auto simp add: fun_eq_iff)
    show "Tableau_pivot (d_tableau s3) 0 1 = t"
      by (simp add: Tableau_pivot_def ReducedRowVector_pivot_def substitute_def multiply_def
            s1_def s3_def t_def s6_def budget_eval)
        (auto simp add: fun_eq_iff ReducedRowVector_pivot_def substitute_def multiply_def
            has_simps lookup_def)
    show "checkBasicVariable ((pivotAndUpdate_countPivot s3)\<lparr>d_tableau := t\<rparr>) 1 = s6"
      by (simp add: pivotAndUpdate_countPivot_def s1_def s3_def t_def s6_def budget_eval)
    show "pivotAndUpdate_debugFoundConflict s6 1 = state_budget_5"
      by (simp add: pivotAndUpdate_debugFoundConflict_def state_budget_5_def selectSlackBelow_def
            selectSlackAbove_def selectSlack_def strictlyBelowUpperBound_def
            strictlyAboveLowerBound_def getRowCount_def UINT32_MAX_def ARITHVAR_SENTINEL_def
          s1_def s3_def t_def s6_def budget_eval)
  qed
  have early: "checkBasicForConflict state_budget_5 1 = NullNode"
    by (simp add: checkBasicForConflict_def state_budget_5_def selectSlackBelow_def
          selectSlackAbove_def selectSlack_def strictlyBelowUpperBound_def
          strictlyAboveLowerBound_def getRowCount_def UINT32_MAX_def ARITHVAR_SENTINEL_def
          s1_def s3_def t_def s6_def budget_eval)
  show ?thesis
    by (simp add: privateUpdateInconsistentVars_body_def sel Let_def cond slack bound piv early
          ARITHVAR_SENTINEL_def isNull_def del: One_nat_def)
qed

lemma budget_step_5:
  "privateUpdateInconsistentVars_body state_budget_5 = Continue state_budget_6"
proof -
  define s1 where "s1 =
     budget_state
       (\<lambda>x. if x = 0 then DeltaRational 1 0 else
          if x = 1 then DeltaRational (- 3) 0 else if x = 2 then DeltaRational (- 2) 0 else
          if x = 3 then DeltaRational 3 0 else if x = 4 then DeltaRational (- 3) 0 else
          DeltaRational 0 0)
       \<lparr>d_activeBasicVars = [2, 1],
         d_rowsTable =
           (\<lambda>b. if b = 1 then [(0, 3), (1, - 1), (3, - 1), (4, 1)] else
            if b = 2 then [(0, 1), (2, - 1), (3, - 1)] else
            [])\<rparr>
       (\<lambda>x. if x = 0 then 1 else if x = 1 then 1 else if x = 2 then 1 else
          if x = 4 then 2 else 0)
       [(1, DeltaRational 1 0), (0, DeltaRational (2 / 3) 0)] 5"
  define s3 where "s3 =
     budget_state
       (\<lambda>x. if x = 0 then DeltaRational 1 0 else
          if x = 1 then DeltaRational (- 2) 0 else if x = 2 then DeltaRational (- 2) 0 else
          if x = 3 then DeltaRational 3 0 else if x = 4 then DeltaRational (- 2) 0 else
          DeltaRational 0 0)
       \<lparr>d_activeBasicVars = [2, 1],
         d_rowsTable =
           (\<lambda>b. if b = 1 then [(0, 3), (1, - 1), (3, - 1), (4, 1)] else
            if b = 2 then [(0, 1), (2, - 1), (3, - 1)] else
            [])\<rparr>
       (\<lambda>x. if x = 0 then 1 else if x = 1 then 1 else if x = 2 then 1 else
          if x = 4 then 2 else 0)
       [(1, DeltaRational 1 0), (0, DeltaRational (2 / 3) 0)] 5"
  define t where "t =
       \<lparr>d_activeBasicVars = [2, 4],
         d_rowsTable =
           (\<lambda>b. if b = 2 then [(0, 1), (2, - 1), (3, - 1)] else
            if b = 4 then [(0, - 3), (1, 1), (3, 1), (4, - 1)] else
            [])\<rparr>"
  define s6 where "s6 =
     budget_state
       (\<lambda>x. if x = 0 then DeltaRational 1 0 else
          if x = 1 then DeltaRational (- 2) 0 else if x = 2 then DeltaRational (- 2) 0 else
          if x = 3 then DeltaRational 3 0 else if x = 4 then DeltaRational (- 2) 0 else
          DeltaRational 0 0)
       \<lparr>d_activeBasicVars = [2, 4],
         d_rowsTable =
           (\<lambda>b. if b = 2 then [(0, 1), (2, - 1), (3, - 1)] else
            if b = 4 then [(0, - 3), (1, 1), (3, 1), (4, - 1)] else
            [])\<rparr>
       (\<lambda>x. if x = 0 then 1 else if x = 1 then 1 else if x = 2 then 1 else
          if x = 4 then 2 else 0)
       [(1, DeltaRational 1 0), (0, DeltaRational (2 / 3) 0)] 6"
  have sel: "selectSmallestInconsistentVar state_budget_5 = (1, s1)"
    by (simp add: state_budget_5_def selectSmallestInconsistentVar_def
          s1_def s3_def t_def s6_def budget_eval)
  have cond: "belowLowerBound (d_partialModel s1) 1 (getAssignment (d_partialModel s1) 1) True"
    by (simp add: s1_def s3_def t_def s6_def budget_eval)
  have slack: "selectSlackBelow s1 1 = 4"
    by (simp add: selectSlackBelow_def selectSlack_def strictlyBelowUpperBound_def
          strictlyAboveLowerBound_def getRowCount_def UINT32_MAX_def ARITHVAR_SENTINEL_def
          s1_def s3_def t_def s6_def budget_eval)
  have bound: "getLowerBound (d_partialModel s1) 1 = DeltaRational (- 2) 0"
    by (simp add: s1_def s3_def t_def s6_def budget_eval)
  have piv: "pivotAndUpdate s1 1 4 (DeltaRational (- 2) 0) = Some state_budget_6"
  proof (rule pivotAndUpdate_eval[where a = "1" and \<theta> = "DeltaRational 1 0"
        and ?s3.0 = s3 and t' = t and ?s6.0 = s6])
    show "lookup (Tableau_lookup (d_tableau s1) 1) 4 = 1"
      by (simp add: s1_def s3_def t_def s6_def budget_eval)
    show "(1::rat) \<noteq> 0"
      by simp
    show "times_Rational (DeltaRational (- 2) 0 - getAssignment (d_partialModel s1) 1)
        (inverse (1)) = DeltaRational 1 0"
      by (simp add: s1_def s3_def t_def s6_def budget_eval)
    show "pivotAndUpdate_loop 1 4 (DeltaRational 1 0) (d_activeBasicVars (d_tableau s1))
        (s1\<lparr>d_partialModel :=
           setAssignment (setAssignment (d_partialModel s1) 1 (DeltaRational (- 2) 0)) 4
           (getAssignment (setAssignment (d_partialModel s1) 1 (DeltaRational (- 2) 0)) 4 +
              DeltaRational 1 0)\<rparr>) = s3"
      by (simp add: s1_def s3_def t_def s6_def budget_eval) (auto simp add: fun_eq_iff)
    show "Tableau_pivot (d_tableau s3) 1 4 = t"
      by (simp add: Tableau_pivot_def ReducedRowVector_pivot_def substitute_def multiply_def
            s1_def s3_def t_def s6_def budget_eval)
        (auto simp add: fun_eq_iff ReducedRowVector_pivot_def substitute_def multiply_def
            has_simps lookup_def)
    show "checkBasicVariable ((pivotAndUpdate_countPivot s3)\<lparr>d_tableau := t\<rparr>) 4 = s6"
      by (simp add: pivotAndUpdate_countPivot_def s1_def s3_def t_def s6_def budget_eval)
    show "pivotAndUpdate_debugFoundConflict s6 4 = state_budget_6"
      by (simp add: pivotAndUpdate_debugFoundConflict_def state_budget_6_def selectSlackBelow_def
            selectSlackAbove_def selectSlack_def strictlyBelowUpperBound_def
            strictlyAboveLowerBound_def getRowCount_def UINT32_MAX_def ARITHVAR_SENTINEL_def
          s1_def s3_def t_def s6_def budget_eval)
  qed
  have early: "checkBasicForConflict state_budget_6 4 = NullNode"
    by (simp add: checkBasicForConflict_def state_budget_6_def selectSlackBelow_def
          selectSlackAbove_def selectSlack_def strictlyBelowUpperBound_def
          strictlyAboveLowerBound_def getRowCount_def UINT32_MAX_def ARITHVAR_SENTINEL_def
          s1_def s3_def t_def s6_def budget_eval)
  show ?thesis
    by (simp add: privateUpdateInconsistentVars_body_def sel Let_def cond slack bound piv early
          ARITHVAR_SENTINEL_def isNull_def del: One_nat_def)
qed

lemma state_budget_eq: "state_budget = state_budget_0"
  apply (simp add: state_budget_def state_budget_0_def budget_state_def budget_lowerBound_def
      budget_upperBound_def tableau_budget_def eval_defs)
  apply (auto simp add: fun_eq_iff literal_def)
  done
lemma pivotAndUpdate_frame:
  assumes "pivotAndUpdate s xi xj v = Some s'"
  shows "d_pivotStage s' = d_pivotStage s"
    and "d_numVariables s' = d_numVariables s"
    and "d_statPivots (d_statistics s') = d_statPivots (d_statistics s) + 1"
    and "d_out s' = d_out s"
  using assms
  by (auto simp add: pivotAndUpdate_def Let_def pivotAndUpdate_debugFoundConflict_frame
        checkBasicVariable_frame pivotAndUpdate_countPivot_frame pivotAndUpdate_loop_frame
      split: if_splits)

lemma privateUpdateInconsistentVars_body_Continue:
  assumes "privateUpdateInconsistentVars_body s = Continue s'"
  shows "d_pivotStage s' = d_pivotStage s"
    and "d_numVariables s' = d_numVariables s"
    and "d_statPivots (d_statistics s') = d_statPivots (d_statistics s) + 1"
proof -
  obtain xi s1 where sel: "selectSmallestInconsistentVar s = (xi, s1)"
    by (cases "selectSmallestInconsistentVar s")
  have s1: "d_pivotStage s1 = d_pivotStage s" "d_numVariables s1 = d_numVariables s"
      "d_statistics s1 = d_statistics s"
    using selectSmallestInconsistentVar_frame[of s] by (simp_all add: sel)
  from assms obtain xj v where "pivotAndUpdate s1 xi xj v = Some s'"
    by (auto simp add: privateUpdateInconsistentVars_body_def sel Let_def
          split: if_splits option.splits)
  from pivotAndUpdate_frame[OF this] s1
  show "d_pivotStage s' = d_pivotStage s"
    and "d_numVariables s' = d_numVariables s"
    and "d_statPivots (d_statistics s') = d_statPivots (d_statistics s) + 1"
    by simp_all
qed

lemma privateUpdateInconsistentVars_body_Return:
  assumes "privateUpdateInconsistentVars_body s = Return n s'"
  shows "d_statPivots (d_statistics s') \<le> d_statPivots (d_statistics s) + 1"
proof -
  obtain xi s1 where sel: "selectSmallestInconsistentVar s = (xi, s1)"
    by (cases "selectSmallestInconsistentVar s")
  have s1: "d_statistics s1 = d_statistics s"
    using selectSmallestInconsistentVar_frame[of s] by (simp add: sel)
  from assms have "d_statPivots (d_statistics s') = d_statPivots (d_statistics s1) \<or>
      (\<exists>xj v. pivotAndUpdate s1 xi xj v = Some s')"
    by (auto simp add: privateUpdateInconsistentVars_body_def sel Let_def
          split: if_splits option.splits)
  then show ?thesis
    using s1 pivotAndUpdate_frame(3) by fastforce
qed

lemma griggioStage_count: "fst (griggioStage k s) \<le> k"
  by (induction k arbitrary: s) (simp_all add: split_beta split: LoopStep.splits)

lemma griggioStage_exhausted:
  "snd (griggioStage k s) = Continue s' \<Longrightarrow>
   fst (griggioStage k s) = k \<and> d_pivotStage s' = d_pivotStage s \<and>
   d_numVariables s' = d_numVariables s \<and>
   d_statPivots (d_statistics s') = d_statPivots (d_statistics s) + k"
proof (induction k arbitrary: s)
  case 0
  then show ?case by simp
next
  case (Suc k)
  from Suc.prems obtain s1 where b: "privateUpdateInconsistentVars_body s = Continue s1"
      and r: "snd (griggioStage k s1) = Continue s'"
    by (auto split: LoopStep.splits prod.splits)
  from Suc.IH[OF r] privateUpdateInconsistentVars_body_Continue[OF b]
  show ?case by (simp add: b split_beta)
qed

lemma griggioStage_returned:
  "snd (griggioStage k s) = Return n s' \<Longrightarrow>
   d_statPivots (d_statistics s') \<le> d_statPivots (d_statistics s) + fst (griggioStage k s)"
proof (induction k arbitrary: s)
  case 0
  then show ?case by simp
next
  case (Suc k)
  show ?case
  proof (cases "privateUpdateInconsistentVars_body s")
    case (Return m t)
    with Suc.prems privateUpdateInconsistentVars_body_Return[OF Return]
    show ?thesis by simp
  next
    case (Continue s1)
    with Suc.prems have r: "snd (griggioStage k s1) = Return n s'"
      by (simp add: split_beta)
    from Suc.IH[OF r] privateUpdateInconsistentVars_body_Continue(3)[OF Continue]
    show ?thesis by (simp add: Continue split_beta)
  next
    case Abort
    with Suc.prems show ?thesis by simp
  qed
qed

lemma privateUpdateInconsistentVars_from_griggio:
  assumes "d_pivotStage s" and "d_numVariables s < UINT32_MAX"
    and "n + k = d_numVariables s + 1"
  shows "privateUpdateInconsistentVars_from n s =
           (case snd (griggioStage k s) of
              Return r s' \<Rightarrow> Some (r, s')
            | Continue s' \<Rightarrow> privateUpdateInconsistentVars_from 0 (migrate s')
            | Abort \<Rightarrow> None)"
  using assms
proof (induction k arbitrary: n s)
  case 0
  then show ?case
    by (subst privateUpdateInconsistentVars_from.simps) simp
next
  case (Suc k)
  then have n: "n \<le> d_numVariables s" "(n + 1) mod 2 ^ 32 = n + 1"
    by (simp_all add: UINT32_MAX_def)
  show ?case
  proof (cases "privateUpdateInconsistentVars_body s")
    case (Return m t)
    then show ?thesis
      using n by (subst privateUpdateInconsistentVars_from.simps) simp
  next
    case (Continue s1)
    note f = privateUpdateInconsistentVars_body_Continue[OF Continue]
    have "privateUpdateInconsistentVars_from (n + 1) s1 =
        (case snd (griggioStage k s1) of
           Return r s' \<Rightarrow> Some (r, s')
         | Continue s' \<Rightarrow> privateUpdateInconsistentVars_from 0 (migrate s')
         | Abort \<Rightarrow> None)"
      using Suc.prems f by (intro Suc.IH) simp_all
    then show ?thesis
      using n Continue
      by (subst privateUpdateInconsistentVars_from.simps) (simp add: split_beta)
  next
    case Abort
    then show ?thesis
      using n by (subst privateUpdateInconsistentVars_from.simps) simp
  qed
qed

lemma migrate_loop_set:
  "set (migrate_loop s q p) =
     set p \<union> {x \<in> fst ` set q. isMember (d_basicManager s) x}"
  by (induction q arbitrary: p)
     (auto simp add: Let_def ArithVarPQueue_push_def set_insort_key)


lemma migrate_frame:
  "d_partialModel (migrate s) = d_partialModel s"
  "d_tableau (migrate s) = d_tableau s"
  "d_statistics (migrate s) = d_statistics s"
  "d_numVariables (migrate s) = d_numVariables s"
  "d_out (migrate s) = d_out s"
  "d_griggioRuleQueue (migrate s) = []"
  "\<not> d_pivotStage (migrate s)"
  by (simp_all add: migrate_def)

lemma privateUpdateInconsistentVars_from_Continue:
  assumes "privateUpdateInconsistentVars_body s = Continue s'"
    and "d_pivotStage s" and "k \<le> d_numVariables s" and "k < UINT32_MAX" and "k' = k + 1"
  shows "privateUpdateInconsistentVars_from k s = privateUpdateInconsistentVars_from k' s'"
  using assms
  by (subst privateUpdateInconsistentVars_from.simps) (simp add: UINT32_MAX_def)

lemma state_budget_fields:
  "d_pivotStage state_budget_0" "d_numVariables state_budget_0 = 5"
  "d_statPivots (d_statistics state_budget_0) = 0"
  "d_pivotStage state_budget_1" "d_numVariables state_budget_1 = 5"
  "d_pivotStage state_budget_2" "d_numVariables state_budget_2 = 5"
  "d_pivotStage state_budget_3" "d_numVariables state_budget_3 = 5"
  "d_pivotStage state_budget_4" "d_numVariables state_budget_4 = 5"
  "d_pivotStage state_budget_5" "d_numVariables state_budget_5 = 5"
  "d_pivotStage state_budget_6" "d_numVariables state_budget_6 = 5"
  "d_statPivots (d_statistics state_budget_6) = 6"
  by (simp_all add: state_budget_0_def state_budget_1_def state_budget_2_def state_budget_3_def
        state_budget_4_def state_budget_5_def state_budget_6_def budget_state_def)

lemma griggioStage_budget: "griggioStage 6 state_budget_0 = (6, Continue state_budget_6)"
  by (simp add: eval_nat_numeral budget_step_0 budget_step_1 budget_step_2 budget_step_3
        budget_step_4 budget_step_5)

lemma migrate_state_budget_6:
  "d_possiblyInconsistent (migrate state_budget_6) = []"
  by (simp add: migrate_def state_budget_6_def budget_state_def isMember_def d_basicManager_def)

lemma bland_state_budget_6:
  "privateUpdateInconsistentVars_from 0 (migrate state_budget_6) =
     Some (NullNode, migrate state_budget_6)"
proof -
  have sel: "selectSmallestInconsistentVar (migrate state_budget_6) =
      (ARITHVAR_SENTINEL, migrate state_budget_6)"
    by (simp add: selectSmallestInconsistentVar_def migrate_frame migrate_state_budget_6)
  show ?thesis
    by (subst privateUpdateInconsistentVars_from.simps)
      (simp add: migrate_frame privateUpdateInconsistentVars_body_def sel)
qed

lemma state_budget_chain:
  "privateUpdateInconsistentVars_from 0 state_budget_0 =
     privateUpdateInconsistentVars_from 6 state_budget_6"
proof -
  have 1: "privateUpdateInconsistentVars_from 0 state_budget_0 =
      privateUpdateInconsistentVars_from 1 state_budget_1"
    by (rule privateUpdateInconsistentVars_from_Continue[OF budget_step_0])
      (simp_all add: state_budget_fields UINT32_MAX_def)
  have 2: "privateUpdateInconsistentVars_from 1 state_budget_1 =
      privateUpdateInconsistentVars_from 2 state_budget_2"
    by (rule privateUpdateInconsistentVars_from_Continue[OF budget_step_1])
      (simp_all add: state_budget_fields UINT32_MAX_def)
  have 3: "privateUpdateInconsistentVars_from 2 state_budget_2 =
      privateUpdateInconsistentVars_from 3 state_budget_3"
    by (rule privateUpdateInconsistentVars_from_Continue[OF budget_step_2])
      (simp_all add: state_budget_fields UINT32_MAX_def)
  have 4: "privateUpdateInconsistentVars_from 3 state_budget_3 =
      privateUpdateInconsistentVars_from 4 state_budget_4"
    by (rule privateUpdateInconsistentVars_from_Continue[OF budget_step_3])
      (simp_all add: state_budget_fields UINT32_MAX_def)
  have 5: "privateUpdateInconsistentVars_from 4 state_budget_4 =
      privateUpdateInconsistentVars_from 5 state_budget_5"
    by (rule privateUpdateInconsistentVars_from_Continue[OF budget_step_4])
      (simp_all add: state_budget_fields UINT32_MAX_def)
  have 6: "privateUpdateInconsistentVars_from 5 state_budget_5 =
      privateUpdateInconsistentVars_from 6 state_budget_6"
    by (rule privateUpdateInconsistentVars_from_Continue[OF budget_step_5])
      (simp_all add: state_budget_fields UINT32_MAX_def)
  show ?thesis
    by (simp only: 1 2 3 4 5 6)
qed

lemma state_budget_exhausted:
  "privateUpdateInconsistentVars_from 6 state_budget_6 =
     privateUpdateInconsistentVars_from 0 (migrate state_budget_6)"
  by (subst privateUpdateInconsistentVars_from.simps) (simp add: state_budget_fields)

lemma state_budget_0_initialConflict:
  "selectInitialConflict state_budget_0 = (NullNode, state_budget_0)"
proof -
  have c: "checkBasicForConflict s' 4 = NullNode" "checkBasicForConflict s' 3 = NullNode"
    if "d_partialModel s' = d_partialModel state_budget_0"
       "d_tableau s' = d_tableau state_budget_0"
       "d_pivotStage s' = d_pivotStage state_budget_0" for s'
  proof -
    have "checkBasicForConflict state_budget_0 4 = NullNode"
        "checkBasicForConflict state_budget_0 3 = NullNode"
      by (simp_all add: checkBasicForConflict_def state_budget_0_def selectSlackBelow_def
            selectSlackAbove_def selectSlack_def strictlyBelowUpperBound_def
            strictlyAboveLowerBound_def getRowCount_def UINT32_MAX_def ARITHVAR_SENTINEL_def
            budget_eval)
    then show "checkBasicForConflict s' 4 = NullNode" "checkBasicForConflict s' 3 = NullNode"
      using checkBasicForConflict_cong[OF that] by simp_all
  qed
  have q: "d_griggioRuleQueue state_budget_0 =
      [(4, DeltaRational 2 0), (3, DeltaRational 2 0), (3, DeltaRational 2 0),
       (4, DeltaRational 1 0), (4, DeltaRational 1 0)]"
    by (simp add: state_budget_0_def budget_state_def)
  have st: "\<not> staleEntry state_budget_0 4" "\<not> staleEntry state_budget_0 3"
    by (simp_all add: staleEntry_def state_budget_0_def budget_eval)
  have e: "state_budget_0\<lparr>d_griggioRuleQueue :=
      [(4, DeltaRational 2 0), (3, DeltaRational 2 0), (3, DeltaRational 2 0),
       (4, DeltaRational 1 0), (4, DeltaRational 1 0)]\<rparr> = state_budget_0"
    by (simp add: state_budget_0_def budget_state_def)
  show ?thesis
    by (simp add: selectInitialConflict_def selectInitialConflict_collect_eq q st Let_def c
          isNull_def less_DeltaRational_def e)
qed

lemma state_budget_check:
  "updateInconsistentVars state_budget_0 =
     Some (NullNode, state_budget_6\<lparr>d_griggioRuleQueue := []\<rparr>)"
proof -
  have r: "state_budget_0\<lparr>d_foundAConflict := False, d_pivotsSinceConflict := 0\<rparr> =
      state_budget_0"
    by (simp add: state_budget_0_def budget_state_def)
  have q: "d_griggioRuleQueue state_budget_0 \<noteq> []" "1 < length (d_griggioRuleQueue state_budget_0)"
    by (simp_all add: state_budget_0_def budget_state_def)
  have p: "privateUpdateInconsistentVars state_budget_0 = Some (NullNode, migrate state_budget_6)"
    by (simp only: privateUpdateInconsistentVars_def state_budget_chain state_budget_exhausted
          bland_state_budget_6)
  have f: "(migrate state_budget_6)\<lparr>d_pivotStage := True, d_griggioRuleQueue := [],
        d_possiblyInconsistent := []\<rparr> = state_budget_6\<lparr>d_griggioRuleQueue := []\<rparr>"
    by (simp add: migrate_def state_budget_6_def budget_state_def)
  show ?thesis
    by (simp add: updateInconsistentVars_def q r state_budget_0_initialConflict p isNull_def f
          del: One_nat_def)
qed

text \<open>
  Claim C6 as stated fails in its bound. The loop of \<open>privateUpdateInconsistentVars\<close> runs
  while \<open>iteratationNum \<le> numVariables\<close>, with \<open>iteratationNum\<close> counted from 0, so up to
  \<open>numVariables + 1\<close> times. Over five variables, after the nine assertions of
  \<open>state_budget\<close>, \<open>updateInconsistentVars\<close> finds no initial conflict and calls
  \<open>privateUpdateInconsistentVars\<close> on that state, where the loop passes six times through
  its body in the Griggio stage, each pass pivoting and none returning: the passes with
  \<open>iteratationNum\<close> from 0 to 5 lead from \<open>state_budget_0\<close> to \<open>state_budget_6\<close>, where six
  pivots are counted. The check then returns null, with no pivot in the Bland stage.
\<close>

theorem privateUpdateInconsistentVars_budget_counterexample:
  "state_budget = state_budget_0 \<and>
   d_pivotStage state_budget \<and> d_numVariables state_budget = 5 \<and>
   selectInitialConflict state_budget = (NullNode, state_budget) \<and>
   map privateUpdateInconsistentVars_body
     [state_budget_0, state_budget_1, state_budget_2, state_budget_3, state_budget_4,
      state_budget_5] =
     map Continue
       [state_budget_1, state_budget_2, state_budget_3, state_budget_4, state_budget_5,
        state_budget_6] \<and>
   privateUpdateInconsistentVars_from 0 state_budget =
     privateUpdateInconsistentVars_from 6 state_budget_6 \<and>
   griggioStage 6 state_budget = (6, Continue state_budget_6) \<and>
   d_statPivots (d_statistics state_budget) = 0 \<and>
   d_statPivots (d_statistics state_budget_6) = 6 \<and>
   updateInconsistentVars state_budget =
     Some (NullNode, state_budget_6\<lparr>d_griggioRuleQueue := []\<rparr>)"
  by (simp add: state_budget_eq state_budget_fields griggioStage_budget budget_step_0
        budget_step_1 budget_step_2 budget_step_3 budget_step_4 budget_step_5
        state_budget_chain state_budget_0_initialConflict state_budget_check)

text \<open>
  Claim C6, amended. In every call to \<open>privateUpdateInconsistentVars\<close> with \<open>pivotStage\<close>
  true and \<open>numVariables\<close> below the largest 32-bit value, the loop of the Griggio stage
  passes at most \<open>numVariables + 1\<close> times through its body; each pass selects one
  variable and pivots at most once. The call returns what a pass returns; if the
  \<open>numVariables + 1\<close> passes are exhausted without returning, each of them has pivoted
  once, the variables of the Griggio queue that are basic are added to the Bland queue,
  the Griggio queue is emptied, \<open>pivotStage\<close> is set to false (nothing else changes) and
  the procedure goes on from there in the Bland stage, whose loop has no bound on its
  passes.
\<close>

theorem privateUpdateInconsistentVars_budget:
  assumes "d_pivotStage s" and "d_numVariables s < UINT32_MAX"
  shows "fst (griggioStage (d_numVariables s + 1) s) \<le> d_numVariables s + 1 \<and>
     privateUpdateInconsistentVars s =
       (case snd (griggioStage (d_numVariables s + 1) s) of
          Return r s' \<Rightarrow> Some (r, s')
        | Continue s' \<Rightarrow> privateUpdateInconsistentVars_from 0 (migrate s')
        | Abort \<Rightarrow> None) \<and>
     (\<forall>r s'. snd (griggioStage (d_numVariables s + 1) s) = Return r s' \<longrightarrow>
        d_statPivots (d_statistics s') \<le>
          d_statPivots (d_statistics s) + fst (griggioStage (d_numVariables s + 1) s)) \<and>
     (\<forall>s'. snd (griggioStage (d_numVariables s + 1) s) = Continue s' \<longrightarrow>
        fst (griggioStage (d_numVariables s + 1) s) = d_numVariables s + 1 \<and>
        d_statPivots (d_statistics s') = d_statPivots (d_statistics s) + (d_numVariables s + 1) \<and>
        d_pivotStage s' \<and>
        migrate s' =
          s'\<lparr>d_possiblyInconsistent :=
                migrate_loop s' (d_griggioRuleQueue s') (d_possiblyInconsistent s'),
              d_griggioRuleQueue := [], d_pivotStage := False\<rparr> \<and>
        set (d_possiblyInconsistent (migrate s')) =
          set (d_possiblyInconsistent s') \<union>
            {x \<in> fst ` set (d_griggioRuleQueue s'). isMember (d_basicManager s') x}) \<and>
     (\<forall>k b. \<not> d_pivotStage b \<longrightarrow>
        privateUpdateInconsistentVars_from k b =
          (case privateUpdateInconsistentVars_body b of
             Return r b' \<Rightarrow> Some (r, b')
           | Continue b' \<Rightarrow> privateUpdateInconsistentVars_from ((k + 1) mod 2 ^ 32) b'
           | Abort \<Rightarrow> None))"
proof -
  let ?g = "griggioStage (d_numVariables s + 1) s"
  have c: "fst ?g \<le> d_numVariables s + 1"
    by (rule griggioStage_count)
  have f: "privateUpdateInconsistentVars s =
       (case snd ?g of
          Return r s' \<Rightarrow> Some (r, s')
        | Continue s' \<Rightarrow> privateUpdateInconsistentVars_from 0 (migrate s')
        | Abort \<Rightarrow> None)"
    unfolding privateUpdateInconsistentVars_def
    by (rule privateUpdateInconsistentVars_from_griggio[OF assms]) simp
  have r: "\<forall>r s'. snd ?g = Return r s' \<longrightarrow>
        d_statPivots (d_statistics s') \<le> d_statPivots (d_statistics s) + fst ?g"
    using griggioStage_returned by blast
  have e: "\<forall>s'. snd ?g = Continue s' \<longrightarrow>
        fst ?g = d_numVariables s + 1 \<and>
        d_statPivots (d_statistics s') = d_statPivots (d_statistics s) + (d_numVariables s + 1) \<and>
        d_pivotStage s' \<and>
        migrate s' =
          s'\<lparr>d_possiblyInconsistent :=
                migrate_loop s' (d_griggioRuleQueue s') (d_possiblyInconsistent s'),
              d_griggioRuleQueue := [], d_pivotStage := False\<rparr> \<and>
        set (d_possiblyInconsistent (migrate s')) =
          set (d_possiblyInconsistent s') \<union>
            {x \<in> fst ` set (d_griggioRuleQueue s'). isMember (d_basicManager s') x}"
  proof (intro allI impI)
    fix s'
    assume "snd ?g = Continue s'"
    from griggioStage_exhausted[OF this] assms(1)
    show "fst ?g = d_numVariables s + 1 \<and>
        d_statPivots (d_statistics s') = d_statPivots (d_statistics s) + (d_numVariables s + 1) \<and>
        d_pivotStage s' \<and>
        migrate s' =
          s'\<lparr>d_possiblyInconsistent :=
                migrate_loop s' (d_griggioRuleQueue s') (d_possiblyInconsistent s'),
              d_griggioRuleQueue := [], d_pivotStage := False\<rparr> \<and>
        set (d_possiblyInconsistent (migrate s')) =
          set (d_possiblyInconsistent s') \<union>
            {x \<in> fst ` set (d_griggioRuleQueue s'). isMember (d_basicManager s') x}"
      by (simp add: migrate_def migrate_loop_set)
  qed
  have b: "\<forall>k b. \<not> d_pivotStage b \<longrightarrow>
        privateUpdateInconsistentVars_from k b =
          (case privateUpdateInconsistentVars_body b of
             Return r b' \<Rightarrow> Some (r, b')
           | Continue b' \<Rightarrow> privateUpdateInconsistentVars_from ((k + 1) mod 2 ^ 32) b'
           | Abort \<Rightarrow> None)"
  proof (intro allI impI)
    fix k and b :: SimplexDecisionProcedure
    assume "\<not> d_pivotStage b"
    then show "privateUpdateInconsistentVars_from k b =
          (case privateUpdateInconsistentVars_body b of
             Return r b' \<Rightarrow> Some (r, b')
           | Continue b' \<Rightarrow> privateUpdateInconsistentVars_from ((k + 1) mod 2 ^ 32) b'
           | Abort \<Rightarrow> None)"
      by (subst privateUpdateInconsistentVars_from.simps) simp
  qed
  show ?thesis
    by (intro conjI c f r e b)
qed

theorem privateUpdateInconsistentVars_budget_witness:
  "d_pivotStage state_budget \<and> d_numVariables state_budget = 5 \<and>
   d_numVariables state_budget < UINT32_MAX \<and>
   griggioStage 6 state_budget = (6, Continue state_budget_6) \<and>
   privateUpdateInconsistentVars state_budget = Some (NullNode, migrate state_budget_6) \<and>
   d_possiblyInconsistent (migrate state_budget_6) = [] \<and>
   d_statPivots (d_statistics (migrate state_budget_6)) = 6"
proof -
  have p: "d_pivotStage state_budget" and n: "d_numVariables state_budget = 5"
    by (simp_all add: state_budget_eq state_budget_fields)
  have u: "d_numVariables state_budget < UINT32_MAX"
    by (simp add: n UINT32_MAX_def)
  have six: "d_numVariables state_budget + 1 = 6"
    by (simp add: n)
  have g: "griggioStage (d_numVariables state_budget + 1) state_budget =
      (6, Continue state_budget_6)"
    unfolding six by (simp only: state_budget_eq griggioStage_budget)
  note budget = privateUpdateInconsistentVars_budget[OF p u, unfolded g]
  from budget have "privateUpdateInconsistentVars state_budget =
      privateUpdateInconsistentVars_from 0 (migrate state_budget_6)"
    by simp
  then have r: "privateUpdateInconsistentVars state_budget =
      Some (NullNode, migrate state_budget_6)"
    by (simp add: bland_state_budget_6)
  have g6: "griggioStage 6 state_budget = (6, Continue state_budget_6)"
    by (simp add: state_budget_eq griggioStage_budget)
  have s: "d_statPivots (d_statistics (migrate state_budget_6)) = 6"
    by (simp add: migrate_frame state_budget_fields)
  show ?thesis
    by (intro conjI p n u g6 r migrate_state_budget_6 s)
qed


end
